theory Spec2Isabelle
  imports Complex_Main "HOL-Library.Word"
begin

unbundle bit_operations_syntax

section \<open>Embedding of the websocket session engine (lonelypss/routes/websocket\_endpoint.py)\<close>

subsection \<open>Bytes, integers and exceptions\<close>

type_synonym byte = "8 word"
type_synonym bytes = "byte list"

text \<open>A Python \<open>str\<close> is a sequence of Unicode code points.\<close>

type_synonym pystr = "nat list"

text \<open>Every exception the modelled code raises, with the message of the \<open>raise\<close>.\<close>

datatype error =
    ValueError string
  | PyException string
  | KeyError string
  | TypeError string
  | OverflowError
  | UnicodeDecodeError
  | UnicodeEncodeError
  | AssertionError

text \<open>\<open>n.to_bytes(size, "big")\<close> on a non-negative \<open>n\<close>; Python raises
  OverflowError when the value does not fit (or is negative).\<close>

definition be_bytes :: "nat \<Rightarrow> nat \<Rightarrow> bytes" where
  "be_bytes sz n = map (\<lambda>i. of_nat (n div 256 ^ (sz - 1 - i) mod 256)) [0..<sz]"

definition to_bytes :: "int \<Rightarrow> nat \<Rightarrow> error + bytes" where
  "to_bytes n sz =
     (if n < 0 \<or> 256 ^ sz \<le> n then Inl OverflowError else Inr (be_bytes sz (nat n)))"

text \<open>\<open>int.from_bytes(b, "big")\<close>.\<close>

definition from_bytes :: "bytes \<Rightarrow> nat" where
  "from_bytes b = foldl (\<lambda>acc x. acc * 256 + unat x) 0 b"

subsection \<open>Configuration consumed by the session\<close>

record Config =
  message_body_spool_size :: int
  outgoing_max_ws_message_size :: "int option"
  websocket_max_pending_sends :: "nat option"
  websocket_max_unprocessed_receives :: "nat option"
  websocket_send_max_unacknowledged :: "nat option"
  websocket_minimal_headers :: bool
  compression_allowed :: bool
  allow_training :: bool
  compression_min_size :: int
  compression_trained_max_size :: int
  compression_training_low_watermark :: int
  compression_training_high_watermark :: int
  compression_retrain_interval_seconds :: real

subsection \<open>Dictionary training data\<close>

text \<open>\<open>_CompressorTrainingDataCollector\<close>; the field \<open>length\<close> of the source is
  \<open>length_c\<close> here, and the temporary file is its content.\<close>

record CompressorTrainingDataCollector =
  started_at :: real
  messages :: int
  length_c :: int
  tmpfile :: bytes

datatype CompressorTrainingInfo =
    BeforeLowWatermark CompressorTrainingDataCollector bool
  | BeforeHighWatermark CompressorTrainingDataCollector bool
  | WaitingToRefresh real

text \<open>Python floats and the clock. A float is represented by the real number it
  denotes. The code reads the clock (\<open>time.time()\<close>) and uses two operations of the
  host's IEEE-754 arithmetic on floats, \<open>+\<close> (which rounds) and \<open><\<close>; all three are
  parameters of the model, and no property of the two operations is assumed.\<close>

record Host =
  time_now :: real
  float_add :: "real \<Rightarrow> real \<Rightarrow> real"
  float_lt :: "real \<Rightarrow> real \<Rightarrow> bool"

text \<open>The part of \<open>_StateOpen\<close> the training functions read and write.\<close>

record TrainingState =
  broadcaster_config :: Config
  training_data :: "CompressorTrainingInfo option"

text \<open>\<open>_handle_if_should_start_retraining\<close>.\<close>

definition handle_if_should_start_retraining ::
  "'h Host_scheme \<Rightarrow> 'a TrainingState_scheme \<Rightarrow> 'a TrainingState_scheme" where
  "handle_if_should_start_retraining host state =
     (case training_data state of
        None \<Rightarrow> state
      | Some (WaitingToRefresh last_refreshed_at) \<Rightarrow>
          let next_refresh = float_add host last_refreshed_at
                 (compression_retrain_interval_seconds (broadcaster_config state));
              now = time_now host
          in if float_lt host now next_refresh
             then state
             else state\<lparr>training_data := Some (BeforeHighWatermark
                    \<lparr>started_at = now, messages = 0, length_c = 0, tmpfile = []\<rparr> False)\<rparr>
      | Some _ \<Rightarrow> state)"

text \<open>Writing one sample: the four-byte length prefix, the data, the counters, the
  dirty flag. \<open>length.to_bytes(4, "big")\<close> raises before anything is written.\<close>

definition write_sample ::
  "bytes \<Rightarrow> CompressorTrainingInfo \<Rightarrow> error + CompressorTrainingInfo" where
  "write_sample data info =
     (case to_bytes (int (length data)) 4 of
        Inl e \<Rightarrow> Inl e
      | Inr prefix \<Rightarrow>
          let feed = (\<lambda>c. c\<lparr>tmpfile := tmpfile c @ prefix @ data,
                            messages := messages c + 1,
                            length_c := length_c c + int (length data)\<rparr>)
          in (case info of
                BeforeLowWatermark c _ \<Rightarrow> Inr (BeforeLowWatermark (feed c) True)
              | BeforeHighWatermark c _ \<Rightarrow> Inr (BeforeHighWatermark (feed c) True)
              | WaitingToRefresh t \<Rightarrow> Inr (WaitingToRefresh t)))"

text \<open>\<open>_store_small_for_compression_training\<close>: the result is the raised exception
  (if any) and the state as the call leaves it.\<close>

definition store_small_for_compression_training ::
  "'h Host_scheme \<Rightarrow> bytes \<Rightarrow> 'a TrainingState_scheme \<Rightarrow> error option \<times> 'a TrainingState_scheme" where
  "store_small_for_compression_training host data state =
     (if training_data state = None then (None, state)
      else if compression_min_size (broadcaster_config state) > int (length data)
        then (None, state)
      else if compression_trained_max_size (broadcaster_config state) \<le> int (length data)
        then (None, state)
      else
        let state1 = handle_if_should_start_retraining host state in
        (case training_data state1 of
           None \<Rightarrow> (None, state1)
         | Some (WaitingToRefresh t) \<Rightarrow> (None, state1)
         | Some info \<Rightarrow>
             (case write_sample data info of
                Inl e \<Rightarrow> (Some e, state1)
              | Inr info' \<Rightarrow> (None, state1\<lparr>training_data := Some info'\<rparr>))))"

text \<open>\<open>_should_store_large_message_for_training\<close>: the answer and the state (the
  retraining check may have replaced \<open>training_data\<close>).\<close>

definition should_store_large_message_for_training ::
  "'h Host_scheme \<Rightarrow> int \<Rightarrow> 'a TrainingState_scheme \<Rightarrow> bool \<times> 'a TrainingState_scheme" where
  "should_store_large_message_for_training host len state =
     (if training_data state = None then (False, state)
      else if compression_trained_max_size (broadcaster_config state) \<le> len
        then (False, state)
      else if compression_min_size (broadcaster_config state) > len
        then (False, state)
      else
        let state1 = handle_if_should_start_retraining host state in
        (case training_data state1 of
           Some (WaitingToRefresh t) \<Rightarrow> (False, state1)
         | _ \<Rightarrow> (True, state1)))"

text \<open>Observers used to state the sampling claims: whether a collector is open, and how
  many samples it holds.\<close>

definition collecting :: "'a TrainingState_scheme \<Rightarrow> bool" where
  "collecting state =
     (case training_data state of
        Some (BeforeLowWatermark c d) \<Rightarrow> True
      | Some (BeforeHighWatermark c d) \<Rightarrow> True
      | _ \<Rightarrow> False)"

definition sample_count :: "'a TrainingState_scheme \<Rightarrow> int" where
  "sample_count state =
     (case training_data state of
        Some (BeforeLowWatermark c d) \<Rightarrow> messages c
      | Some (BeforeHighWatermark c d) \<Rightarrow> messages c
      | _ \<Rightarrow> 0)"

subsection \<open>Frame codec\<close>

text \<open>\<open>_ParsedWSMessageFlags\<close> is an \<open>IntFlag\<close>: any integer is a value of it, and
  only bit 0 has a name.\<close>

definition MINIMAL_HEADERS :: nat where
  "MINIMAL_HEADERS = 1"

datatype ParsedWSMessageType =
    CONFIGURE | SUBSCRIBE_EXACT | SUBSCRIBE_GLOB | UNSUBSCRIBE_EXACT | UNSUBSCRIBE_GLOB
  | NOTIFY | NOTIFY_STREAM | CONTINUE_RECEIVE | CONFIRM_RECEIVE

datatype OutgoingParsedWSMessageType =
    CONFIRM_CONFIGURE | CONFIRM_SUBSCRIBE_EXACT | CONFIRM_SUBSCRIBE_GLOB
  | CONFIRM_UNSUBSCRIBE_EXACT | CONFIRM_UNSUBSCRIBE_GLOB | CONFIRM_NOTIFY | CONTINUE_NOTIFY
  | RECEIVE_STREAM | ENABLE_ZSTD_PRESET | ENABLE_ZSTD_CUSTOM

text \<open>The values \<open>auto()\<close> gives the members, and the lookup \<open>_ParsedWSMessageType(n)\<close>,
  which raises ValueError on a number that is no member.\<close>

fun parsed_value :: "ParsedWSMessageType \<Rightarrow> nat" where
  "parsed_value CONFIGURE = 1"
| "parsed_value SUBSCRIBE_EXACT = 2"
| "parsed_value SUBSCRIBE_GLOB = 3"
| "parsed_value UNSUBSCRIBE_EXACT = 4"
| "parsed_value UNSUBSCRIBE_GLOB = 5"
| "parsed_value NOTIFY = 6"
| "parsed_value NOTIFY_STREAM = 7"
| "parsed_value CONTINUE_RECEIVE = 8"
| "parsed_value CONFIRM_RECEIVE = 9"

fun outgoing_value :: "OutgoingParsedWSMessageType \<Rightarrow> nat" where
  "outgoing_value CONFIRM_CONFIGURE = 1"
| "outgoing_value CONFIRM_SUBSCRIBE_EXACT = 2"
| "outgoing_value CONFIRM_SUBSCRIBE_GLOB = 3"
| "outgoing_value CONFIRM_UNSUBSCRIBE_EXACT = 4"
| "outgoing_value CONFIRM_UNSUBSCRIBE_GLOB = 5"
| "outgoing_value CONFIRM_NOTIFY = 6"
| "outgoing_value CONTINUE_NOTIFY = 7"
| "outgoing_value RECEIVE_STREAM = 8"
| "outgoing_value ENABLE_ZSTD_PRESET = 9"
| "outgoing_value ENABLE_ZSTD_CUSTOM = 10"

definition parsed_type_of_value :: "nat \<Rightarrow> error + ParsedWSMessageType" where
  "parsed_type_of_value n =
     (if n = 1 then Inr CONFIGURE
      else if n = 2 then Inr SUBSCRIBE_EXACT
      else if n = 3 then Inr SUBSCRIBE_GLOB
      else if n = 4 then Inr UNSUBSCRIBE_EXACT
      else if n = 5 then Inr UNSUBSCRIBE_GLOB
      else if n = 6 then Inr NOTIFY
      else if n = 7 then Inr NOTIFY_STREAM
      else if n = 8 then Inr CONTINUE_RECEIVE
      else if n = 9 then Inr CONFIRM_RECEIVE
      else Inl (ValueError ''not a valid _ParsedWSMessageType''))"

text \<open>\<open>_ParsedWSMessage\<close>; the field \<open>type\<close> is \<open>mtype\<close>. Header names are the ASCII
  strings the decoder produces; the dictionary is a map.\<close>

record ParsedWSMessage =
  flags :: nat
  mtype :: ParsedWSMessageType
  headers :: "string \<rightharpoonup> bytes"
  body :: bytes

fun STANDARD_MINIMAL_HEADERS_BY_TYPE :: "ParsedWSMessageType \<Rightarrow> string list option" where
  "STANDARD_MINIMAL_HEADERS_BY_TYPE CONFIGURE =
     Some [''x-subscriber-nonce'', ''x-enable-zstd'', ''x-enable-training'', ''x-initial-dict'']"
| "STANDARD_MINIMAL_HEADERS_BY_TYPE SUBSCRIBE_EXACT = Some [''authorization'', ''x-topic'']"
| "STANDARD_MINIMAL_HEADERS_BY_TYPE SUBSCRIBE_GLOB = Some [''authorization'', ''x-glob'']"
| "STANDARD_MINIMAL_HEADERS_BY_TYPE UNSUBSCRIBE_EXACT = Some [''authorization'', ''x-topic'']"
| "STANDARD_MINIMAL_HEADERS_BY_TYPE UNSUBSCRIBE_GLOB = Some [''authorization'', ''x-glob'']"
| "STANDARD_MINIMAL_HEADERS_BY_TYPE NOTIFY =
     Some [''authorization'', ''x-identifier'', ''x-topic'', ''x-compressor'',
           ''x-compressed-length'', ''x-decompressed-length'', ''x-compressed-sha512'']"
| "STANDARD_MINIMAL_HEADERS_BY_TYPE NOTIFY_STREAM = None"
| "STANDARD_MINIMAL_HEADERS_BY_TYPE CONTINUE_RECEIVE = Some [''x-part-id'', ''x-identifier'']"
| "STANDARD_MINIMAL_HEADERS_BY_TYPE CONFIRM_RECEIVE = Some [''x-identifier'']"

text \<open>Modelled from the spec: \<open>read_exact\<close> (lonelypss/util/sync\_io.py) is not among the
  sources. As its uses in the decoder require ("exactly N bytes"), it returns the next
  \<open>n\<close> bytes of the stream and the rest, and raises when fewer than \<open>n\<close> remain.\<close>

definition read_exact :: "bytes \<Rightarrow> nat \<Rightarrow> error + (bytes \<times> bytes)" where
  "read_exact stream n =
     (if length stream < n then Inl (ValueError ''not enough data'')
      else Inr (take n stream, drop n stream))"

text \<open>\<open>int.from_bytes(read_exact(stream, 2), "big")\<close>.\<close>

definition read_u16 :: "bytes \<Rightarrow> error + (nat \<times> bytes)" where
  "read_u16 stream =
     (case read_exact stream 2 of
        Inl e \<Rightarrow> Inl e
      | Inr (b, rest) \<Rightarrow> Inr (from_bytes b, rest))"

text \<open>One length-prefixed value: \<open>length = read 2 bytes; read_exact(stream, length)\<close>.\<close>

definition read_value :: "bytes \<Rightarrow> error + (bytes \<times> bytes)" where
  "read_value stream =
     (case read_u16 stream of
        Inl e \<Rightarrow> Inl e
      | Inr (len, rest) \<Rightarrow> read_exact rest len)"

text \<open>\<open>str.encode("ascii")\<close>, \<open>bytes.decode("ascii")\<close> and \<open>str.lower()\<close> on header
  names.\<close>

definition ascii_encode :: "string \<Rightarrow> error + bytes" where
  "ascii_encode name =
     (if list_all (\<lambda>c. (of_char c :: nat) < 128) name
      then Inr (map (\<lambda>c. of_nat (of_char c)) name)
      else Inl UnicodeEncodeError)"

definition ascii_decode :: "bytes \<Rightarrow> error + string" where
  "ascii_decode b =
     (if list_all (\<lambda>x. unat x < 128) b
      then Inr (map (\<lambda>x. char_of (unat x)) b)
      else Inl UnicodeDecodeError)"

definition lower_char :: "char \<Rightarrow> char" where
  "lower_char c =
     (if 65 \<le> (of_char c :: nat) \<and> (of_char c :: nat) \<le> 90
      then char_of ((of_char c :: nat) + 32) else c)"

definition lower :: "string \<Rightarrow> string" where
  "lower name = map lower_char name"

text \<open>The loop over the minimal header names.\<close>

fun read_minimal_headers ::
  "string list \<Rightarrow> (string \<rightharpoonup> bytes) \<Rightarrow> bytes \<Rightarrow> error + ((string \<rightharpoonup> bytes) \<times> bytes)" where
  "read_minimal_headers [] hdrs stream = Inr (hdrs, stream)"
| "read_minimal_headers (header # rest) hdrs stream =
     (case read_value stream of
        Inl e \<Rightarrow> Inl e
      | Inr (v, stream') \<Rightarrow> read_minimal_headers rest (hdrs(header \<mapsto> v)) stream')"

text \<open>The loop \<open>for _ in range(num_headers)\<close> of the expanded form.\<close>

fun read_expanded_headers ::
  "nat \<Rightarrow> (string \<rightharpoonup> bytes) \<Rightarrow> bytes \<Rightarrow> error + ((string \<rightharpoonup> bytes) \<times> bytes)" where
  "read_expanded_headers 0 hdrs stream = Inr (hdrs, stream)"
| "read_expanded_headers (Suc n) hdrs stream =
     (case read_value stream of
        Inl e \<Rightarrow> Inl e
      | Inr (name_enc, s1) \<Rightarrow>
          (case ascii_decode name_enc of
             Inl e \<Rightarrow> Inl e
           | Inr name_dec \<Rightarrow>
               (case read_value s1 of
                  Inl e \<Rightarrow> Inl e
                | Inr (v, s2) \<Rightarrow> read_expanded_headers n (hdrs(lower name_dec \<mapsto> v)) s2)))"

text \<open>The special minimal form of NOTIFY\_STREAM: three values with their size checks,
  then a list of names that depends on the part id.\<close>

definition read_notify_stream_minimal ::
  "bytes \<Rightarrow> error + ((string \<rightharpoonup> bytes) \<times> bytes)" where
  "read_notify_stream_minimal stream =
     (case read_value stream of
        Inl e \<Rightarrow> Inl e
      | Inr (authorization, s1) \<Rightarrow>
     (case read_u16 s1 of
        Inl e \<Rightarrow> Inl e
      | Inr (len_id, s2) \<Rightarrow>
     if len_id > 64 then Inl (ValueError ''message id max 64 bytes'') else
     (case read_exact s2 len_id of
        Inl e \<Rightarrow> Inl e
      | Inr (identifier, s3) \<Rightarrow>
     (case read_u16 s3 of
        Inl e \<Rightarrow> Inl e
      | Inr (len_part, s4) \<Rightarrow>
     if len_part > 8 then Inl (ValueError ''part id max 8 bytes'') else
     (case read_exact s4 len_part of
        Inl e \<Rightarrow> Inl e
      | Inr (part_id_bytes, s5) \<Rightarrow>
          let hdrs = [''authorization'' \<mapsto> authorization, ''x-identifier'' \<mapsto> identifier,
                      ''x-part-id'' \<mapsto> part_id_bytes];
              minimal_headers =
                (if from_bytes part_id_bytes = 0
                 then [''x-topic'', ''x-compressor'', ''x-compressed-length'',
                       ''x-decompressed-length'', ''x-compressed-sha512'']
                 else [''x-identifier''])
          in read_minimal_headers minimal_headers hdrs s5)))))"

text \<open>\<open>_parse_websocket_message\<close>.\<close>

definition parse_websocket_message :: "bytes \<Rightarrow> error + ParsedWSMessage" where
  "parse_websocket_message raw =
     (case read_u16 raw of
        Inl e \<Rightarrow> Inl e
      | Inr (fl, s1) \<Rightarrow>
     (case read_u16 s1 of
        Inl e \<Rightarrow> Inl e
      | Inr (tv, s2) \<Rightarrow>
     (case parsed_type_of_value tv of
        Inl e \<Rightarrow> Inl e
      | Inr message_type \<Rightarrow>
     (case (if fl AND MINIMAL_HEADERS \<noteq> 0
            then (if message_type = NOTIFY_STREAM then read_notify_stream_minimal s2
                  else read_minimal_headers
                         (the (STANDARD_MINIMAL_HEADERS_BY_TYPE message_type)) Map.empty s2)
            else (case read_u16 s2 of
                    Inl e \<Rightarrow> Inl e
                  | Inr (num_headers, s3) \<Rightarrow> read_expanded_headers num_headers Map.empty s3))
      of Inl e \<Rightarrow> Inl e
       | Inr (hdrs, rest) \<Rightarrow>
           Inr \<lparr>flags = fl, mtype = message_type, headers = hdrs, body = rest\<rparr>))))"

text \<open>The two header loops of \<open>_make_websocket_message\<close>; \<open>len(value).to_bytes(2, "big")\<close>
  raises OverflowError on a value of 65536 bytes or more.\<close>

fun write_minimal_headers :: "(string \<times> bytes) list \<Rightarrow> error + bytes" where
  "write_minimal_headers [] = Inr []"
| "write_minimal_headers ((name, v) # rest) =
     (case to_bytes (int (length v)) 2 of
        Inl e \<Rightarrow> Inl e
      | Inr lv \<Rightarrow>
          (case write_minimal_headers rest of
             Inl e \<Rightarrow> Inl e
           | Inr out \<Rightarrow> Inr (lv @ v @ out)))"

fun write_expanded_headers :: "(string \<times> bytes) list \<Rightarrow> error + bytes" where
  "write_expanded_headers [] = Inr []"
| "write_expanded_headers ((name, v) # rest) =
     (case ascii_encode name of
        Inl e \<Rightarrow> Inl e
      | Inr enc_name \<Rightarrow>
     (case to_bytes (int (length enc_name)) 2 of
        Inl e \<Rightarrow> Inl e
      | Inr lnm \<Rightarrow>
     (case to_bytes (int (length v)) 2 of
        Inl e \<Rightarrow> Inl e
      | Inr lv \<Rightarrow>
     (case write_expanded_headers rest of
        Inl e \<Rightarrow> Inl e
      | Inr out \<Rightarrow> Inr (lnm @ enc_name @ lv @ v @ out)))))"

text \<open>\<open>_make_websocket_message\<close>.\<close>

definition make_websocket_message ::
  "nat \<Rightarrow> OutgoingParsedWSMessageType \<Rightarrow> (string \<times> bytes) list \<Rightarrow> bytes \<Rightarrow> error + bytes" where
  "make_websocket_message fl message_type hdrs bdy =
     (case to_bytes (int fl) 2 of
        Inl e \<Rightarrow> Inl e
      | Inr fb \<Rightarrow>
     (case to_bytes (int (outgoing_value message_type)) 2 of
        Inl e \<Rightarrow> Inl e
      | Inr tb \<Rightarrow>
     (case (if fl AND MINIMAL_HEADERS \<noteq> 0 then write_minimal_headers hdrs
            else (case to_bytes (int (length hdrs)) 2 of
                    Inl e \<Rightarrow> Inl e
                  | Inr nb \<Rightarrow>
                      (case write_expanded_headers hdrs of
                         Inl e \<Rightarrow> Inl e
                       | Inr out \<Rightarrow> Inr (nb @ out))))
      of Inl e \<Rightarrow> Inl e
       | Inr hb \<Rightarrow> Inr (fb @ tb @ hb @ bdy))))"

subsection \<open>Text encodings used by the session\<close>

text \<open>\<open>bytes.decode("utf-8")\<close>, strict as in Python: overlong forms, surrogates, code
  points above U+10FFFF and truncated sequences raise UnicodeDecodeError (here \<open>None\<close>).\<close>

definition is_cont :: "byte \<Rightarrow> bool" where
  "is_cont b = (128 \<le> unat b \<and> unat b < 192)"

definition cont_bits :: "byte \<Rightarrow> nat" where
  "cont_bits b = unat b mod 64"

function utf8_decode :: "bytes \<Rightarrow> pystr option" where
  "utf8_decode [] = Some []"
| "utf8_decode (b0 # rest) =
     (let n0 = unat b0 in
      if n0 < 128 then map_option ((#) n0) (utf8_decode rest)
      else if 194 \<le> n0 \<and> n0 < 224 then
        (if length rest < 1 \<or> \<not> is_cont (rest ! 0) then None
         else map_option ((#) ((n0 - 192) * 64 + cont_bits (rest ! 0)))
                (utf8_decode (drop 1 rest)))
      else if 224 \<le> n0 \<and> n0 < 240 then
        (if length rest < 2 \<or> \<not> is_cont (rest ! 0) \<or> \<not> is_cont (rest ! 1) then None
         else let cp = (n0 - 224) * 4096 + cont_bits (rest ! 0) * 64 + cont_bits (rest ! 1)
              in if cp < 2048 \<or> (55296 \<le> cp \<and> cp < 57344) then None
                 else map_option ((#) cp) (utf8_decode (drop 2 rest)))
      else if 240 \<le> n0 \<and> n0 < 245 then
        (if length rest < 3 \<or> \<not> is_cont (rest ! 0) \<or> \<not> is_cont (rest ! 1)
            \<or> \<not> is_cont (rest ! 2) then None
         else let cp = (n0 - 240) * 262144 + cont_bits (rest ! 0) * 4096
                       + cont_bits (rest ! 1) * 64 + cont_bits (rest ! 2)
              in if cp < 65536 \<or> 1114112 \<le> cp then None
                 else map_option ((#) cp) (utf8_decode (drop 3 rest)))
      else None)"
  by pat_completeness auto
termination
  by (relation "measure length") auto

text \<open>\<open>str.encode("utf-8")\<close>; a surrogate or a value that is no code point raises.\<close>

definition utf8_encode :: "pystr \<Rightarrow> error + bytes" where
  "utf8_encode s =
     (if list_ex (\<lambda>cp. (55296 \<le> cp \<and> cp < 57344) \<or> 1114112 \<le> cp) s then Inl UnicodeEncodeError
      else Inr (concat (map (\<lambda>cp.
        if cp < 128 then [of_nat cp]
        else if cp < 2048 then [of_nat (192 + cp div 64), of_nat (128 + cp mod 64)]
        else if cp < 65536 then
          [of_nat (224 + cp div 4096), of_nat (128 + cp div 64 mod 64), of_nat (128 + cp mod 64)]
        else [of_nat (240 + cp div 262144), of_nat (128 + cp div 4096 mod 64),
              of_nat (128 + cp div 64 mod 64), of_nat (128 + cp mod 64)]) s)))"

text \<open>\<open>base64.urlsafe_b64encode(b).decode("ascii")\<close>: the URL-safe alphabet, padded
  with \<open>=\<close> to a multiple of four characters.\<close>

definition b64_alphabet :: string where
  "b64_alphabet = ''ABCDEFGHIJKLMNOPQRSTUVWXYZabcdefghijklmnopqrstuvwxyz0123456789-_''"

definition b64_char :: "nat \<Rightarrow> char" where
  "b64_char n = b64_alphabet ! (n mod 64)"

fun urlsafe_b64encode :: "bytes \<Rightarrow> string" where
  "urlsafe_b64encode [] = []"
| "urlsafe_b64encode [a] =
     [b64_char (unat a div 4), b64_char (unat a mod 4 * 16), CHR ''='', CHR ''='']"
| "urlsafe_b64encode [a, b] =
     [b64_char (unat a div 4), b64_char (unat a mod 4 * 16 + unat b div 16),
      b64_char (unat b mod 16 * 4), CHR ''='']"
| "urlsafe_b64encode (a # b # c # rest) =
     b64_char (unat a div 4) # b64_char (unat a mod 4 * 16 + unat b div 16) #
     b64_char (unat b mod 16 * 4 + unat c div 64) # b64_char (unat c mod 64) #
     urlsafe_b64encode rest"

text \<open>The format specification \<open>x\<close> of an f-string: lowercase hexadecimal digits, no
  prefix, no padding, a leading \<open>-\<close> for a negative number.\<close>

definition hex_digit :: "nat \<Rightarrow> char" where
  "hex_digit d = ''0123456789abcdef'' ! (d mod 16)"

function hex_nat :: "nat \<Rightarrow> string" where
  "hex_nat n = (if n < 16 then [hex_digit n] else hex_nat (n div 16) @ [hex_digit (n mod 16)])"
  by pat_completeness auto
termination
  by (relation "measure id") auto

definition format_x :: "int \<Rightarrow> string" where
  "format_x n = (if n < 0 then CHR ''-'' # hex_nat (nat (- n)) else hex_nat (nat n))"

text \<open>Reading a hexadecimal numeral back, to say what \<open>format_x\<close> denotes.\<close>

definition hex_digit_value :: "char \<Rightarrow> nat" where
  "hex_digit_value c =
     (let k = (of_char c :: nat) in if 48 \<le> k \<and> k \<le> 57 then k - 48 else k - 87)"

definition hex_value :: "string \<Rightarrow> nat" where
  "hex_value s = foldl (\<lambda>acc c. acc * 16 + hex_digit_value c) 0 s"

text \<open>\<open>_smallest_unsigned_size\<close>, with \<open>int.bit_length\<close> and the assertion.\<close>

function bit_length :: "nat \<Rightarrow> nat" where
  "bit_length n = (if n = 0 then 0 else Suc (bit_length (n div 2)))"
  by pat_completeness auto
termination
  by (relation "measure id") auto

definition smallest_unsigned_size :: "int \<Rightarrow> error + nat" where
  "smallest_unsigned_size n =
     (if \<not> n \<ge> 0 then Inl AssertionError
      else Inr (nat ((int (bit_length (nat n)) - 1) div 8 + 1)))"

text \<open>\<open>n.to_bytes(_smallest_unsigned_size(n), "big")\<close>.\<close>

definition to_smallest_bytes :: "int \<Rightarrow> error + bytes" where
  "to_smallest_bytes n =
     (case smallest_unsigned_size n of
        Inl e \<Rightarrow> Inl e
      | Inr sz \<Rightarrow> to_bytes n sz)"

subsection \<open>Session state\<close>

datatype AuthResult = AuthOk | AuthUnauthorized | AuthForbidden | AuthUnavailable

fun auth_result_name :: "AuthResult \<Rightarrow> string" where
  "auth_result_name AuthOk = ''ok''"
| "auth_result_name AuthUnauthorized = ''unauthorized''"
| "auth_result_name AuthForbidden = ''forbidden''"
| "auth_result_name AuthUnavailable = ''unavailable''"

text \<open>\<open>_ContinueReceive\<close> (identifier, part id) and \<open>_ConfirmReceive\<close> (identifier);
  the field \<open>type\<close> is the constructor.\<close>

datatype Acknowledgement = ContinueReceive bytes nat | ConfirmReceive bytes

text \<open>\<open>_CompressorReady\<close> (dictionary id, level) and \<open>_CompressorPreparing\<close>
  (dictionary id, and what awaiting its task gives: an exception or the ready
  compressor's id and level).\<close>

datatype Compressor =
    CompressorReady int int
  | CompressorPreparing int "error + (int \<times> int)"

fun compressor_dictionary_id :: "Compressor \<Rightarrow> int" where
  "compressor_dictionary_id (CompressorReady i l) = i"
| "compressor_dictionary_id (CompressorPreparing i t) = i"

fun compressor_is_ready :: "Compressor \<Rightarrow> bool" where
  "compressor_is_ready (CompressorReady i l) = True"
| "compressor_is_ready (CompressorPreparing i t) = False"

text \<open>\<open>if c.type == PREPARING: c = await c.task\<close>.\<close>

fun await_compressor :: "Compressor \<Rightarrow> error + (int \<times> int)" where
  "await_compressor (CompressorReady i l) = Inr (i, l)"
| "await_compressor (CompressorPreparing i t) = t"

text \<open>A compiled regular expression is a string pattern or a bytes pattern, and the
  subject of a match is a string or a bytes object.\<close>

datatype Pattern = StrPattern pystr | BytesPattern bytes

datatype Subject = StrSubject pystr | BytesSubject bytes

record Configuration =
  enable_zstd :: bool
  enable_training :: bool
  dictionary_id :: int
  nonce_b64 :: string

text \<open>\<open>_ReceivingNotify\<close>. The hasher is the bytes fed to it so far, the spooled body
  file is its content; the fields \<open>identifier\<close> and \<open>body\<close> of the source are
  \<open>notif_identifier\<close> and \<open>notif_body\<close>.\<close>

record ReceivingNotify =
  notif_identifier :: bytes
  last_part_id :: int
  topic :: bytes
  compressor_id :: nat
  compressed_length :: nat
  decompressed_length :: nat
  compressed_sha512 :: bytes
  body_hasher :: bytes
  notif_body :: bytes

datatype PendingSend =
    SmallMessage bytes bytes bytes
  | LargeSpooledMessage bytes bytes bytes int
  | FormattedMessage bytes

text \<open>What the task in \<open>send_task\<close> is doing.\<close>

datatype SendTask =
    SendBytes bytes
  | SendSmallMessage bytes bytes bytes
  | SendLargeFromSpooled bytes bytes bytes int
  | SendLargeOptimistically bytes bytes bytes int

datatype TrustedNotifyResultType = NOTIFY_OK | NOTIFY_UNAVAILABLE

record TrustedNotifyResult =
  result_type :: TrustedNotifyResultType
  succeeded :: int
  failed :: int

text \<open>The session's actions on its collaborators and on its own subscription view, in
  program order: frames handed to the send path, calls on the fanout hub
  (\<open>state.receiver\<close>), calls of \<open>handle_trusted_notify\<close> (topic, payload, content length,
  SHA-512), and changes of \<open>my_receiver\<close>.\<close>

datatype Event =
    Outgoing bytes
  | HubIncrementExact bytes
  | HubDecrementExact bytes
  | HubIncrementGlob pystr
  | HubDecrementGlob pystr
  | TrustedNotify bytes bytes int bytes
  | LocalAddExact bytes
  | LocalRemoveExact bytes
  | LocalAddGlob pystr
  | LocalRemoveGlob pystr

text \<open>The collaborators the session calls, as functions of their arguments: the host
  (clock and float arithmetic), the hash functions, the authorization verifier of the
  configuration, the delivery
  fanout, the dictionary provider, zstandard, \<open>glob.translate\<close> and the regular
  expression engine.\<close>

record World = Host +
  sha512 :: "bytes \<Rightarrow> bytes"
  sha256 :: "bytes \<Rightarrow> bytes"
  is_subscribe_exact_allowed :: "string \<Rightarrow> bytes \<Rightarrow> real \<Rightarrow> pystr option \<Rightarrow> AuthResult"
  is_subscribe_glob_allowed :: "string \<Rightarrow> pystr \<Rightarrow> real \<Rightarrow> pystr option \<Rightarrow> AuthResult"
  is_notify_allowed :: "bytes \<Rightarrow> bytes \<Rightarrow> real \<Rightarrow> pystr option \<Rightarrow> AuthResult"
  handle_trusted_notify :: "bytes \<Rightarrow> bytes \<Rightarrow> int \<Rightarrow> bytes \<Rightarrow> TrustedNotifyResult"
  get_compression_dictionary_by_id :: "int \<Rightarrow> (bytes \<times> int) option"
  zstd_decompress :: "int \<Rightarrow> bytes \<Rightarrow> error + bytes"
  translate :: "pystr \<Rightarrow> pystr"
  regex_match_str :: "pystr \<Rightarrow> pystr \<Rightarrow> bool"
  regex_match_bytes :: "bytes \<Rightarrow> bytes \<Rightarrow> bool"

text \<open>\<open>_StateOpen\<close>, with \<open>my_receiver\<close> flattened into its two collections; the
  transport, the HTTP client, the read and message tasks and the detached tasks have
  no part in the modelled functions.\<close>

record StateOpen = TrainingState +
  standard_compressor :: "Compressor option"
  socket_level_config :: "Configuration option"
  exact_subscriptions :: "bytes set"
  glob_subscriptions :: "(Pattern \<times> pystr) list"
  send_task :: "SendTask option"
  process_task :: "ParsedWSMessage option"
  pending_sends :: "PendingSend list"
  unprocessed_receives :: "ParsedWSMessage list"
  expecting_acks :: "Acknowledgement list"
  incoming_notification :: "ReceivingNotify option"
  active_compressor :: "Compressor option"
  last_compressor :: "Compressor option"
  broadcaster_counter :: int
  subscriber_counter :: int
  custom_compression_dict_counter :: int
  history :: "Event list"

text \<open>\<open>deque(maxlen=m).append(x)\<close>: a full deque drops from the left.\<close>

definition deque_append :: "nat option \<Rightarrow> 'a list \<Rightarrow> 'a \<Rightarrow> 'a list" where
  "deque_append maxlen d x =
     (case maxlen of
        None \<Rightarrow> d @ [x]
      | Some m \<Rightarrow> drop (length d + 1 - m) (d @ [x]))"

text \<open>The tail shared by the processors:
  \<open>if state.send_task is None: state.send_task = create_task(send_bytes(data))
   else: state.pending_sends.append(_FormattedMessage(data))\<close>.\<close>

definition send_or_enqueue :: "bytes \<Rightarrow> StateOpen \<Rightarrow> StateOpen" where
  "send_or_enqueue data state =
     (if send_task state = None
      then state\<lparr>send_task := Some (SendBytes data), history := history state @ [Outgoing data]\<rparr>
      else state\<lparr>pending_sends :=
                    deque_append (websocket_max_pending_sends (broadcaster_config state))
                      (pending_sends state) (FormattedMessage data),
                  history := history state @ [Outgoing data]\<rparr>)"

subsection \<open>Authorization URLs\<close>

definition make_for_send_websocket_url_and_change_counter ::
  "StateOpen \<Rightarrow> error + (string \<times> StateOpen)" where
  "make_for_send_websocket_url_and_change_counter state =
     (case socket_level_config state of
        None \<Rightarrow> Inl AssertionError
      | Some slc \<Rightarrow>
          let ctr = broadcaster_counter state;
              state1 = state\<lparr>broadcaster_counter := broadcaster_counter state + 1\<rparr>
          in Inr (''websocket:'' @ nonce_b64 slc @ '':'' @ format_x ctr, state1))"

definition make_for_receive_websocket_url_and_change_counter ::
  "StateOpen \<Rightarrow> error + (string \<times> StateOpen)" where
  "make_for_receive_websocket_url_and_change_counter state =
     (case socket_level_config state of
        None \<Rightarrow> Inl AssertionError
      | Some slc \<Rightarrow>
          let ctr = subscriber_counter state;
              state1 = state\<lparr>subscriber_counter := subscriber_counter state - 1\<rparr>
          in Inr (''websocket:'' @ nonce_b64 slc @ '':'' @ format_x ctr, state1))"

subsection \<open>CONFIGURE\<close>

definition rotate_compressor :: "Compressor \<Rightarrow> StateOpen \<Rightarrow> StateOpen" where
  "rotate_compressor new_compressor state =
     state\<lparr>last_compressor := active_compressor state,
           active_compressor := Some new_compressor\<rparr>"

text \<open>\<open>message.headers.get(name, default)\<close>.\<close>

definition headers_get :: "ParsedWSMessage \<Rightarrow> string \<Rightarrow> bytes \<Rightarrow> bytes" where
  "headers_get message name dflt = (case headers message name of None \<Rightarrow> dflt | Some v \<Rightarrow> v)"

text \<open>\<open>_process_configure\<close>; \<open>broadcaster_nonce\<close> is what \<open>secrets.token_bytes(32)\<close>
  returned.\<close>

definition process_configure ::
  "World \<Rightarrow> bytes \<Rightarrow> ParsedWSMessage \<Rightarrow> StateOpen \<Rightarrow> error option \<times> StateOpen" where
  "process_configure w broadcaster_nonce message state =
     (if mtype message \<noteq> CONFIGURE then (Some AssertionError, state)
      else if socket_level_config state \<noteq> None
        then (Some (ValueError ''configuration already set''), state)
      else (case headers message ''x-subscriber-nonce'' of
        None \<Rightarrow> (Some (KeyError ''x-subscriber-nonce''), state)
      | Some subscriber_nonce \<Rightarrow>
      if length subscriber_nonce \<noteq> 32
        then (Some (ValueError ''subscriber nonce must be 32 bytes''), state)
      else
      let zstd = (headers_get message ''x-enable-zstd'' [0] = [1]);
          training = (headers_get message ''x-enable-training'' [0] = [1]);
          dictionary_id_bytes = headers_get message ''x-initial-dict'' [0]
      in
      if training \<and> \<not> zstd then (Some (ValueError ''training requires zstd''), state)
      else if length dictionary_id_bytes > 2
        then (Some (ValueError ''initial dict must be at most 2 bytes''), state)
      else
      let dict_id = int (from_bytes dictionary_id_bytes);
          connection_nonce = sha256 w (subscriber_nonce @ broadcaster_nonce);
          state1 = state\<lparr>socket_level_config := Some
                     \<lparr>enable_zstd = zstd, enable_training = training, dictionary_id = dict_id,
                      nonce_b64 = urlsafe_b64encode connection_nonce\<rparr>\<rparr>;
          state2 = (if \<not> training \<and> training_data state1 \<noteq> None
                    then state1\<lparr>training_data := None\<rparr> else state1);
          state3 = (if zstd
                    then state2\<lparr>standard_compressor :=
                                  Some (CompressorPreparing 1 (Inr (1, 3)))\<rparr>
                    else state2);
          state4 = (if dict_id \<noteq> 0 \<and> dict_id \<noteq> 1 \<and> zstd
                       \<and> compression_allowed (broadcaster_config state3)
                       \<and> (active_compressor state3 = None
                            \<or> dict_id \<noteq> compressor_dictionary_id (the (active_compressor state3)))
                    then rotate_compressor
                           (CompressorPreparing dict_id
                              (case get_compression_dictionary_by_id w dict_id of
                                 None \<Rightarrow> Inl (ValueError ''dictionary not found'')
                               | Some (zdict, lvl) \<Rightarrow> Inr (dict_id, lvl))) state3
                    else state3)
      in (case make_websocket_message (flags message) CONFIRM_CONFIGURE
                 [(''x-broadcaster-nonce'', broadcaster_nonce)] [] of
            Inl e \<Rightarrow> (Some e, state4)
          | Inr data \<Rightarrow>
              (None, state4\<lparr>pending_sends :=
                               deque_append (websocket_max_pending_sends (broadcaster_config state4))
                                 (pending_sends state4) (FormattedMessage data),
                             history := history state4 @ [Outgoing data]\<rparr>))))"

subsection \<open>Subscribe and unsubscribe\<close>

text \<open>\<open>None if not authorization_bytes else authorization_bytes.decode("utf-8")\<close>.\<close>

definition decode_authorization :: "ParsedWSMessage \<Rightarrow> error + pystr option" where
  "decode_authorization message =
     (case headers message ''authorization'' of
        None \<Rightarrow> Inr None
      | Some ab \<Rightarrow>
          if ab = [] then Inr None
          else (case utf8_decode ab of
                  None \<Rightarrow> Inl UnicodeDecodeError
                | Some a \<Rightarrow> Inr (Some a)))"

text \<open>The four branches of \<open>_process_subscribe_or_unsubscribe\<close> after the verifier said
  ok. Each gives the exception and the state at the raise, or the response frame and
  the state. Exception messages that format a value are shortened.\<close>

definition subscribe_exact_branch ::
  "ParsedWSMessage \<Rightarrow> bytes \<Rightarrow> StateOpen \<Rightarrow> (error \<times> StateOpen) + (bytes \<times> StateOpen)" where
  "subscribe_exact_branch message target_bytes state =
     (if target_bytes \<in> exact_subscriptions state
      then Inl (PyException ''already subscribed'', state)
      else
        let state1 = state\<lparr>exact_subscriptions := insert target_bytes (exact_subscriptions state),
                            history := history state @ [LocalAddExact target_bytes]\<rparr>;
            state2 = state1\<lparr>history := history state1 @ [HubIncrementExact target_bytes]\<rparr>
        in (case make_websocket_message (flags message) CONFIRM_SUBSCRIBE_EXACT
                   [(''x-topic'', target_bytes)] [] of
              Inl e \<Rightarrow> Inl (e, state2)
            | Inr response \<Rightarrow> Inr (response, state2)))"

definition unsubscribe_exact_branch ::
  "ParsedWSMessage \<Rightarrow> bytes \<Rightarrow> StateOpen \<Rightarrow> (error \<times> StateOpen) + (bytes \<times> StateOpen)" where
  "unsubscribe_exact_branch message target_bytes state =
     (if target_bytes \<notin> exact_subscriptions state
      then Inl (PyException ''not subscribed'', state)
      else
        let state1 = state\<lparr>exact_subscriptions := exact_subscriptions state - {target_bytes},
                            history := history state @ [LocalRemoveExact target_bytes]\<rparr>;
            state2 = state1\<lparr>history := history state1 @ [HubDecrementExact target_bytes]\<rparr>
        in (case make_websocket_message (flags message) CONFIRM_UNSUBSCRIBE_EXACT
                   [(''x-topic'', target_bytes)] [] of
              Inl e \<Rightarrow> Inl (e, state2)
            | Inr response \<Rightarrow> Inr (response, state2)))"

definition subscribe_glob_branch ::
  "World \<Rightarrow> ParsedWSMessage \<Rightarrow> bytes \<Rightarrow> StateOpen
     \<Rightarrow> (error \<times> StateOpen) + (bytes \<times> StateOpen)" where
  "subscribe_glob_branch w message target_bytes state =
     (case utf8_decode target_bytes of
        None \<Rightarrow> Inl (UnicodeDecodeError, state)
      | Some target_str \<Rightarrow>
          if list_ex (\<lambda>g. target_str = snd g) (glob_subscriptions state)
          then Inl (PyException ''already subscribed'', state)
          else
            let glob_regex = StrPattern (translate w target_str);
                state1 = state\<lparr>glob_subscriptions :=
                                  glob_subscriptions state @ [(glob_regex, target_str)],
                                history := history state @ [LocalAddGlob target_str]\<rparr>;
                state2 = state1\<lparr>history := history state1 @ [HubIncrementGlob target_str]\<rparr>
            in (case utf8_encode target_str of
                  Inl e \<Rightarrow> Inl (e, state2)
                | Inr enc \<Rightarrow>
                    (case make_websocket_message (flags message) CONFIRM_SUBSCRIBE_GLOB
                            [(''x-glob'', enc)] [] of
                       Inl e \<Rightarrow> Inl (e, state2)
                     | Inr response \<Rightarrow> Inr (response, state2))))"

text \<open>The search loop of the last branch: the index of the first subscription whose
  glob string is the target.\<close>

fun find_glob_index :: "pystr \<Rightarrow> (Pattern \<times> pystr) list \<Rightarrow> nat option" where
  "find_glob_index target_str [] = None"
| "find_glob_index target_str ((p, g) # rest) =
     (if g = target_str then Some 0 else map_option Suc (find_glob_index target_str rest))"

definition unsubscribe_glob_branch ::
  "ParsedWSMessage \<Rightarrow> bytes \<Rightarrow> StateOpen \<Rightarrow> (error \<times> StateOpen) + (bytes \<times> StateOpen)" where
  "unsubscribe_glob_branch message target_bytes state =
     (case utf8_decode target_bytes of
        None \<Rightarrow> Inl (UnicodeDecodeError, state)
      | Some target_str \<Rightarrow>
          (case find_glob_index target_str (glob_subscriptions state) of
             None \<Rightarrow> Inl (PyException ''not subscribed'', state)
           | Some subscription_idx \<Rightarrow>
               let state1 = state\<lparr>glob_subscriptions :=
                                     take subscription_idx (glob_subscriptions state)
                                     @ drop (Suc subscription_idx) (glob_subscriptions state),
                                   history := history state @ [LocalRemoveGlob target_str]\<rparr>;
                   state2 = state1\<lparr>history := history state1 @ [HubDecrementGlob target_str]\<rparr>
               in (case utf8_encode target_str of
                     Inl e \<Rightarrow> Inl (e, state2)
                   | Inr enc \<Rightarrow>
                       (case make_websocket_message (flags message) CONFIRM_UNSUBSCRIBE_GLOB
                               [(''x-glob'', enc)] [] of
                          Inl e \<Rightarrow> Inl (e, state2)
                        | Inr response \<Rightarrow> Inr (response, state2)))))"

text \<open>\<open>_process_subscribe_or_unsubscribe\<close>.\<close>

definition process_subscribe_or_unsubscribe ::
  "World \<Rightarrow> ParsedWSMessage \<Rightarrow> StateOpen \<Rightarrow> error option \<times> StateOpen" where
  "process_subscribe_or_unsubscribe w message state =
     (if \<not> (mtype message = SUBSCRIBE_EXACT \<or> mtype message = UNSUBSCRIBE_EXACT
             \<or> mtype message = SUBSCRIBE_GLOB \<or> mtype message = UNSUBSCRIBE_GLOB)
        then (Some AssertionError, state)
      else (case decode_authorization message of
        Inl e \<Rightarrow> (Some e, state)
      | Inr authorization \<Rightarrow>
      let is_exact = (mtype message = SUBSCRIBE_EXACT \<or> mtype message = UNSUBSCRIBE_EXACT);
          key = (if is_exact then ''x-topic'' else ''x-glob'')
      in
      (case headers message key of
        None \<Rightarrow> (Some (KeyError key), state)
      | Some target_bytes \<Rightarrow>
      (case make_for_receive_websocket_url_and_change_counter state of
        Inl e \<Rightarrow> (Some e, state)
      | Inr (url, state1) \<Rightarrow>
      (case (if is_exact
            then Inr (is_subscribe_exact_allowed w url target_bytes (time_now w) authorization)
            else (case utf8_decode target_bytes of
                    None \<Rightarrow> Inl UnicodeDecodeError
                  | Some g \<Rightarrow>
                      Inr (is_subscribe_glob_allowed w url g (time_now w) authorization))) of
        Inl e \<Rightarrow> (Some e, state1)
      | Inr auth_result \<Rightarrow>
      if auth_result \<noteq> AuthOk then (Some (PyException (auth_result_name auth_result)), state1)
      else
      (case (if mtype message = SUBSCRIBE_EXACT
              then subscribe_exact_branch message target_bytes state1
            else if mtype message = UNSUBSCRIBE_EXACT
              then unsubscribe_exact_branch message target_bytes state1
            else if mtype message = SUBSCRIBE_GLOB
              then subscribe_glob_branch w message target_bytes state1
            else unsubscribe_glob_branch message target_bytes state1) of
        Inl (e, state2) \<Rightarrow> (Some e, state2)
      | Inr (response, state2) \<Rightarrow> (None, send_or_enqueue response state2)))))))"

subsection \<open>The receiver's relevance test\<close>

text \<open>\<open>re.Pattern.match\<close>: a string pattern accepts only a string and a bytes pattern
  only bytes; the other combinations raise TypeError.\<close>

definition pattern_match :: "World \<Rightarrow> Pattern \<Rightarrow> Subject \<Rightarrow> error + bool" where
  "pattern_match w p subj =
     (case (p, subj) of
        (StrPattern r, StrSubject t) \<Rightarrow> Inr (regex_match_str w r t)
      | (BytesPattern r, BytesSubject t) \<Rightarrow> Inr (regex_match_bytes w r t)
      | (StrPattern r, BytesSubject t) \<Rightarrow>
          Inl (TypeError ''cannot use a string pattern on a bytes-like object'')
      | (BytesPattern r, StrSubject t) \<Rightarrow>
          Inl (TypeError ''cannot use a bytes pattern on a string-like object''))"

text \<open>\<open>any(pattern.match(topic) for pattern, _ in self.glob_subscriptions)\<close>, which
  stops at the first match and lets an exception through.\<close>

fun any_glob_matches :: "World \<Rightarrow> (Pattern \<times> pystr) list \<Rightarrow> bytes \<Rightarrow> error + bool" where
  "any_glob_matches w [] topic' = Inr False"
| "any_glob_matches w ((p, g) # rest) topic' =
     (case pattern_match w p (BytesSubject topic') of
        Inl e \<Rightarrow> Inl e
      | Inr m \<Rightarrow> if m then Inr True else any_glob_matches w rest topic')"

text \<open>\<open>_MyReceiver.is_relevant\<close>.\<close>

definition is_relevant :: "World \<Rightarrow> StateOpen \<Rightarrow> bytes \<Rightarrow> error + bool" where
  "is_relevant w state topic' =
     (if topic' \<in> exact_subscriptions state then Inr True
      else any_glob_matches w (glob_subscriptions state) topic')"

subsection \<open>Feeding the training collector from a streamed payload\<close>

definition map_collector ::
  "(CompressorTrainingDataCollector \<Rightarrow> CompressorTrainingDataCollector)
     \<Rightarrow> CompressorTrainingInfo \<Rightarrow> CompressorTrainingInfo" where
  "map_collector f info =
     (case info of
        BeforeLowWatermark c d \<Rightarrow> BeforeLowWatermark (f c) d
      | BeforeHighWatermark c d \<Rightarrow> BeforeHighWatermark (f c) d
      | WaitingToRefresh t \<Rightarrow> WaitingToRefresh t)"

text \<open>\<open>_make_store_for_training_capturer\<close>: whether the returned object captures
  (\<open>CloseGuardedIO\<close> of the collector's file) or discards (\<open>VoidSyncIO\<close>). The counters
  are changed before the length prefix is written.\<close>

definition make_store_for_training_capturer ::
  "'h Host_scheme \<Rightarrow> int \<Rightarrow> 'a TrainingState_scheme \<Rightarrow> (error + bool) \<times> 'a TrainingState_scheme" where
  "make_store_for_training_capturer host len state =
     (case should_store_large_message_for_training host len state of
        (False, state1) \<Rightarrow> (Inr False, state1)
      | (True, state1) \<Rightarrow>
          (case training_data state1 of
             None \<Rightarrow> (Inl AssertionError, state1)
           | Some (WaitingToRefresh t) \<Rightarrow> (Inl AssertionError, state1)
           | Some info \<Rightarrow>
               let info1 = map_collector
                     (\<lambda>c. c\<lparr>length_c := length_c c + len, messages := messages c + 1\<rparr>) info;
                   state2 = state1\<lparr>training_data := Some info1\<rparr>
               in (case to_bytes len 4 of
                     Inl e \<Rightarrow> (Inl e, state2)
                   | Inr pre \<Rightarrow>
                       (Inr True,
                        state2\<lparr>training_data := Some (map_collector
                                 (\<lambda>c. c\<lparr>tmpfile := tmpfile c @ pre\<rparr>) info1)\<rparr>))))"

text \<open>\<open>capturer.write(chunk)\<close> for every chunk of \<open>data\<close>.\<close>

definition capturer_write :: "bool \<Rightarrow> bytes \<Rightarrow> 'a TrainingState_scheme \<Rightarrow> 'a TrainingState_scheme" where
  "capturer_write capturing data state =
     (if capturing
      then (case training_data state of
              None \<Rightarrow> state
            | Some info \<Rightarrow>
                state\<lparr>training_data := Some (map_collector
                        (\<lambda>c. c\<lparr>tmpfile := tmpfile c @ data\<rparr>) info)\<rparr>)
      else state)"

text \<open>\<open>if _should_store_large_message_for_training(state, n):
          capturer = _make_store_for_training_capturer(state, n); copy the payload\<close>.\<close>

definition store_large_for_training ::
  "'h Host_scheme \<Rightarrow> int \<Rightarrow> bytes \<Rightarrow> 'a TrainingState_scheme \<Rightarrow> error option \<times> 'a TrainingState_scheme" where
  "store_large_for_training host len data state =
     (case should_store_large_message_for_training host len state of
        (False, state1) \<Rightarrow> (None, state1)
      | (True, state1) \<Rightarrow>
          (case make_store_for_training_capturer host len state1 of
             (Inl e, state2) \<Rightarrow> (Some e, state2)
           | (Inr capturing, state2) \<Rightarrow> (None, capturer_write capturing data state2)))"

subsection \<open>NOTIFY\<close>

text \<open>The three-slot search of \<open>_process_notify\<close>.\<close>

definition find_decompressor :: "nat \<Rightarrow> StateOpen \<Rightarrow> error + Compressor option" where
  "find_decompressor cid state =
     (if cid = 0 then Inr None
      else if standard_compressor state \<noteq> None
              \<and> int cid = compressor_dictionary_id (the (standard_compressor state))
        then Inr (standard_compressor state)
      else if active_compressor state \<noteq> None
              \<and> int cid = compressor_dictionary_id (the (active_compressor state))
        then Inr (active_compressor state)
      else if last_compressor state \<noteq> None
              \<and> int cid = compressor_dictionary_id (the (last_compressor state))
        then Inr (last_compressor state)
      else Inl (ValueError ''unrecognized compressor id''))"

text \<open>The call of \<open>handle_trusted_notify\<close> and what follows it in both notify
  processors: UNAVAILABLE raises \<open>unavailable_error\<close>, otherwise CONFIRM\_NOTIFY is built
  and handed to the send path.\<close>

definition deliver_and_confirm ::
  "World \<Rightarrow> error \<Rightarrow> nat \<Rightarrow> bytes \<Rightarrow> bytes \<Rightarrow> bytes \<Rightarrow> int \<Rightarrow> bytes \<Rightarrow> StateOpen
     \<Rightarrow> error option \<times> StateOpen" where
  "deliver_and_confirm w unavailable_error fl message_id topic' payload content_length sha state =
     (let notify_result = handle_trusted_notify w topic' payload content_length sha;
          state1 = state\<lparr>history := history state
                              @ [TrustedNotify topic' payload content_length sha]\<rparr>
      in if result_type notify_result = NOTIFY_UNAVAILABLE then (Some unavailable_error, state1)
         else (case to_smallest_bytes (succeeded notify_result) of
                 Inl e \<Rightarrow> (Some e, state1)
               | Inr subscribers \<Rightarrow>
                   (case make_websocket_message fl CONFIRM_NOTIFY
                           [(''x-identifier'', message_id), (''x-subscribers'', subscribers)] [] of
                      Inl e \<Rightarrow> (Some e, state1)
                    | Inr to_send \<Rightarrow> (None, send_or_enqueue to_send state1))))"

text \<open>\<open>_process_notify\<close> from the integrity checks on. The chunked copy loops are one
  step each; when decompression itself fails nothing has been handed on.\<close>

definition process_notify_body ::
  "World \<Rightarrow> ParsedWSMessage \<Rightarrow> bytes \<Rightarrow> bytes \<Rightarrow> nat \<Rightarrow> nat \<Rightarrow> nat \<Rightarrow> bytes \<Rightarrow> StateOpen
     \<Rightarrow> error option \<times> StateOpen" where
  "process_notify_body w message message_id topic' cid clen dlen csha state =
     (if length (body message) \<noteq> clen
        then (Some (ValueError ''compressed length is incorrect''), state)
      else
      let real_compressed_sha512 = sha512 w (body message) in
      if real_compressed_sha512 \<noteq> csha
        then (Some (PyException ''integrity check failed''), state)
      else
      (case find_decompressor cid state of
        Inl e \<Rightarrow> (Some e, state)
      | Inr None \<Rightarrow>
          (case store_small_for_compression_training w (body message) state of
             (Some e, state1) \<Rightarrow> (Some e, state1)
           | (None, state1) \<Rightarrow>
               if length (body message) \<noteq> dlen
                 then (Some (ValueError ''decompressed length is incorrect''), state1)
               else deliver_and_confirm w (PyException ''failed to attempt all subscribers'')
                      (flags message) message_id topic' (body message) (int dlen)
                      real_compressed_sha512 state1)
      | Inr (Some decompressor) \<Rightarrow>
          (case await_compressor decompressor of
             Inl e \<Rightarrow> (Some e, state)
           | Inr (did, lvl) \<Rightarrow>
               (case zstd_decompress w did (body message) of
                  Inl e \<Rightarrow> (Some e, state)
                | Inr decompressed_data \<Rightarrow>
                    if length decompressed_data \<noteq> dlen
                      then (Some (ValueError ''decompressed length is incorrect''), state)
                    else
                      (case store_large_for_training w (int dlen)
                              decompressed_data state of
                         (Some e, state1) \<Rightarrow> (Some e, state1)
                       | (None, state1) \<Rightarrow>
                           deliver_and_confirm w
                             (PyException ''failed to attempt all subscribers'')
                             (flags message) message_id topic' decompressed_data (int dlen)
                             (sha512 w decompressed_data) state1)))))"

text \<open>\<open>_process_notify\<close>: the header checks, the verifier, then the body above.\<close>

definition process_notify ::
  "World \<Rightarrow> ParsedWSMessage \<Rightarrow> StateOpen \<Rightarrow> error option \<times> StateOpen" where
  "process_notify w message state =
     (if mtype message \<noteq> NOTIFY then (Some AssertionError, state)
      else (case socket_level_config state of
        None \<Rightarrow> (Some (PyException ''notify before configure''), state)
      | Some slc \<Rightarrow>
      (case decode_authorization message of
        Inl e \<Rightarrow> (Some e, state)
      | Inr authorization \<Rightarrow>
      (case headers message ''x-identifier'' of
        None \<Rightarrow> (Some (KeyError ''x-identifier''), state)
      | Some message_id \<Rightarrow>
      if length message_id > 64 then (Some (ValueError ''x-identifier max 64 bytes''), state)
      else
      (case headers message ''x-topic'' of
        None \<Rightarrow> (Some (KeyError ''x-topic''), state)
      | Some topic' \<Rightarrow>
      let compressor_id_bytes = headers_get message ''x-compressor'' [0] in
      if length compressor_id_bytes > 8 then (Some (ValueError ''x-compressor max 8 bytes''), state)
      else
      let cid = from_bytes compressor_id_bytes in
      if cid \<noteq> 0 \<and> (\<not> compression_allowed (broadcaster_config state) \<or> \<not> enable_zstd slc)
        then (Some (ValueError ''compression used but compression is forbidden''), state)
      else
      (case headers message ''x-compressed-length'' of
        None \<Rightarrow> (Some (KeyError ''x-compressed-length''), state)
      | Some compressed_length_bytes \<Rightarrow>
      if length compressed_length_bytes > 8
        then (Some (ValueError ''compressed length max 8 bytes''), state)
      else
      (case headers message ''x-decompressed-length'' of
        None \<Rightarrow> (Some (KeyError ''x-decompressed-length''), state)
      | Some decompressed_length_bytes \<Rightarrow>
      if length decompressed_length_bytes > 8
        then (Some (ValueError ''decompressed length max 8 bytes''), state)
      else
      (case headers message ''x-compressed-sha512'' of
        None \<Rightarrow> (Some (KeyError ''x-compressed-sha512''), state)
      | Some csha \<Rightarrow>
      if length csha \<noteq> 64 then (Some (ValueError ''compressed sha512 must be 64 bytes''), state)
      else
      let auth_result = is_notify_allowed w topic' csha (time_now w) authorization in
      if auth_result \<noteq> AuthOk then (Some (PyException (auth_result_name auth_result)), state)
      else process_notify_body w message message_id topic' cid
             (from_bytes compressed_length_bytes) (from_bytes decompressed_length_bytes)
             csha state))))))))"

subsection \<open>NOTIFY\_STREAM\<close>

text \<open>Part 0 of \<open>_process_notify_stream\<close>: the metadata headers and the fresh
  \<open>_ReceivingNotify\<close>, stored in \<open>state.incoming_notification\<close>.\<close>

definition start_notify_stream ::
  "ParsedWSMessage \<Rightarrow> bytes \<Rightarrow> StateOpen \<Rightarrow> error + (ReceivingNotify \<times> StateOpen)" where
  "start_notify_stream message message_id state =
     (if incoming_notification state \<noteq> None
        then Inl (ValueError ''did not complete previous message'')
      else (case headers message ''x-topic'' of
        None \<Rightarrow> Inl (KeyError ''x-topic'')
      | Some topic' \<Rightarrow>
      (case headers message ''x-compressor'' of
        None \<Rightarrow> Inl (KeyError ''x-compressor'')
      | Some compressor_id_bytes \<Rightarrow>
      if length compressor_id_bytes > 8 then Inl (ValueError ''compressor id max 8 bytes'')
      else
      (case headers message ''x-compressed-length'' of
        None \<Rightarrow> Inl (KeyError ''x-compressed-length'')
      | Some compressed_length_bytes \<Rightarrow>
      if length compressed_length_bytes > 8 then Inl (ValueError ''compressed length max 8 bytes'')
      else
      (case headers message ''x-decompressed-length'' of
        None \<Rightarrow> Inl (KeyError ''x-decompressed-length'')
      | Some decompressed_length_bytes \<Rightarrow>
      if length decompressed_length_bytes > 8
        then Inl (ValueError ''decompressed length max 8 bytes'')
      else
      (case headers message ''x-compressed-sha512'' of
        None \<Rightarrow> Inl (KeyError ''x-compressed-sha512'')
      | Some csha \<Rightarrow>
      if length csha \<noteq> 64 then Inl (ValueError ''sha512 must be exactly 64 bytes'')
      else
      let notif = \<lparr>notif_identifier = message_id,
                   last_part_id = - 1,
                   topic = topic',
                   compressor_id = from_bytes compressor_id_bytes,
                   compressed_length = from_bytes compressed_length_bytes,
                   decompressed_length = from_bytes decompressed_length_bytes,
                   compressed_sha512 = csha,
                   body_hasher = [],
                   notif_body = []\<rparr>
      in Inr (notif, state\<lparr>incoming_notification := Some notif\<rparr>)))))))"

text \<open>"verify we will still be able to decompress this message".\<close>

definition compressor_known :: "nat \<Rightarrow> StateOpen \<Rightarrow> bool" where
  "compressor_known cid state =
     ((standard_compressor state \<noteq> None
         \<and> compressor_dictionary_id (the (standard_compressor state)) = int cid)
      \<or> (active_compressor state \<noteq> None
         \<and> compressor_dictionary_id (the (active_compressor state)) = int cid)
      \<or> (last_compressor state \<noteq> None
         \<and> compressor_dictionary_id (the (last_compressor state)) = int cid))"

text \<open>The compressor search once the stream is complete: a match in one of the three
  slots, else an error unless the id is 0.\<close>

definition find_stream_compressor :: "nat \<Rightarrow> StateOpen \<Rightarrow> error + Compressor option" where
  "find_stream_compressor cid state =
     (if standard_compressor state \<noteq> None
         \<and> int cid = compressor_dictionary_id (the (standard_compressor state))
        then Inr (standard_compressor state)
      else if active_compressor state \<noteq> None
         \<and> int cid = compressor_dictionary_id (the (active_compressor state))
        then Inr (active_compressor state)
      else if last_compressor state \<noteq> None
         \<and> int cid = compressor_dictionary_id (the (last_compressor state))
        then Inr (last_compressor state)
      else if cid \<noteq> 0 then Inl (ValueError ''unknown compressor id'')
      else Inr None)"

text \<open>\<open>state.incoming_notification = None\<close> after a delivery that did not raise.\<close>

definition clear_incoming :: "error option \<times> StateOpen \<Rightarrow> error option \<times> StateOpen" where
  "clear_incoming r =
     (case r of
        (Some e, state) \<Rightarrow> (Some e, state)
      | (None, state) \<Rightarrow> (None, state\<lparr>incoming_notification := None\<rparr>))"

text \<open>The completion of a stream: integrity check, optional decompression, delivery
  and CONFIRM\_NOTIFY. The chunked loops are one step each.\<close>

definition finish_notify_stream ::
  "World \<Rightarrow> ParsedWSMessage \<Rightarrow> ReceivingNotify \<Rightarrow> StateOpen \<Rightarrow> error option \<times> StateOpen" where
  "finish_notify_stream w message notif state =
     (let actual_compressed_sha512 = sha512 w (body_hasher notif) in
      if actual_compressed_sha512 \<noteq> compressed_sha512 notif
        then (Some (ValueError ''integrity mismatch''), state)
      else
      (case find_stream_compressor (compressor_id notif) state of
        Inl e \<Rightarrow> (Some e, state)
      | Inr None \<Rightarrow>
          (case store_large_for_training w (int (decompressed_length notif))
                  (notif_body notif) state of
             (Some e, state1) \<Rightarrow> (Some e, state1)
           | (None, state1) \<Rightarrow>
               clear_incoming
                 (deliver_and_confirm w (ValueError ''could not attempt all subscribers'')
                    (flags message) (notif_identifier notif) (topic notif) (notif_body notif)
                    (int (compressed_length notif)) (compressed_sha512 notif) state1))
      | Inr (Some compressor) \<Rightarrow>
          (case await_compressor compressor of
             Inl e \<Rightarrow> (Some e, state)
           | Inr (did, lvl) \<Rightarrow>
               (case make_store_for_training_capturer w
                       (int (decompressed_length notif)) state of
                  (Inl e, state1) \<Rightarrow> (Some e, state1)
                | (Inr capturing, state1) \<Rightarrow>
                    (case zstd_decompress w did (notif_body notif) of
                       Inl e \<Rightarrow> (Some e, state1)
                     | Inr target \<Rightarrow>
                         let state2 = capturer_write capturing target state1 in
                         if length target > decompressed_length notif
                           then (Some (ValueError ''decompresses to larger than indicated''), state2)
                         else if length target \<noteq> decompressed_length notif
                           then (Some (ValueError ''decompresses to less than indicated''), state2)
                         else
                           clear_incoming
                             (deliver_and_confirm w
                                (ValueError ''failed to attempt all subscribers'')
                                (flags message) (notif_identifier notif) (topic notif) target
                                (int (decompressed_length notif)) (sha512 w target) state2))))))"

text \<open>\<open>_process_notify_stream\<close>. \<open>notif\<close> is the object held in
  \<open>state.incoming_notification\<close>, so what is written to it is written to the state.\<close>

definition process_notify_stream ::
  "World \<Rightarrow> ParsedWSMessage \<Rightarrow> StateOpen \<Rightarrow> error option \<times> StateOpen" where
  "process_notify_stream w message state =
     (if mtype message \<noteq> NOTIFY_STREAM then (Some AssertionError, state)
      else (case headers message ''x-identifier'' of
        None \<Rightarrow> (Some (KeyError ''x-identifier''), state)
      | Some message_id \<Rightarrow>
      if incoming_notification state \<noteq> None
         \<and> notif_identifier (the (incoming_notification state)) \<noteq> message_id
        then (Some (ValueError ''did not finish last message''), state)
      else
      (case headers message ''x-part-id'' of
        None \<Rightarrow> (Some (KeyError ''x-part-id''), state)
      | Some part_id_bytes \<Rightarrow>
      if length part_id_bytes > 8 then (Some (ValueError ''x-part-id max 8 bytes''), state)
      else
      let part_id = from_bytes part_id_bytes in
      (case (if part_id = 0 then start_notify_stream message message_id state
            else (case incoming_notification state of
                    None \<Rightarrow> Inl (ValueError ''received part out of order'')
                  | Some notif \<Rightarrow>
                      if last_part_id notif + 1 \<noteq> int part_id
                      then Inl (ValueError ''received part out of order'')
                      else Inr (notif, state))) of
        Inl e \<Rightarrow> (Some e, state)
      | Inr (notif, state1) \<Rightarrow>
      if compressor_id notif \<noteq> 0 \<and> \<not> compressor_known (compressor_id notif) state1
        then (Some (ValueError ''unknown compressor id''), state1)
      else
      let notif1 = notif\<lparr>body_hasher := body_hasher notif @ body message,
                          notif_body := notif_body notif @ body message\<rparr>;
          state2 = state1\<lparr>incoming_notification := Some notif1\<rparr>;
          compressed_bytes_so_far = length (notif_body notif1)
      in
      if compressed_bytes_so_far > compressed_length notif1
        then (Some (ValueError ''compressed message exceeds indicated length''), state2)
      else if compressed_bytes_so_far < compressed_length notif1 then
        (case make_websocket_message (flags message) CONTINUE_NOTIFY
                [(''x-identifier'', notif_identifier notif1), (''x-part-id'', part_id_bytes)] [] of
           Inl e \<Rightarrow> (Some e, state2)
         | Inr ack_message \<Rightarrow> (None, send_or_enqueue ack_message state2))
      else finish_notify_stream w message notif1 state2))))"

subsection \<open>Acknowledgements and dispatch\<close>

text \<open>\<open>_process_message_asap\<close>. \<open>expecting_acks.get_nowait()\<close> takes the head of the
  queue and raises QueueEmpty on an empty one.\<close>

definition process_message_asap :: "ParsedWSMessage \<Rightarrow> StateOpen \<Rightarrow> error option \<times> StateOpen" where
  "process_message_asap message state =
     (if mtype message = CONTINUE_RECEIVE then
        (case headers message ''x-identifier'' of
           None \<Rightarrow> (Some (ValueError ''continue receive requires identifier''), state)
         | Some ident \<Rightarrow>
         (case headers message ''x-part-id'' of
           None \<Rightarrow> (Some (ValueError ''continue receive requires part id''), state)
         | Some part_id_bytes \<Rightarrow>
         if length part_id_bytes > 8 then (Some (ValueError ''part id too long''), state)
         else
         let part_id = from_bytes part_id_bytes in
         (case expecting_acks state of
           [] \<Rightarrow> (Some (ValueError ''not expecting ack right now''), state)
         | expecting_ack # rest \<Rightarrow>
             let state1 = state\<lparr>expecting_acks := rest\<rparr> in
             (case expecting_ack of
                ConfirmReceive i \<Rightarrow> (Some (ValueError ''expecting another type''), state1)
              | ContinueReceive i p \<Rightarrow>
                  if i \<noteq> ident then (Some (ValueError ''expecting another identifier''), state1)
                  else if p \<noteq> part_id then (Some (ValueError ''expecting another part id''), state1)
                  else (None, state1)))))
      else if mtype message = CONFIRM_RECEIVE then
        (case headers message ''x-identifier'' of
           None \<Rightarrow> (Some (ValueError ''confirm receive requires identifier''), state)
         | Some ident \<Rightarrow>
         (case expecting_acks state of
           [] \<Rightarrow> (Some (ValueError ''not expecting ack right now''), state)
         | expecting_ack # rest \<Rightarrow>
             let state1 = state\<lparr>expecting_acks := rest\<rparr> in
             (case expecting_ack of
                ContinueReceive i p \<Rightarrow> (Some (ValueError ''expecting another type''), state1)
              | ConfirmReceive i \<Rightarrow>
                  if i \<noteq> ident then (Some (ValueError ''expecting another identifier''), state1)
                  else (None, state1))))
      else if process_task state \<noteq> None then
        (None, state\<lparr>unprocessed_receives :=
                        deque_append (websocket_max_unprocessed_receives (broadcaster_config state))
                          (unprocessed_receives state) message\<rparr>)
      else (None, state\<lparr>process_task := Some message\<rparr>))"

text \<open>The session states, and the step of \<open>_handle_open\<close> that reaps the process slot:
  \<open>state.process_task.result()\<close> re-raises the processor's exception, which the handler
  turns into \<open>_cleanup_open(state, e)\<close>, that is \<open>_StateClosing\<close> with the exception.\<close>

datatype State =
    StateIsOpen StateOpen
  | StateClosing "error option"
  | StateClosed

definition reap_process_task :: "error option \<times> StateOpen \<Rightarrow> State" where
  "reap_process_task r =
     (case r of
        (Some e, state) \<Rightarrow> StateClosing (Some e)
      | (None, state) \<Rightarrow> StateIsOpen (state\<lparr>process_task := None\<rparr>))"

subsection \<open>Compression selection of the three send paths\<close>

text \<open>What a send path decides for a payload: no compression (compressor id 0), the
  standard compressor (id 1), or the active compressor with its dictionary id.\<close>

datatype CompressionChoice = Uncompressed | UseStandard | UseActive int

fun choice_compressor_id :: "CompressionChoice \<Rightarrow> int" where
  "choice_compressor_id Uncompressed = 0"
| "choice_compressor_id UseStandard = 1"
| "choice_compressor_id (UseActive i) = i"

text \<open>The \<open>if\<close>/\<open>elif\<close> of \<open>_send_small_message\<close> that sets \<open>compressor_id\<close>, after
  the function's assertion.\<close>

definition send_small_message_selection :: "int \<Rightarrow> StateOpen \<Rightarrow> error + CompressionChoice" where
  "send_small_message_selection len state =
     (if socket_level_config state = None then Inl AssertionError
      else if len \<ge> compression_min_size (broadcaster_config state)
              \<and> len < compression_trained_max_size (broadcaster_config state)
              \<and> active_compressor state \<noteq> None
              \<and> compressor_is_ready (the (active_compressor state))
        then Inr (UseActive (compressor_dictionary_id (the (active_compressor state))))
      else if len \<ge> compression_trained_max_size (broadcaster_config state)
              \<and> standard_compressor state \<noteq> None
              \<and> compressor_is_ready (the (standard_compressor state))
        then Inr UseStandard
      else Inr Uncompressed)"

text \<open>The two guards at the head of \<open>_send_large_message_from_spooled\<close>; a standard
  compressor that is still preparing is awaited, which may raise.\<close>

definition send_large_message_from_spooled_selection ::
  "int \<Rightarrow> StateOpen \<Rightarrow> error + CompressionChoice" where
  "send_large_message_from_spooled_selection len state =
     (if standard_compressor state \<noteq> None
         \<and> len \<ge> compression_trained_max_size (broadcaster_config state)
        then (case await_compressor (the (standard_compressor state)) of
                Inl e \<Rightarrow> Inl e
              | Inr std_compressor \<Rightarrow> Inr UseStandard)
      else if active_compressor state \<noteq> None
              \<and> compressor_is_ready (the (active_compressor state))
              \<and> len \<ge> compression_min_size (broadcaster_config state)
        then Inr (UseActive (compressor_dictionary_id (the (active_compressor state))))
      else Inr Uncompressed)"

text \<open>The two guards at the head of \<open>_send_large_message_optimistically\<close>, after the
  function's assertion.\<close>

definition send_large_message_optimistically_selection ::
  "int \<Rightarrow> StateOpen \<Rightarrow> error + CompressionChoice" where
  "send_large_message_optimistically_selection len state =
     (if socket_level_config state = None then Inl AssertionError
      else if compression_allowed (broadcaster_config state)
              \<and> len \<ge> compression_trained_max_size (broadcaster_config state)
              \<and> standard_compressor state \<noteq> None
        then (case await_compressor (the (standard_compressor state)) of
                Inl e \<Rightarrow> Inl e
              | Inr std_compressor \<Rightarrow> Inr UseStandard)
      else if active_compressor state \<noteq> None
              \<and> compressor_is_ready (the (active_compressor state))
              \<and> len \<ge> compression_min_size (broadcaster_config state)
              \<and> len < compression_trained_max_size (broadcaster_config state)
        then Inr (UseActive (compressor_dictionary_id (the (active_compressor state))))
      else Inr Uncompressed)"

text \<open>The three rules as the specification words them (section 4.4), for comparison
  with the code's three selections.\<close>

definition spec_compression_selection :: "int \<Rightarrow> StateOpen \<Rightarrow> CompressionChoice" where
  "spec_compression_selection len state =
     (if len \<ge> compression_trained_max_size (broadcaster_config state)
         \<and> standard_compressor state \<noteq> None
        then UseStandard
      else if compression_min_size (broadcaster_config state) \<le> len
              \<and> len < compression_trained_max_size (broadcaster_config state)
              \<and> active_compressor state \<noteq> None
              \<and> compressor_is_ready (the (active_compressor state))
        then UseActive (compressor_dictionary_id (the (active_compressor state)))
      else Uncompressed)"

subsection \<open>The refactored processor (lonelypss/ws/handlers/open/processors)\<close>

text \<open>The part of the refactored \<open>StateOpen\<close> (lonelypss/ws/state.py, not among the
  sources; the fields are those \<open>handle_waiting_configure\<close> fills in) that
  \<open>process_subscribe_exact\<close> touches.\<close>

record StateOpenR =
  r_broadcaster_config :: Config
  r_nonce_b64 :: string
  r_subscriber_counter :: int
  r_exact_subscriptions :: "bytes set"
  r_send_task :: "SendTask option"
  r_unsent_messages :: "bytes list"
  r_history :: "Event list"

text \<open>Modelled from the spec: \<open>make_for_receive_websocket_url_and_change_counter\<close> of
  lonelypss/ws/handlers/open/websocket\_url.py is not among the sources. Section 4.7:
  \<open>mint_receive_url = "stateful:" + nonce_b64 + ":" + hex(subscriber_counter);
  subscriber_counter -= 1\<close>.\<close>

definition r_make_for_receive_websocket_url_and_change_counter ::
  "StateOpenR \<Rightarrow> string \<times> StateOpenR" where
  "r_make_for_receive_websocket_url_and_change_counter state =
     (''stateful:'' @ r_nonce_b64 state @ '':'' @ format_x (r_subscriber_counter state),
      state\<lparr>r_subscriber_counter := r_subscriber_counter state - 1\<rparr>)"

text \<open>Modelled from the spec: \<open>send_simple_asap\<close> (lonelypss/ws/handlers/open/send\_simple\_asap.py)
  is not among the sources. Section 4.1: an idle send channel launches the send, otherwise
  the frame waits in the bounded queue of outbound work.\<close>

definition send_simple_asap :: "bytes \<Rightarrow> StateOpenR \<Rightarrow> StateOpenR" where
  "send_simple_asap data state =
     (if r_send_task state = None
      then state\<lparr>r_send_task := Some (SendBytes data), r_history := r_history state @ [Outgoing data]\<rparr>
      else state\<lparr>r_unsent_messages :=
                    deque_append (websocket_max_pending_sends (r_broadcaster_config state))
                      (r_unsent_messages state) data,
                  r_history := r_history state @ [Outgoing data]\<rparr>)"

text \<open>Modelled from the spec: \<open>serialize_b2s_confirm_subscribe_exact\<close> belongs to the
  protocol package lonelypsp, not among the sources. Sections 4.2 and 6: the frame of type
  CONFIRM\_SUBSCRIBE\_EXACT with the one header \<open>x-topic\<close>, in the minimal or the expanded
  form.\<close>

definition serialize_b2s_confirm_subscribe_exact :: "bytes \<Rightarrow> bool \<Rightarrow> error + bytes" where
  "serialize_b2s_confirm_subscribe_exact topic' minimal_headers =
     make_websocket_message (if minimal_headers then MINIMAL_HEADERS else 0)
       CONFIRM_SUBSCRIBE_EXACT [(''x-topic'', topic')] []"

text \<open>\<open>process_subscribe_exact\<close> of process\_subscribe\_exact.py, on the parsed message's
  topic and authorization.\<close>

definition process_subscribe_exact ::
  "World \<Rightarrow> bytes \<Rightarrow> pystr option \<Rightarrow> StateOpenR \<Rightarrow> error option \<times> StateOpenR" where
  "process_subscribe_exact w topic' authorization state =
     (case r_make_for_receive_websocket_url_and_change_counter state of
        (url, state1) \<Rightarrow>
      let auth_result = is_subscribe_exact_allowed w url topic' (time_now w) authorization in
      if auth_result \<noteq> AuthOk
        then (Some (PyException (''subscribe exact: '' @ auth_result_name auth_result)), state1)
      else if topic' \<in> r_exact_subscriptions state1
        then (Some (PyException ''already subscribed to exact topic''), state1)
      else
        (case serialize_b2s_confirm_subscribe_exact topic'
                (websocket_minimal_headers (r_broadcaster_config state1)) of
           Inl e \<Rightarrow> (Some e, state1)
         | Inr data \<Rightarrow>
             let state2 = send_simple_asap data state1;
                 state3 = state2\<lparr>r_exact_subscriptions := insert topic' (r_exact_subscriptions state2),
                                 r_history := r_history state2 @ [LocalAddExact topic']\<rparr>;
                 state4 = state3\<lparr>r_history := r_history state3 @ [HubIncrementExact topic']\<rparr>
             in (None, state4)))"

subsection \<open>The state a session starts in\<close>

text \<open>The \<open>_StateOpen\<close> that \<open>_handle_accepting\<close> builds once the handshake is done;
  \<open>now\<close> is the clock reading.\<close>

definition handle_accepting :: "Config \<Rightarrow> real \<Rightarrow> StateOpen" where
  "handle_accepting config now =
     \<lparr>broadcaster_config = config,
      training_data =
        (if \<not> allow_training config then None
         else Some (BeforeLowWatermark
                \<lparr>started_at = now, messages = 0, length_c = 0, tmpfile = []\<rparr> False)),
      standard_compressor = None,
      socket_level_config = None,
      exact_subscriptions = {},
      glob_subscriptions = [],
      send_task = None,
      process_task = None,
      pending_sends = [],
      unprocessed_receives = [],
      expecting_acks = [],
      incoming_notification = None,
      active_compressor = None,
      last_compressor = None,
      broadcaster_counter = 1,
      subscriber_counter = - 1,
      custom_compression_dict_counter = 65536,
      history = []\<rparr>"

subsection \<open>Reading an acknowledgement frame against a descriptor\<close>

text \<open>What the claims about acknowledgements speak of: a frame that carries the fields of
  its kind (an identifier and, for CONTINUE\_RECEIVE, a part id of at most 8 bytes), and
  a frame whose kind, identifier and part id equal those of a descriptor.\<close>

definition has_ack_fields :: "ParsedWSMessage \<Rightarrow> bool" where
  "has_ack_fields message =
     (headers message ''x-identifier'' \<noteq> None
      \<and> (if mtype message = CONTINUE_RECEIVE
         then (case headers message ''x-part-id'' of
                 None \<Rightarrow> False
               | Some b \<Rightarrow> length b \<le> 8)
         else True))"

definition ack_matches :: "Acknowledgement \<Rightarrow> ParsedWSMessage \<Rightarrow> bool" where
  "ack_matches d message =
     (case d of
        ContinueReceive i p \<Rightarrow>
          mtype message = CONTINUE_RECEIVE
          \<and> headers message ''x-identifier'' = Some i
          \<and> (case headers message ''x-part-id'' of
                None \<Rightarrow> False
              | Some b \<Rightarrow> from_bytes b = p)
      | ConfirmReceive i \<Rightarrow>
          mtype message = CONFIRM_RECEIVE
          \<and> headers message ''x-identifier'' = Some i)"

subsection \<open>Observing that a processor had no outward effect\<close>

text \<open>Between two states nothing was handed to the send path, no collaborator was
  called, and the subscription view did not change.\<close>

definition untouched :: "StateOpen \<Rightarrow> StateOpen \<Rightarrow> bool" where
  "untouched state state' =
     (history state' = history state \<and> send_task state' = send_task state
      \<and> pending_sends state' = pending_sends state
      \<and> exact_subscriptions state' = exact_subscriptions state
      \<and> glob_subscriptions state' = glob_subscriptions state)"

subsection \<open>The frames the round-trip claim speaks of\<close>

text \<open>A header name in lowercase ASCII, and a header list an encoder can write: at most
  65535 headers, names distinct, lowercase ASCII and of at most 65535 bytes, values of
  at most 65535 bytes.\<close>

definition is_lower_name :: "string \<Rightarrow> bool" where
  "is_lower_name name =
     list_all (\<lambda>c. \<not> (65 \<le> (of_char c :: nat) \<and> (of_char c :: nat) \<le> 90)) name"

definition is_ascii_name :: "string \<Rightarrow> bool" where
  "is_ascii_name name = list_all (\<lambda>c. (of_char c :: nat) < 128) name"

definition wellformed_headers :: "(string \<times> bytes) list \<Rightarrow> bool" where
  "wellformed_headers hs =
     (length hs \<le> 65535
      \<and> distinct (map fst hs)
      \<and> list_all is_ascii_name (map fst hs)
      \<and> list_all is_lower_name (map fst hs)
      \<and> list_all (\<lambda>name. length name \<le> 65535) (map fst hs)
      \<and> list_all (\<lambda>v. length v \<le> 65535) (map snd hs))"

text \<open>The ordered header list of the first part of a NOTIFY\_STREAM in the minimal
  form.\<close>

definition notify_stream_part0_headers ::
  "bytes \<Rightarrow> bytes \<Rightarrow> bytes \<Rightarrow> bytes \<Rightarrow> bytes \<Rightarrow> bytes \<Rightarrow> bytes \<Rightarrow> bytes
     \<Rightarrow> (string \<times> bytes) list" where
  "notify_stream_part0_headers auth ident part tp cmpr clen dlen sha =
     [(''authorization'', auth), (''x-identifier'', ident), (''x-part-id'', part),
      (''x-topic'', tp), (''x-compressor'', cmpr), (''x-compressed-length'', clen),
      (''x-decompressed-length'', dlen), (''x-compressed-sha512'', sha)]"

section \<open>Example inputs\<close>

text \<open>A configuration with a small sampling window (2 to 4 bytes), a collaborator set
  whose float arithmetic is exact, whose verifier always answers ok and whose hashes
  are constant, and the states built from them. The theorems below are instantiated
  at these inputs.\<close>

definition example_config :: Config where
  "example_config =
     \<lparr>message_body_spool_size = 1000, outgoing_max_ws_message_size = None,
      websocket_max_pending_sends = Some 10, websocket_max_unprocessed_receives = Some 10,
      websocket_send_max_unacknowledged = None, websocket_minimal_headers = True,
      compression_allowed = True, allow_training = True, compression_min_size = 2,
      compression_trained_max_size = 4, compression_training_low_watermark = 100,
      compression_training_high_watermark = 1000,
      compression_retrain_interval_seconds = 60\<rparr>"

definition example_world :: World where
  "example_world =
     \<lparr>time_now = 0, float_add = (+), float_lt = (<),
      sha512 = (\<lambda>b. replicate 64 0),
      sha256 = (\<lambda>b. replicate 32 0),
      is_subscribe_exact_allowed = (\<lambda>url t now a. AuthOk),
      is_subscribe_glob_allowed = (\<lambda>url g now a. AuthOk),
      is_notify_allowed = (\<lambda>t h now a. AuthOk),
      handle_trusted_notify = (\<lambda>t p n h. \<lparr>result_type = NOTIFY_OK, succeeded = 1, failed = 0\<rparr>),
      get_compression_dictionary_by_id = (\<lambda>i. None),
      zstd_decompress = (\<lambda>i b. Inr b),
      translate = (\<lambda>g. g),
      regex_match_str = (\<lambda>r t. r = t),
      regex_match_bytes = (\<lambda>r t. r = t)\<rparr>"

text \<open>A session just accepted, and the same session after a CONFIGURE that asked for
  neither compression nor training and whose connection nonce hashed to 32 zero bytes,
  once the confirmation has been sent.\<close>

definition accepted_state :: StateOpen where
  "accepted_state = handle_accepting example_config 0"

definition configured_state :: StateOpen where
  "configured_state =
     accepted_state\<lparr>socket_level_config := Some
       \<lparr>enable_zstd = False, enable_training = False, dictionary_id = 0,
        nonce_b64 = urlsafe_b64encode (replicate 32 0)\<rparr>,
       training_data := None\<rparr>"

text \<open>A CONFIGURE frame in the expanded form that asks for neither compression nor
  training, with a subscriber nonce of 32 zero bytes.\<close>

definition configure_message :: ParsedWSMessage where
  "configure_message =
     \<lparr>flags = 0, mtype = CONFIGURE,
      headers = [''x-subscriber-nonce'' \<mapsto> replicate 32 0], body = []\<rparr>"

text \<open>A session that has sent a two-part notification with identifier \<open>01\<close> and waits
  for its acknowledgements, and the two frames that acknowledge it.\<close>

definition awaiting_acks_state :: StateOpen where
  "awaiting_acks_state =
     configured_state\<lparr>expecting_acks := [ContinueReceive [1] 0, ConfirmReceive [1]]\<rparr>"

definition continue_receive_message :: ParsedWSMessage where
  "continue_receive_message =
     \<lparr>flags = 0, mtype = CONTINUE_RECEIVE,
      headers = [''x-identifier'' \<mapsto> [1], ''x-part-id'' \<mapsto> [0]], body = []\<rparr>"

text \<open>Two acknowledgement frames that lack a field of their kind: a CONTINUE\_RECEIVE
  for the same identifier whose part id, zero, is written on nine bytes, and a
  CONFIRM\_RECEIVE without identifier.\<close>

definition long_part_id_message :: ParsedWSMessage where
  "long_part_id_message =
     \<lparr>flags = 0, mtype = CONTINUE_RECEIVE,
      headers = [''x-identifier'' \<mapsto> [1], ''x-part-id'' \<mapsto> [0, 0, 0, 0, 0, 0, 0, 0, 0]],
      body = []\<rparr>"

definition anonymous_confirm_message :: ParsedWSMessage where
  "anonymous_confirm_message =
     \<lparr>flags = 0, mtype = CONFIRM_RECEIVE, headers = Map.empty, body = []\<rparr>"

text \<open>A configured session whose standard compressor and trained compressor 65536 are
  both ready.\<close>

definition compressing_state :: StateOpen where
  "compressing_state =
     configured_state\<lparr>standard_compressor := Some (CompressorReady 1 3),
                       active_compressor := Some (CompressorReady 65536 3)\<rparr>"

text \<open>A configured session whose standard compressor is still being prepared (as CONFIGURE
  with \<open>x-enable-zstd\<close> leaves it); one where the broadcaster forbids compression while
  the standard compressor is ready; and one with a ready trained compressor but no
  standard compressor.\<close>

definition preparing_standard_state :: StateOpen where
  "preparing_standard_state =
     configured_state\<lparr>standard_compressor := Some (CompressorPreparing 1 (Inr (1, 3)))\<rparr>"

definition compression_forbidden_state :: StateOpen where
  "compression_forbidden_state =
     compressing_state\<lparr>broadcaster_config := example_config\<lparr>compression_allowed := False\<rparr>\<rparr>"

definition active_only_state :: StateOpen where
  "active_only_state =
     configured_state\<lparr>active_compressor := Some (CompressorReady 65536 3)\<rparr>"

text \<open>Requests to unsubscribe from the topic \<open>01\<close> and from the glob \<open>a*\<close>, neither of
  which the configured session is subscribed to.\<close>

definition unsubscribe_exact_message :: ParsedWSMessage where
  "unsubscribe_exact_message =
     \<lparr>flags = 0, mtype = UNSUBSCRIBE_EXACT, headers = [''x-topic'' \<mapsto> [1]], body = []\<rparr>"

definition unsubscribe_glob_message :: ParsedWSMessage where
  "unsubscribe_glob_message =
     \<lparr>flags = 0, mtype = UNSUBSCRIBE_GLOB, headers = [''x-glob'' \<mapsto> [97, 42]], body = []\<rparr>"

text \<open>A NOTIFY frame whose body has the advertised length but not the advertised hash
  (the example hash function gives 64 zero bytes, the frame advertises 64 one bytes).\<close>

definition notify_bad_hash_message :: ParsedWSMessage where
  "notify_bad_hash_message =
     \<lparr>flags = 0, mtype = NOTIFY,
      headers = [''x-identifier'' \<mapsto> [7], ''x-topic'' \<mapsto> [1],
                 ''x-compressed-length'' \<mapsto> [2], ''x-decompressed-length'' \<mapsto> [2],
                 ''x-compressed-sha512'' \<mapsto> replicate 64 1],
      body = [5, 6]\<rparr>"

text \<open>A notification of two bytes streamed in two parts of one byte each, uncompressed,
  with identifier \<open>07\<close>: part 0 with the metadata, then part 1.\<close>

definition stream_part0_message :: ParsedWSMessage where
  "stream_part0_message =
     \<lparr>flags = 0, mtype = NOTIFY_STREAM,
      headers = [''x-identifier'' \<mapsto> [7], ''x-part-id'' \<mapsto> [0], ''x-topic'' \<mapsto> [1],
                 ''x-compressor'' \<mapsto> [0], ''x-compressed-length'' \<mapsto> [2],
                 ''x-decompressed-length'' \<mapsto> [2],
                 ''x-compressed-sha512'' \<mapsto> replicate 64 0],
      body = [5]\<rparr>"

definition stream_part1_message :: ParsedWSMessage where
  "stream_part1_message =
     \<lparr>flags = 0, mtype = NOTIFY_STREAM,
      headers = [''x-identifier'' \<mapsto> [7], ''x-part-id'' \<mapsto> [1]],
      body = [6]\<rparr>"

text \<open>Requests to subscribe to the topic \<open>01\<close> and to the glob \<open>a*\<close>, and the session
  after the second one has been processed.\<close>

definition subscribe_exact_message :: ParsedWSMessage where
  "subscribe_exact_message =
     \<lparr>flags = 0, mtype = SUBSCRIBE_EXACT, headers = [''x-topic'' \<mapsto> [1]], body = []\<rparr>"

definition subscribe_glob_message :: ParsedWSMessage where
  "subscribe_glob_message =
     \<lparr>flags = 0, mtype = SUBSCRIBE_GLOB, headers = [''x-glob'' \<mapsto> [97, 42]], body = []\<rparr>"

definition glob_subscribed_state :: StateOpen where
  "glob_subscribed_state =
     snd (process_subscribe_or_unsubscribe example_world subscribe_glob_message configured_state)"

text \<open>A session of the refactored engine, open and idle.\<close>

definition refactored_state :: StateOpenR where
  "refactored_state =
     \<lparr>r_broadcaster_config = example_config\<lparr>websocket_minimal_headers := False\<rparr>,
      r_nonce_b64 = urlsafe_b64encode (replicate 32 0),
      r_subscriber_counter = - 1,
      r_exact_subscriptions = {},
      r_send_task = None,
      r_unsent_messages = [],
      r_history = []\<rparr>"

section \<open>Auxiliary facts\<close>

subsection \<open>Hexadecimal and base64 text\<close>

lemma lt16_cases: "(d::nat) < 16 \<Longrightarrow> d \<in> {0,1,2,3,4,5,6,7,8,9,10,11,12,13,14,15}"
  by simp arith

lemma hex_digit_value_hex_digit: "d < 16 \<Longrightarrow> hex_digit_value (hex_digit d) = d"
  by (drule lt16_cases) (auto simp: hex_digit_def hex_digit_value_def)

lemma hex_digit_in: "hex_digit d \<in> set ''0123456789abcdef''"
proof -
  have "d mod 16 < 16" by simp
  then have "d mod 16 \<in> {0,1,2,3,4,5,6,7,8,9,10,11,12,13,14,15}" by (rule lt16_cases)
  then show ?thesis unfolding hex_digit_def by auto
qed

lemma hex_digit_zero: "d < 16 \<Longrightarrow> hex_digit d = CHR ''0'' \<Longrightarrow> d = 0"
  by (drule lt16_cases) (auto simp: hex_digit_def)

lemma hex_value_snoc: "hex_value (xs @ [c]) = hex_value xs * 16 + hex_digit_value c"
  by (simp add: hex_value_def)

lemma hex_value_hex_nat: "hex_value (hex_nat n) = n"
proof (induction n rule: hex_nat.induct)
  case (1 n)
  show ?case
  proof (cases "n < 16")
    case True
    then show ?thesis
      by (subst hex_nat.simps) (simp add: hex_value_def hex_digit_value_hex_digit)
  next
    case False
    then have "hex_value (hex_nat n) =
        hex_value (hex_nat (n div 16)) * 16 + hex_digit_value (hex_digit (n mod 16))"
      by (subst hex_nat.simps) (simp add: hex_value_snoc)
    also have "\<dots> = n div 16 * 16 + n mod 16"
      using 1 False by (simp add: hex_digit_value_hex_digit)
    finally show ?thesis by simp
  qed
qed

lemma hex_nat_chars: "set (hex_nat n) \<subseteq> set ''0123456789abcdef''"
proof (induction n rule: hex_nat.induct)
  case (1 n)
  show ?case
  proof (cases "n < 16")
    case True
    then show ?thesis using hex_digit_in [of n] by (subst hex_nat.simps) simp
  next
    case False
    then show ?thesis using 1 hex_digit_in [of "n mod 16"] by (subst hex_nat.simps) simp
  qed
qed

lemma hex_nat_nonempty: "hex_nat n \<noteq> []"
  by (subst hex_nat.simps) simp

lemma hex_nat_no_leading_zero: "n \<noteq> 0 \<Longrightarrow> hd (hex_nat n) \<noteq> CHR ''0''"
proof (induction n rule: hex_nat.induct)
  case (1 n)
  show ?case
  proof (cases "n < 16")
    case True
    then show ?thesis using 1(2) hex_digit_zero [of n] by (subst hex_nat.simps) auto
  next
    case False
    then have "n div 16 \<noteq> 0" by simp
    with 1 False have "hd (hex_nat (n div 16)) \<noteq> CHR ''0''" by simp
    then show ?thesis using False hex_nat_nonempty [of "n div 16"]
      by (subst hex_nat.simps) simp
  qed
qed

lemma b64_length: "length (urlsafe_b64encode b) = 4 * ((length b + 2) div 3)"
proof (induction b rule: urlsafe_b64encode.induct)
  case (4 a b c rest)
  have "(length (a # b # c # rest) + 2) div 3 = Suc ((length rest + 2) div 3)" by simp
  with 4 show ?case by simp
qed simp_all

lemma b64_empty: "urlsafe_b64encode b = [] \<longleftrightarrow> b = []"
  by (cases b rule: urlsafe_b64encode.cases) simp_all

lemma b64_last_pad: "length b mod 3 \<noteq> 0 \<Longrightarrow> last (urlsafe_b64encode b) = CHR ''=''"
proof (induction b rule: urlsafe_b64encode.induct)
  case (4 a b c rest)
  then have "rest \<noteq> []" by auto
  with 4 show ?case by (simp add: b64_empty)
qed simp_all

subsection \<open>The example session\<close>

text \<open>The configured example session is the accepted one after \<open>_process_configure\<close> has
  handled the example CONFIGURE frame, apart from the confirmation that waits to be
  sent.\<close>

lemma configure_reaches_configured_state:
  "\<exists>data. process_configure example_world (replicate 32 1) configure_message accepted_state
     = (None, configured_state\<lparr>pending_sends := [FormattedMessage data],
                                history := [Outgoing data]\<rparr>)"
  by (simp add: process_configure_def configure_message_def configured_state_def
      accepted_state_def handle_accepting_def
      example_config_def example_world_def headers_get_def make_websocket_message_def
      MINIMAL_HEADERS_def ascii_encode_def Let_def to_bytes_def be_bytes_def upt_rec
      deque_append_def from_bytes_def
      split: sum.splits)

subsection \<open>The cool-down check follows the host's float addition\<close>

text \<open>With the last refresh at \<open>10^16\<close> seconds and an interval of one second, on a host
  whose addition rounds \<open>10^16 + 1\<close> to \<open>10^16\<close> (as IEEE-754 binary64 does) the check at
  clock reading \<open>10^16\<close> opens a new collector; with exact addition it keeps waiting.\<close>

lemma retraining_follows_float_addition:
  "handle_if_should_start_retraining
     \<lparr>time_now = 10 ^ 16,
      float_add = (\<lambda>x y. if x = 10 ^ 16 \<and> y = 1 then 10 ^ 16 else x + y),
      float_lt = (<)\<rparr>
     \<lparr>broadcaster_config = example_config\<lparr>compression_retrain_interval_seconds := 1\<rparr>,
      training_data = Some (WaitingToRefresh (10 ^ 16))\<rparr>
   = \<lparr>broadcaster_config = example_config\<lparr>compression_retrain_interval_seconds := 1\<rparr>,
      training_data = Some (BeforeHighWatermark
        \<lparr>started_at = 10 ^ 16, messages = 0, length_c = 0, tmpfile = []\<rparr> False)\<rparr>
   \<and> handle_if_should_start_retraining
     \<lparr>time_now = 10 ^ 16, float_add = (+), float_lt = (<)\<rparr>
     \<lparr>broadcaster_config = example_config\<lparr>compression_retrain_interval_seconds := 1\<rparr>,
      training_data = Some (WaitingToRefresh (10 ^ 16))\<rparr>
   = \<lparr>broadcaster_config = example_config\<lparr>compression_retrain_interval_seconds := 1\<rparr>,
      training_data = Some (WaitingToRefresh (10 ^ 16))\<rparr>"
  by (simp add: handle_if_should_start_retraining_def example_config_def)
section \<open>The claims\<close>

subsection \<open>C7: which payloads are sampled for dictionary training\<close>

lemma store_small_sample_count:
  assumes "compression_trained_max_size (broadcaster_config state) \<le> 2 ^ 32"
  shows "sample_count (snd (store_small_for_compression_training host data state))
         = sample_count (handle_if_should_start_retraining host state)
           + (if collecting (handle_if_should_start_retraining host state)
                 \<and> compression_min_size (broadcaster_config state) \<le> int (length data)
                 \<and> int (length data) < compression_trained_max_size (broadcaster_config state)
              then 1 else 0)"
  using assms
  by (auto simp: store_small_for_compression_training_def sample_count_def collecting_def
      handle_if_should_start_retraining_def write_sample_def to_bytes_def Let_def
      split: option.splits CompressorTrainingInfo.splits sum.splits if_splits)

lemma should_store_large_iff:
  "fst (should_store_large_message_for_training host len state)
   \<longleftrightarrow> collecting (handle_if_should_start_retraining host state)
       \<and> compression_min_size (broadcaster_config state) \<le> len
       \<and> len < compression_trained_max_size (broadcaster_config state)"
  by (auto simp: should_store_large_message_for_training_def collecting_def
      handle_if_should_start_retraining_def Let_def
      split: option.splits CompressorTrainingInfo.splits if_splits)

text \<open>
  C7, as the specification states it, fails on the code: a payload whose length equals
  \<open>compression_trained_max_size\<close> is not sampled. In the example session the window is
  2 to 4 bytes and a collector is open; a payload of 4 bytes leaves the state as it was,
  on the small path and on the large path.
\<close>

theorem C7_counterexample:
  "compression_min_size (broadcaster_config accepted_state) \<le> int (length [1, 2, 3, 4 :: byte])
   \<and> int (length [1, 2, 3, 4 :: byte]) \<le> compression_trained_max_size (broadcaster_config accepted_state)
   \<and> collecting accepted_state
   \<and> store_small_for_compression_training example_world [1, 2, 3, 4] accepted_state = (None, accepted_state)
   \<and> should_store_large_message_for_training example_world 4 accepted_state = (False, accepted_state)"
  by (simp add: accepted_state_def handle_accepting_def example_config_def collecting_def
      store_small_for_compression_training_def should_store_large_message_for_training_def)

text \<open>
  C7, amended: the upper bound of the sampling window is exclusive. With
  \<open>compression_trained_max_size\<close> a 32-bit size, a small payload adds exactly one sample
  to the collector if and only if training is active (after the cool-down check of
  \<open>_handle_if_should_start_retraining\<close> a collector is open) and
  \<open>compression_min_size \<le> L < compression_trained_max_size\<close>, and adds none otherwise;
  \<open>_should_store_large_message_for_training\<close> answers true under exactly the same
  condition.
\<close>

theorem C7_sampling_window:
  assumes "compression_trained_max_size (broadcaster_config state) \<le> 2 ^ 32"
  shows "sample_count (snd (store_small_for_compression_training host data state))
           = sample_count (handle_if_should_start_retraining host state)
             + (if collecting (handle_if_should_start_retraining host state)
                   \<and> compression_min_size (broadcaster_config state) \<le> int (length data)
                   \<and> int (length data) < compression_trained_max_size (broadcaster_config state)
                then 1 else 0)
         \<and> (fst (should_store_large_message_for_training host len state)
              \<longleftrightarrow> collecting (handle_if_should_start_retraining host state)
                  \<and> compression_min_size (broadcaster_config state) \<le> len
                  \<and> len < compression_trained_max_size (broadcaster_config state))"
  using store_small_sample_count [OF assms] should_store_large_iff by blast

theorem C7_sampling_window_witness:
  "compression_trained_max_size (broadcaster_config accepted_state) \<le> 2 ^ 32
   \<and> sample_count (snd (store_small_for_compression_training example_world [1, 2, 3] accepted_state)) = 1
   \<and> fst (should_store_large_message_for_training example_world 3 accepted_state)"
proof -
  have h: "compression_trained_max_size (broadcaster_config accepted_state) \<le> 2 ^ 32"
    by (simp add: accepted_state_def handle_accepting_def example_config_def)
  show ?thesis
    using h C7_sampling_window [OF h, of example_world "[1, 2, 3]" 3]
    by (simp add: accepted_state_def handle_accepting_def example_config_def collecting_def
        sample_count_def handle_if_should_start_retraining_def)
qed

subsection \<open>C3: authorization URLs\<close>

lemma urlsafe_b64encode_zero32:
  "urlsafe_b64encode (replicate 32 (0::byte)) = ''AAAAAAAAAAAAAAAAAAAAAAAAAAAAAAAAAAAAAAAAAAA=''"
  by code_simp

lemma configure_nonce:
  assumes "process_configure w broadcaster_nonce message state = (None, state')"
  shows "\<exists>slc sn. socket_level_config state' = Some slc
           \<and> headers message ''x-subscriber-nonce'' = Some sn
           \<and> nonce_b64 slc = urlsafe_b64encode (sha256 w (sn @ broadcaster_nonce))"
  using assms
  by (auto simp: process_configure_def Let_def rotate_compressor_def
      split: if_splits option.splits sum.splits)

text \<open>
  C3, as the specification states it, fails on the code: the minted URL starts with
  \<open>websocket:\<close>, not \<open>stateful:\<close>, and the nonce keeps the padding of
  \<open>base64.urlsafe_b64encode\<close>. For the connection nonce of 32 zero bytes and the counter
  1, the claim gives \<open>stateful:AAA...A:1\<close> (43 letters); the code returns
  \<open>websocket:AAA...A=:1\<close>.
\<close>

theorem C3_counterexample:
  "make_for_send_websocket_url_and_change_counter configured_state
     = Inr (''websocket:AAAAAAAAAAAAAAAAAAAAAAAAAAAAAAAAAAAAAAAAAAA=:1'',
            configured_state\<lparr>broadcaster_counter := 2\<rparr>)
   \<and> ''websocket:AAAAAAAAAAAAAAAAAAAAAAAAAAAAAAAAAAAAAAAAAAA=:1''
       \<noteq> ''stateful:AAAAAAAAAAAAAAAAAAAAAAAAAAAAAAAAAAAAAAAAAAA:1''"
proof -
  have "format_x 1 = ''1''" by code_simp
  then show ?thesis
    by (simp add: make_for_send_websocket_url_and_change_counter_def configured_state_def
        accepted_state_def handle_accepting_def urlsafe_b64encode_zero32)
qed

text \<open>
  C3, amended: in a configured session, minting a send-side URL returns
  \<open>"websocket:" + nonce_b64 + ":" + hex(broadcaster_counter)\<close> and increments
  \<open>broadcaster_counter\<close> by exactly 1; minting a receive-side URL returns
  \<open>"websocket:" + nonce_b64 + ":" + hex(subscriber_counter)\<close> and decrements
  \<open>subscriber_counter\<close> by exactly 1. The hexadecimal text of a non-negative counter
  denotes the counter, uses only \<open>0-9a-f\<close> and has no leading zero; a negative counter is
  \<open>-\<close> followed by the text of its absolute value. After a CONFIGURE that succeeds,
  \<open>nonce_b64\<close> is the base64url encoding, with its padding, of
  SHA-256(subscriber nonce followed by broadcaster nonce): 44 characters ending in \<open>=\<close>
  for a 32-byte digest.
\<close>

theorem C3_auth_urls:
  "(socket_level_config state = Some slc \<longrightarrow>
      make_for_send_websocket_url_and_change_counter state
        = Inr (''websocket:'' @ nonce_b64 slc @ '':'' @ format_x (broadcaster_counter state),
               state\<lparr>broadcaster_counter := broadcaster_counter state + 1\<rparr>)
      \<and> make_for_receive_websocket_url_and_change_counter state
        = Inr (''websocket:'' @ nonce_b64 slc @ '':'' @ format_x (subscriber_counter state),
               state\<lparr>subscriber_counter := subscriber_counter state - 1\<rparr>))
   \<and> (0 \<le> n \<longrightarrow>
        hex_value (format_x n) = nat n
        \<and> set (format_x n) \<subseteq> set ''0123456789abcdef''
        \<and> (n \<noteq> 0 \<longrightarrow> hd (format_x n) \<noteq> CHR ''0''))
   \<and> (m < 0 \<longrightarrow> format_x m = CHR ''-'' # format_x (- m))
   \<and> (process_configure w broadcaster_nonce message st = (None, st') \<longrightarrow>
        (\<exists>slc' sn. socket_level_config st' = Some slc'
            \<and> headers message ''x-subscriber-nonce'' = Some sn
            \<and> nonce_b64 slc' = urlsafe_b64encode (sha256 w (sn @ broadcaster_nonce))
            \<and> (length (sha256 w (sn @ broadcaster_nonce)) = 32 \<longrightarrow>
                  length (nonce_b64 slc') = 44 \<and> last (nonce_b64 slc') = CHR ''='')))"
proof (intro conjI impI)
  assume "socket_level_config state = Some slc"
  then show "make_for_send_websocket_url_and_change_counter state
        = Inr (''websocket:'' @ nonce_b64 slc @ '':'' @ format_x (broadcaster_counter state),
               state\<lparr>broadcaster_counter := broadcaster_counter state + 1\<rparr>)"
    and "make_for_receive_websocket_url_and_change_counter state
        = Inr (''websocket:'' @ nonce_b64 slc @ '':'' @ format_x (subscriber_counter state),
               state\<lparr>subscriber_counter := subscriber_counter state - 1\<rparr>)"
    by (simp_all add: make_for_send_websocket_url_and_change_counter_def
        make_for_receive_websocket_url_and_change_counter_def)
next
  assume "0 \<le> n"
  then have eq: "format_x n = hex_nat (nat n)"
    by (simp add: format_x_def)
  show "hex_value (format_x n) = nat n"
    by (simp only: eq hex_value_hex_nat)
  show "set (format_x n) \<subseteq> set ''0123456789abcdef''"
    by (simp only: eq hex_nat_chars)
next
  assume "0 \<le> n" "n \<noteq> 0"
  then have eq: "format_x n = hex_nat (nat n)" and "nat n \<noteq> 0"
    by (simp_all add: format_x_def)
  then show "hd (format_x n) \<noteq> CHR ''0''"
    by (simp only: hex_nat_no_leading_zero not_False_eq_True)
next
  assume "m < 0"
  then show "format_x m = CHR ''-'' # format_x (- m)"
    by (simp add: format_x_def)
next
  assume "process_configure w broadcaster_nonce message st = (None, st')"
  from configure_nonce [OF this] obtain slc' sn where
    a: "socket_level_config st' = Some slc'"
       "headers message ''x-subscriber-nonce'' = Some sn"
       "nonce_b64 slc' = urlsafe_b64encode (sha256 w (sn @ broadcaster_nonce))"
    by blast
  have "length (sha256 w (sn @ broadcaster_nonce)) = 32 \<longrightarrow>
          length (nonce_b64 slc') = 44 \<and> last (nonce_b64 slc') = CHR ''=''"
    using a(3) b64_length [of "sha256 w (sn @ broadcaster_nonce)"]
      b64_last_pad [of "sha256 w (sn @ broadcaster_nonce)"] by simp
  with a show "\<exists>slc' sn. socket_level_config st' = Some slc'
            \<and> headers message ''x-subscriber-nonce'' = Some sn
            \<and> nonce_b64 slc' = urlsafe_b64encode (sha256 w (sn @ broadcaster_nonce))
            \<and> (length (sha256 w (sn @ broadcaster_nonce)) = 32 \<longrightarrow>
                  length (nonce_b64 slc') = 44 \<and> last (nonce_b64 slc') = CHR ''='')"
    by blast
qed

lemma process_configure_example: "fst (process_configure example_world (replicate 32 1) configure_message accepted_state) = None"
  by (simp add: process_configure_def configure_message_def accepted_state_def handle_accepting_def
      example_config_def example_world_def headers_get_def make_websocket_message_def
      MINIMAL_HEADERS_def ascii_encode_def Let_def to_bytes_def be_bytes_def upt_rec
      split: sum.splits)

theorem C3_auth_urls_witness:
  "socket_level_config configured_state
     = Some \<lparr>enable_zstd = False, enable_training = False, dictionary_id = 0,
             nonce_b64 = urlsafe_b64encode (replicate 32 0)\<rparr>
   \<and> make_for_receive_websocket_url_and_change_counter configured_state
       = Inr (''websocket:AAAAAAAAAAAAAAAAAAAAAAAAAAAAAAAAAAAAAAAAAAA=:-1'',
              configured_state\<lparr>subscriber_counter := - 2\<rparr>)
   \<and> (0::int) \<le> 26 \<and> hex_value (format_x 26) = 26
   \<and> (- 26 :: int) < 0 \<and> format_x (- 26) = CHR ''-'' # format_x 26
   \<and> process_configure example_world (replicate 32 1) configure_message accepted_state
       = (None, snd (process_configure example_world (replicate 32 1) configure_message
                       accepted_state))
   \<and> nonce_b64 (the (socket_level_config (snd (process_configure example_world
         (replicate 32 1) configure_message accepted_state))))
       = ''AAAAAAAAAAAAAAAAAAAAAAAAAAAAAAAAAAAAAAAAAAA=''"
proof -
  let ?cfg = "\<lparr>enable_zstd = False, enable_training = False, dictionary_id = 0,
             nonce_b64 = urlsafe_b64encode (replicate 32 (0::byte))\<rparr>"
  let ?pc = "process_configure example_world (replicate 32 1) configure_message accepted_state"
  have h1: "socket_level_config configured_state = Some ?cfg"
    by (simp add: configured_state_def)
  have h2: "?pc = (None, snd ?pc)"
    by (rule prod_eqI) (simp_all add: process_configure_example)
  have fm: "format_x (- 1) = ''-1''" by code_simp
  have sub: "subscriber_counter configured_state = - 1"
    by (simp add: configured_state_def accepted_state_def handle_accepting_def)
  have sha: "sha256 example_world x = replicate 32 0" for x
    by (simp add: example_world_def)
  have c3: "(0::int) \<le> 26" and c5: "(- 26 :: int) < 0" by simp_all
  note t = C3_auth_urls [of configured_state ?cfg 26 "- 26" example_world "replicate 32 1"
      configure_message accepted_state "snd ?pc"]
  note r = t [THEN conjunct1, rule_format, OF h1, THEN conjunct2]
  note hx1 = t [THEN conjunct2, THEN conjunct1, rule_format, OF c3, THEN conjunct1]
  note hx2 = t [THEN conjunct2, THEN conjunct2, THEN conjunct1, rule_format, OF c5]
  note ex = t [THEN conjunct2, THEN conjunct2, THEN conjunct2, rule_format, OF h2]
  from ex obtain slc' sn where
    n: "socket_level_config (snd ?pc) = Some slc'"
       "nonce_b64 slc' = urlsafe_b64encode (sha256 example_world (sn @ replicate 32 1))"
    by blast
  have c2: "make_for_receive_websocket_url_and_change_counter configured_state
       = Inr (''websocket:AAAAAAAAAAAAAAAAAAAAAAAAAAAAAAAAAAAAAAAAAAA=:-1'',
              configured_state\<lparr>subscriber_counter := - 2\<rparr>)"
    unfolding r sub fm by (simp add: urlsafe_b64encode_zero32)
  have c4: "hex_value (format_x 26) = 26" using hx1 by simp
  have c6: "format_x (- 26) = CHR ''-'' # format_x 26" using hx2 by simp
  have c8: "nonce_b64 (the (socket_level_config (snd ?pc)))
       = ''AAAAAAAAAAAAAAAAAAAAAAAAAAAAAAAAAAAAAAAAAAA=''"
    using n by (simp add: sha urlsafe_b64encode_zero32)
  show ?thesis
    by (intro conjI) (fact h1 c2 c3 c4 c5 c6 h2 c8)+
qed

subsection \<open>C6: acknowledgements of outbound parts\<close>

lemma ack_pop:
  assumes "mtype message = CONTINUE_RECEIVE \<or> mtype message = CONFIRM_RECEIVE"
    and "has_ack_fields message"
    and "expecting_acks state = d # rest"
  shows "snd (process_message_asap message state) = state\<lparr>expecting_acks := rest\<rparr>
         \<and> (fst (process_message_asap message state) = None \<longleftrightarrow> ack_matches d message)"
proof -
  from assms(2) obtain ident where id: "headers message ''x-identifier'' = Some ident"
    by (auto simp: has_ack_fields_def)
  from assms(1) show ?thesis
  proof
    assume t: "mtype message = CONTINUE_RECEIVE"
    with assms(2) obtain b where b: "headers message ''x-part-id'' = Some b" "length b \<le> 8"
      by (auto simp: has_ack_fields_def split: option.splits)
    then have nb: "\<not> 8 < length b" by simp
    show ?thesis
      by (cases d)
         (simp_all add: process_message_asap_def ack_matches_def t id b(1) nb assms(3) Let_def)
  next
    assume t: "mtype message = CONFIRM_RECEIVE"
    show ?thesis
      by (cases d) (simp_all add: process_message_asap_def ack_matches_def t id assms(3) Let_def)
  qed
qed

lemma ack_accepted:
  assumes "mtype message = CONTINUE_RECEIVE \<or> mtype message = CONFIRM_RECEIVE"
    and "fst (process_message_asap message state) = None"
  shows "expecting_acks state \<noteq> [] \<and> ack_matches (hd (expecting_acks state)) message
           \<and> snd (process_message_asap message state)
               = state\<lparr>expecting_acks := tl (expecting_acks state)\<rparr>"
proof -
  have ne: "expecting_acks state \<noteq> []"
    using assms by (auto simp: process_message_asap_def Let_def split: option.splits if_splits)
  then obtain d rest where dr: "expecting_acks state = d # rest"
    by (cases "expecting_acks state") auto
  have f: "has_ack_fields message"
    using assms dr
    by (auto simp: process_message_asap_def has_ack_fields_def Let_def
        split: option.splits if_splits)
  from ack_pop [OF assms(1) f dr] assms(2) dr show ?thesis by simp
qed

lemma ack_empty:
  assumes "mtype message = CONTINUE_RECEIVE \<or> mtype message = CONFIRM_RECEIVE"
    and "expecting_acks state = []"
  shows "fst (process_message_asap message state) \<noteq> None
         \<and> snd (process_message_asap message state) = state"
  using assms
  by (auto simp: process_message_asap_def Let_def split: option.splits)

lemma ack_fields_missing:
  assumes "mtype message = CONTINUE_RECEIVE \<or> mtype message = CONFIRM_RECEIVE"
    and "\<not> has_ack_fields message"
  shows "fst (process_message_asap message state) \<noteq> None
         \<and> snd (process_message_asap message state) = state"
  using assms(1)
proof
  assume t: "mtype message = CONTINUE_RECEIVE"
  show ?thesis
  proof (cases "headers message ''x-identifier''")
    case None
    then show ?thesis by (simp add: process_message_asap_def t)
  next
    case (Some ident)
    show ?thesis
    proof (cases "headers message ''x-part-id''")
      case None
      then show ?thesis by (simp add: process_message_asap_def t Some)
    next
      case b: (Some part_id_bytes)
      with assms(2) Some t have "8 < length part_id_bytes"
        by (simp add: has_ack_fields_def)
      then show ?thesis by (simp add: process_message_asap_def t Some b)
    qed
  qed
next
  assume t: "mtype message = CONFIRM_RECEIVE"
  with assms(2) have "headers message ''x-identifier'' = None"
    by (simp add: has_ack_fields_def)
  then show ?thesis by (simp add: process_message_asap_def t)
qed

text \<open>
  C6, as the specification states it, fails on the code: on a non-empty queue a frame
  that lacks a field of its kind is rejected by the header checks, which come before
  \<open>expecting_acks.get_nowait()\<close>, so no descriptor is popped. With the descriptors
  \<open>ContinueReceive 01 0\<close> and \<open>ConfirmReceive 01\<close> waiting, a CONTINUE\_RECEIVE whose
  kind, identifier and part id equal the head's, the part id written on nine bytes,
  raises and leaves both descriptors in the queue; so does a CONFIRM\_RECEIVE without
  identifier.
\<close>

theorem C6_counterexample:
  "expecting_acks awaiting_acks_state = [ContinueReceive [1] 0, ConfirmReceive [1]]
   \<and> mtype long_part_id_message = CONTINUE_RECEIVE
   \<and> ack_matches (ContinueReceive [1] 0) long_part_id_message
   \<and> process_message_asap long_part_id_message awaiting_acks_state
       = (Some (ValueError ''part id too long''), awaiting_acks_state)
   \<and> mtype anonymous_confirm_message = CONFIRM_RECEIVE
   \<and> process_message_asap anonymous_confirm_message awaiting_acks_state
       = (Some (ValueError ''confirm receive requires identifier''), awaiting_acks_state)"
  by (simp add: awaiting_acks_state_def long_part_id_message_def anonymous_confirm_message_def
      ack_matches_def process_message_asap_def from_bytes_def)

text \<open>
  C6, amended. For a CONTINUE\_RECEIVE or CONFIRM\_RECEIVE frame, an empty
  \<open>expecting_acks\<close> raises; on a non-empty queue a frame that carries its fields
  (identifier; for CONTINUE\_RECEIVE a part id of at most 8 bytes) pops exactly the head
  descriptor and nothing else changes, and the call raises unless kind, identifier and
  part id equal the descriptor's; an accepted acknowledgement has popped exactly one
  descriptor, which matches it, and changed nothing else; a frame that lacks one of its
  fields raises and pops nothing, whatever the queue holds.
\<close>

theorem C6_ack_handling:
  assumes "mtype message = CONTINUE_RECEIVE \<or> mtype message = CONFIRM_RECEIVE"
  shows "(expecting_acks state0 = [] \<longrightarrow> fst (process_message_asap message state0) \<noteq> None)
       \<and> (has_ack_fields message \<and> expecting_acks state = d # rest \<longrightarrow>
            snd (process_message_asap message state) = state\<lparr>expecting_acks := rest\<rparr>
            \<and> (fst (process_message_asap message state) = None \<longleftrightarrow> ack_matches d message))
       \<and> (fst (process_message_asap message state1) = None \<longrightarrow>
            expecting_acks state1 \<noteq> []
            \<and> ack_matches (hd (expecting_acks state1)) message
            \<and> snd (process_message_asap message state1)
                = state1\<lparr>expecting_acks := tl (expecting_acks state1)\<rparr>)
       \<and> ((mtype message2 = CONTINUE_RECEIVE \<or> mtype message2 = CONFIRM_RECEIVE)
            \<and> \<not> has_ack_fields message2 \<longrightarrow>
            fst (process_message_asap message2 state2) \<noteq> None
            \<and> snd (process_message_asap message2 state2) = state2)"
proof (intro conjI impI)
  assume "expecting_acks state0 = []"
  with ack_empty [OF assms] show "fst (process_message_asap message state0) \<noteq> None"
    by blast
next
  assume a: "has_ack_fields message \<and> expecting_acks state = d # rest"
  then have f: "has_ack_fields message" and e: "expecting_acks state = d # rest"
    by simp_all
  from ack_pop [OF assms f e]
  show "snd (process_message_asap message state) = state\<lparr>expecting_acks := rest\<rparr>"
    and "fst (process_message_asap message state) = None \<longleftrightarrow> ack_matches d message"
    by simp_all
next
  assume n: "fst (process_message_asap message state1) = None"
  from ack_accepted [OF assms n]
  show "expecting_acks state1 \<noteq> []"
    and "ack_matches (hd (expecting_acks state1)) message"
    and "snd (process_message_asap message state1)
           = state1\<lparr>expecting_acks := tl (expecting_acks state1)\<rparr>"
    by simp_all
next
  assume a: "(mtype message2 = CONTINUE_RECEIVE \<or> mtype message2 = CONFIRM_RECEIVE)
             \<and> \<not> has_ack_fields message2"
  then have k: "mtype message2 = CONTINUE_RECEIVE \<or> mtype message2 = CONFIRM_RECEIVE"
    and f: "\<not> has_ack_fields message2"
    by simp_all
  from ack_fields_missing [OF k f]
  show "fst (process_message_asap message2 state2) \<noteq> None"
    and "snd (process_message_asap message2 state2) = state2"
    by simp_all
qed

theorem C6_ack_handling_witness:
  "(mtype continue_receive_message = CONTINUE_RECEIVE
      \<or> mtype continue_receive_message = CONFIRM_RECEIVE)
   \<and> expecting_acks configured_state = []
   \<and> fst (process_message_asap continue_receive_message configured_state) \<noteq> None
   \<and> has_ack_fields continue_receive_message
   \<and> expecting_acks awaiting_acks_state = [ContinueReceive [1] 0, ConfirmReceive [1]]
   \<and> ack_matches (ContinueReceive [1] 0) continue_receive_message
   \<and> fst (process_message_asap continue_receive_message awaiting_acks_state) = None
   \<and> snd (process_message_asap continue_receive_message awaiting_acks_state)
       = awaiting_acks_state\<lparr>expecting_acks := [ConfirmReceive [1]]\<rparr>
   \<and> (mtype long_part_id_message = CONTINUE_RECEIVE
        \<or> mtype long_part_id_message = CONFIRM_RECEIVE)
   \<and> \<not> has_ack_fields long_part_id_message
   \<and> fst (process_message_asap long_part_id_message awaiting_acks_state) \<noteq> None
   \<and> snd (process_message_asap long_part_id_message awaiting_acks_state)
       = awaiting_acks_state"
proof -
  have k: "mtype continue_receive_message = CONTINUE_RECEIVE
           \<or> mtype continue_receive_message = CONFIRM_RECEIVE"
    by (simp add: continue_receive_message_def)
  have e0: "expecting_acks configured_state = []"
    by (simp add: configured_state_def accepted_state_def handle_accepting_def)
  have f: "has_ack_fields continue_receive_message"
    by (simp add: has_ack_fields_def continue_receive_message_def)
  have e1: "expecting_acks awaiting_acks_state = [ContinueReceive [1] 0, ConfirmReceive [1]]"
    by (simp add: awaiting_acks_state_def)
  have m: "ack_matches (ContinueReceive [1] 0) continue_receive_message"
    by (simp add: ack_matches_def continue_receive_message_def from_bytes_def)
  have k2: "mtype long_part_id_message = CONTINUE_RECEIVE
            \<or> mtype long_part_id_message = CONFIRM_RECEIVE"
    by (simp add: long_part_id_message_def)
  have f2: "\<not> has_ack_fields long_part_id_message"
    by (simp add: has_ack_fields_def long_part_id_message_def)
  note t = C6_ack_handling [OF k, of configured_state awaiting_acks_state
      "ContinueReceive [1] 0" "[ConfirmReceive [1]]" awaiting_acks_state
      long_part_id_message awaiting_acks_state]
  note t1 = t [THEN conjunct1, rule_format, OF e0]
  note t2 = t [THEN conjunct2, THEN conjunct1, rule_format, OF conjI [OF f e1]]
  have a: "fst (process_message_asap continue_receive_message awaiting_acks_state) = None"
    using t2 [THEN conjunct2] m by simp
  note t3 = t [THEN conjunct2, THEN conjunct2, THEN conjunct1, rule_format, OF a]
  note t4 = t [THEN conjunct2, THEN conjunct2, THEN conjunct2, rule_format,
      OF conjI [OF k2 f2]]
  show ?thesis
    by (intro conjI)
       (fact k e0 t1 f e1 m a t2 [THEN conjunct1] k2 f2 t4 [THEN conjunct1]
          t4 [THEN conjunct2])+
qed

subsection \<open>C5: compression selection\<close>

lemma small_selection_vs_spec:
  assumes "socket_level_config state \<noteq> None"
  shows "send_small_message_selection len state
     = Inr (if len \<ge> compression_trained_max_size (broadcaster_config state)
               \<and> standard_compressor state \<noteq> None
               \<and> \<not> compressor_is_ready (the (standard_compressor state))
            then Uncompressed else spec_compression_selection len state)"
  using assms by (auto simp: send_small_message_selection_def spec_compression_selection_def)

lemma optimistic_selection_vs_spec:
  assumes "socket_level_config state \<noteq> None"
  shows "send_large_message_optimistically_selection len state
     = (if len \<ge> compression_trained_max_size (broadcaster_config state)
            \<and> standard_compressor state \<noteq> None
        then (if compression_allowed (broadcaster_config state)
              then (case await_compressor (the (standard_compressor state)) of
                      Inl e \<Rightarrow> Inl e | Inr c \<Rightarrow> Inr UseStandard)
              else Inr Uncompressed)
        else Inr (spec_compression_selection len state))"
  using assms
  by (auto simp: send_large_message_optimistically_selection_def spec_compression_selection_def)

lemma spooled_selection_vs_spec:
  assumes "\<not> (len \<ge> compression_trained_max_size (broadcaster_config state)
              \<and> standard_compressor state = None
              \<and> active_compressor state \<noteq> None
              \<and> compressor_is_ready (the (active_compressor state))
              \<and> len \<ge> compression_min_size (broadcaster_config state))"
  shows "send_large_message_from_spooled_selection len state
     = (if len \<ge> compression_trained_max_size (broadcaster_config state)
            \<and> standard_compressor state \<noteq> None
        then (case await_compressor (the (standard_compressor state)) of
                Inl e \<Rightarrow> Inl e | Inr c \<Rightarrow> Inr UseStandard)
        else Inr (spec_compression_selection len state))"
  using assms
  by (auto simp: send_large_message_from_spooled_selection_def spec_compression_selection_def)

lemma active_never_beyond_max:
  assumes "len \<ge> compression_trained_max_size (broadcaster_config state)"
  shows "send_small_message_selection len state \<noteq> Inr (UseActive i)
       \<and> send_large_message_optimistically_selection len state \<noteq> Inr (UseActive i)"
  using assms
  by (auto simp: send_small_message_selection_def send_large_message_optimistically_selection_def
      split: sum.splits)

lemmas example_state_defs =
  compressing_state_def preparing_standard_state_def compression_forbidden_state_def
  active_only_state_def configured_state_def accepted_state_def handle_accepting_def
  example_config_def

text \<open>
  C5, as the specification states it, fails on the code. With the window 2 to 4 bytes and
  a payload of 10 bytes: the small path leaves the payload uncompressed while the standard
  compressor is present but still preparing, and the direct large path leaves it
  uncompressed when the broadcaster's \<open>compression_allowed\<close> is off, where the three rules
  select the standard compressor.
\<close>

theorem C5_counterexample:
  "send_small_message_selection 10 preparing_standard_state = Inr Uncompressed
   \<and> spec_compression_selection 10 preparing_standard_state = UseStandard
   \<and> send_large_message_optimistically_selection 10 compression_forbidden_state = Inr Uncompressed
   \<and> spec_compression_selection 10 compression_forbidden_state = UseStandard"
  by (simp add: send_small_message_selection_def spec_compression_selection_def
      send_large_message_optimistically_selection_def example_state_defs)

text \<open>
  The spooled path, unlike its two siblings, does not bound the active compressor by
  \<open>compression_trained_max_size\<close>: without a standard compressor a payload of 10 bytes
  is compressed with the trained dictionary.
\<close>

lemma spooled_uses_active_beyond_max:
  "send_large_message_from_spooled_selection 10 active_only_state = Inr (UseActive 65536)
   \<and> send_large_message_optimistically_selection 10 active_only_state = Inr Uncompressed
   \<and> send_small_message_selection 10 active_only_state = Inr Uncompressed"
  by (simp add: send_large_message_from_spooled_selection_def
      send_large_message_optimistically_selection_def send_small_message_selection_def
      example_state_defs)

text \<open>
  C5, amended. In a configured session the small path and the direct large path follow
  the three rules of the specification, except that for \<open>L \<ge> compression_trained_max_size\<close>
  the small path uses the standard compressor only when it is Ready (a standard compressor
  still preparing gives no compression), and the direct large path uses it only when
  \<open>compression_allowed\<close> holds (otherwise no compression) and awaits it when it is still
  preparing. The spooled path follows the three rules too, awaiting a standard compressor
  still preparing, in every case other than \<open>L \<ge> compression_trained_max_size\<close> with no
  standard compressor and a Ready active compressor, which is left out. On the small and
  the direct large path the active compressor is never used on a payload with
  \<open>L \<ge> compression_trained_max_size\<close>.
\<close>

theorem C5_compression_selection:
  "(socket_level_config state \<noteq> None \<longrightarrow>
      send_small_message_selection len state
        = Inr (if len \<ge> compression_trained_max_size (broadcaster_config state)
                  \<and> standard_compressor state \<noteq> None
                  \<and> \<not> compressor_is_ready (the (standard_compressor state))
               then Uncompressed else spec_compression_selection len state)
      \<and> send_large_message_optimistically_selection len state
        = (if len \<ge> compression_trained_max_size (broadcaster_config state)
               \<and> standard_compressor state \<noteq> None
           then (if compression_allowed (broadcaster_config state)
                 then (case await_compressor (the (standard_compressor state)) of
                         Inl e \<Rightarrow> Inl e | Inr c \<Rightarrow> Inr UseStandard)
                 else Inr Uncompressed)
           else Inr (spec_compression_selection len state)))
   \<and> (\<not> (len \<ge> compression_trained_max_size (broadcaster_config state)
           \<and> standard_compressor state = None
           \<and> active_compressor state \<noteq> None
           \<and> compressor_is_ready (the (active_compressor state))
           \<and> len \<ge> compression_min_size (broadcaster_config state)) \<longrightarrow>
        send_large_message_from_spooled_selection len state
          = (if len \<ge> compression_trained_max_size (broadcaster_config state)
                 \<and> standard_compressor state \<noteq> None
             then (case await_compressor (the (standard_compressor state)) of
                     Inl e \<Rightarrow> Inl e | Inr c \<Rightarrow> Inr UseStandard)
             else Inr (spec_compression_selection len state)))
   \<and> (len2 \<ge> compression_trained_max_size (broadcaster_config state2) \<longrightarrow>
        send_small_message_selection len2 state2 \<noteq> Inr (UseActive i)
        \<and> send_large_message_optimistically_selection len2 state2 \<noteq> Inr (UseActive i))"
  using small_selection_vs_spec [of state len] optimistic_selection_vs_spec [of state len]
    spooled_selection_vs_spec [of state len] active_never_beyond_max [of state2 len2 i]
  by blast

theorem C5_compression_selection_witness:
  "socket_level_config compressing_state \<noteq> None
   \<and> send_small_message_selection 3 compressing_state = Inr (UseActive 65536)
   \<and> send_large_message_optimistically_selection 3 compressing_state = Inr (UseActive 65536)
   \<and> send_large_message_from_spooled_selection 3 compressing_state = Inr (UseActive 65536)
   \<and> 10 \<ge> compression_trained_max_size (broadcaster_config compressing_state)
   \<and> send_small_message_selection 10 compressing_state \<noteq> Inr (UseActive 65536)
   \<and> send_large_message_optimistically_selection 10 compressing_state \<noteq> Inr (UseActive 65536)"
proof -
  have h1: "socket_level_config compressing_state \<noteq> None"
    by (simp add: example_state_defs)
  have h2: "\<not> (3 \<ge> compression_trained_max_size (broadcaster_config compressing_state)
           \<and> standard_compressor compressing_state = None
           \<and> active_compressor compressing_state \<noteq> None
           \<and> compressor_is_ready (the (active_compressor compressing_state))
           \<and> 3 \<ge> compression_min_size (broadcaster_config compressing_state))"
    by (simp add: example_state_defs)
  have h3: "10 \<ge> compression_trained_max_size (broadcaster_config compressing_state)"
    by (simp add: example_state_defs)
  have sp: "spec_compression_selection 3 compressing_state = UseActive 65536"
    by (simp add: spec_compression_selection_def example_state_defs)
  have c: "\<not> 3 \<ge> compression_trained_max_size (broadcaster_config compressing_state)"
    by (simp add: example_state_defs)
  note t = C5_compression_selection [of compressing_state 3 compressing_state 10 65536]
  note t1 = t [THEN conjunct1, rule_format, OF h1]
  note t2 = t [THEN conjunct2, THEN conjunct1, rule_format, OF h2]
  note t3 = t [THEN conjunct2, THEN conjunct2, rule_format, OF h3]
  have a1: "send_small_message_selection 3 compressing_state = Inr (UseActive 65536)"
    using t1 [THEN conjunct1] c sp by simp
  have a2: "send_large_message_optimistically_selection 3 compressing_state = Inr (UseActive 65536)"
    using t1 [THEN conjunct2] c sp by simp
  have a3: "send_large_message_from_spooled_selection 3 compressing_state = Inr (UseActive 65536)"
    using t2 c sp by simp
  show ?thesis
    by (intro conjI) (fact h1 a1 a2 a3 h3 t3 [THEN conjunct1] t3 [THEN conjunct2])+
qed

subsection \<open>C10: unsubscribing from what is not subscribed\<close>

lemma find_glob_index_None: "find_glob_index s globs = None \<longleftrightarrow> s \<notin> snd ` set globs"
proof (induction globs)
  case Nil
  then show ?case by simp
next
  case (Cons a globs)
  obtain p g where a: "a = (p, g)" by (cases a)
  show ?case using Cons by (auto simp: a)
qed

lemma unsubscribe_exact_branch_not_subscribed:
  "t \<notin> exact_subscriptions state \<Longrightarrow>
   unsubscribe_exact_branch message t state = Inl (PyException ''not subscribed'', state)"
  by (simp add: unsubscribe_exact_branch_def)

lemma unsubscribe_glob_branch_not_subscribed:
  assumes "case utf8_decode g of None \<Rightarrow> True | Some s \<Rightarrow> s \<notin> snd ` set (glob_subscriptions state)"
  shows "\<exists>e. unsubscribe_glob_branch message g state = Inl (e, state)"
  using assms
  by (cases "utf8_decode g")
     (simp_all add: unsubscribe_glob_branch_def find_glob_index_None [THEN iffD2])

lemma receive_url_keeps:
  assumes "make_for_receive_websocket_url_and_change_counter state = Inr (url, state1)"
  shows "state1 = state\<lparr>subscriber_counter := subscriber_counter state - 1\<rparr>"
  using assms
  by (auto simp: make_for_receive_websocket_url_and_change_counter_def Let_def split: option.splits)

lemma unsubscribe_exact_unknown_raises:
  assumes "mtype message = UNSUBSCRIBE_EXACT"
    and "headers message ''x-topic'' = Some t"
    and "t \<notin> exact_subscriptions state"
  shows "fst (process_subscribe_or_unsubscribe w message state) \<noteq> None
       \<and> untouched state (snd (process_subscribe_or_unsubscribe w message state))"
proof (cases "decode_authorization message")
  case (Inl e)
  then show ?thesis using assms
    by (simp add: process_subscribe_or_unsubscribe_def untouched_def)
next
  case (Inr a)
  show ?thesis
  proof (cases "make_for_receive_websocket_url_and_change_counter state")
    case (Inl e)
    then show ?thesis using assms Inr
      by (simp add: process_subscribe_or_unsubscribe_def untouched_def)
  next
    case (Inr p)
    obtain url state1 where p: "p = (url, state1)" by (cases p)
    from receive_url_keeps [OF Inr [unfolded p]]
    have s1: "state1 = state\<lparr>subscriber_counter := subscriber_counter state - 1\<rparr>" .
    then have ns: "t \<notin> exact_subscriptions state1" using assms(3) by simp
    show ?thesis using assms(1,2) \<open>decode_authorization message = Inr a\<close> Inr p
        unsubscribe_exact_branch_not_subscribed [OF ns, of message]
      by (simp add: process_subscribe_or_unsubscribe_def untouched_def Let_def s1)
  qed
qed


lemma unsubscribe_glob_unknown_raises:
  assumes "mtype message = UNSUBSCRIBE_GLOB"
    and "headers message ''x-glob'' = Some g"
    and "case utf8_decode g of None \<Rightarrow> True
         | Some s \<Rightarrow> s \<notin> snd ` set (glob_subscriptions state)"
  shows "fst (process_subscribe_or_unsubscribe w message state) \<noteq> None
       \<and> untouched state (snd (process_subscribe_or_unsubscribe w message state))"
proof (cases "decode_authorization message")
  case (Inl e)
  then show ?thesis using assms(1,2)
    by (simp add: process_subscribe_or_unsubscribe_def untouched_def)
next
  case (Inr a)
  show ?thesis
  proof (cases "make_for_receive_websocket_url_and_change_counter state")
    case (Inl e)
    then show ?thesis using assms(1,2) Inr
      by (simp add: process_subscribe_or_unsubscribe_def untouched_def)
  next
    case (Inr p)
    obtain url state1 where p: "p = (url, state1)" by (cases p)
    from receive_url_keeps [OF Inr [unfolded p]]
    have s1: "state1 = state\<lparr>subscriber_counter := subscriber_counter state - 1\<rparr>" .
    have ns: "case utf8_decode g of None \<Rightarrow> True
         | Some s \<Rightarrow> s \<notin> snd ` set (glob_subscriptions state1)"
      using assms(3) by (simp add: s1 split: option.splits)
    from unsubscribe_glob_branch_not_subscribed [OF ns, of message]
    obtain e where e: "unsubscribe_glob_branch message g state1 = Inl (e, state1)" by blast
    show ?thesis
    proof (cases "utf8_decode g")
      case None
      then show ?thesis using assms(1,2) \<open>decode_authorization message = Inr a\<close> Inr p
        by (simp add: process_subscribe_or_unsubscribe_def untouched_def Let_def s1)
    next
      case (Some s)
      then show ?thesis using assms(1,2) \<open>decode_authorization message = Inr a\<close> Inr p e
        by (simp add: process_subscribe_or_unsubscribe_def untouched_def Let_def s1)
    qed
  qed
qed

lemma reap_raised:
  "fst r \<noteq> None \<Longrightarrow> reap_process_task r = StateClosing (fst r)"
  by (cases r) (auto simp: reap_process_task_def)

text \<open>
  C10: an UNSUBSCRIBE\_EXACT whose topic is not in \<open>exact_subscriptions\<close>, and an
  UNSUBSCRIBE\_GLOB whose pattern (when it decodes at all) is not among the glob
  subscriptions, make the processor raise; the session moves to Closing with that
  exception; nothing is handed to the send path, no fanout counter is decremented and the
  subscription view is unchanged.
\<close>

theorem C10_unsubscribe_unknown:
  "(mtype message = UNSUBSCRIBE_EXACT \<and> headers message ''x-topic'' = Some t
      \<and> t \<notin> exact_subscriptions state \<longrightarrow>
        fst (process_subscribe_or_unsubscribe w message state) \<noteq> None
        \<and> untouched state (snd (process_subscribe_or_unsubscribe w message state))
        \<and> reap_process_task (process_subscribe_or_unsubscribe w message state)
            = StateClosing (fst (process_subscribe_or_unsubscribe w message state)))
   \<and> (mtype message2 = UNSUBSCRIBE_GLOB \<and> headers message2 ''x-glob'' = Some g
      \<and> (case utf8_decode g of None \<Rightarrow> True
          | Some s \<Rightarrow> s \<notin> snd ` set (glob_subscriptions state2)) \<longrightarrow>
        fst (process_subscribe_or_unsubscribe w message2 state2) \<noteq> None
        \<and> untouched state2 (snd (process_subscribe_or_unsubscribe w message2 state2))
        \<and> reap_process_task (process_subscribe_or_unsubscribe w message2 state2)
            = StateClosing (fst (process_subscribe_or_unsubscribe w message2 state2)))"
proof (intro conjI impI)
  assume a: "mtype message = UNSUBSCRIBE_EXACT \<and> headers message ''x-topic'' = Some t
      \<and> t \<notin> exact_subscriptions state"
  then have r: "fst (process_subscribe_or_unsubscribe w message state) \<noteq> None
       \<and> untouched state (snd (process_subscribe_or_unsubscribe w message state))"
    using unsubscribe_exact_unknown_raises [of message t state w] by blast
  then show "fst (process_subscribe_or_unsubscribe w message state) \<noteq> None"
    and "untouched state (snd (process_subscribe_or_unsubscribe w message state))"
    by simp_all
  from r show "reap_process_task (process_subscribe_or_unsubscribe w message state)
            = StateClosing (fst (process_subscribe_or_unsubscribe w message state))"
    by (intro reap_raised) (rule conjunct1)
next
  assume a: "mtype message2 = UNSUBSCRIBE_GLOB \<and> headers message2 ''x-glob'' = Some g
      \<and> (case utf8_decode g of None \<Rightarrow> True
          | Some s \<Rightarrow> s \<notin> snd ` set (glob_subscriptions state2))"
  then have r: "fst (process_subscribe_or_unsubscribe w message2 state2) \<noteq> None
       \<and> untouched state2 (snd (process_subscribe_or_unsubscribe w message2 state2))"
    using unsubscribe_glob_unknown_raises [of message2 g state2 w] by blast
  then show "fst (process_subscribe_or_unsubscribe w message2 state2) \<noteq> None"
    and "untouched state2 (snd (process_subscribe_or_unsubscribe w message2 state2))"
    by simp_all
  from r show "reap_process_task (process_subscribe_or_unsubscribe w message2 state2)
            = StateClosing (fst (process_subscribe_or_unsubscribe w message2 state2))"
    by (intro reap_raised) (rule conjunct1)
qed

theorem C10_unsubscribe_unknown_witness:
  "(mtype unsubscribe_exact_message = UNSUBSCRIBE_EXACT
      \<and> headers unsubscribe_exact_message ''x-topic'' = Some [1]
      \<and> [1] \<notin> exact_subscriptions configured_state)
   \<and> fst (process_subscribe_or_unsubscribe example_world unsubscribe_exact_message
             configured_state) = Some (PyException ''not subscribed'')
   \<and> history (snd (process_subscribe_or_unsubscribe example_world unsubscribe_exact_message
                      configured_state)) = []
   \<and> (mtype unsubscribe_glob_message = UNSUBSCRIBE_GLOB
      \<and> headers unsubscribe_glob_message ''x-glob'' = Some [97, 42]
      \<and> (case utf8_decode [97, 42] of None \<Rightarrow> True
          | Some s \<Rightarrow> s \<notin> snd ` set (glob_subscriptions configured_state)))
   \<and> fst (process_subscribe_or_unsubscribe example_world unsubscribe_glob_message
             configured_state) \<noteq> None
   \<and> history (snd (process_subscribe_or_unsubscribe example_world unsubscribe_glob_message
                      configured_state)) = []
   \<and> reap_process_task (process_subscribe_or_unsubscribe example_world
        unsubscribe_glob_message configured_state)
       = StateClosing (fst (process_subscribe_or_unsubscribe example_world
           unsubscribe_glob_message configured_state))"
proof -
  let ?pe = "process_subscribe_or_unsubscribe example_world unsubscribe_exact_message
               configured_state"
  let ?pg = "process_subscribe_or_unsubscribe example_world unsubscribe_glob_message
               configured_state"
  have h0: "history configured_state = []"
    by (simp add: example_state_defs)
  have h1: "mtype unsubscribe_exact_message = UNSUBSCRIBE_EXACT
      \<and> headers unsubscribe_exact_message ''x-topic'' = Some [1]
      \<and> [1] \<notin> exact_subscriptions configured_state"
    by (simp add: unsubscribe_exact_message_def example_state_defs)
  have h2: "mtype unsubscribe_glob_message = UNSUBSCRIBE_GLOB
      \<and> headers unsubscribe_glob_message ''x-glob'' = Some [97, 42]
      \<and> (case utf8_decode [97, 42] of None \<Rightarrow> True
          | Some s \<Rightarrow> s \<notin> snd ` set (glob_subscriptions configured_state))"
    by (simp add: unsubscribe_glob_message_def example_state_defs)
  note t = C10_unsubscribe_unknown [of unsubscribe_exact_message "[1]" configured_state
      example_world unsubscribe_glob_message "[97, 42]" configured_state]
  note t1 = t [THEN conjunct1, rule_format, OF h1]
  note t2 = t [THEN conjunct2, rule_format, OF h2]
  have e: "fst ?pe = Some (PyException ''not subscribed'')"
    by (simp add: process_subscribe_or_unsubscribe_def unsubscribe_exact_message_def
        decode_authorization_def make_for_receive_websocket_url_and_change_counter_def
        unsubscribe_exact_branch_def example_world_def example_state_defs Let_def)
  have c3: "history (snd ?pe) = []"
    using t1 [THEN conjunct2, THEN conjunct1] h0 by (simp add: untouched_def)
  have c6: "history (snd ?pg) = []"
    using t2 [THEN conjunct2, THEN conjunct1] h0 by (simp add: untouched_def)
  show ?thesis
    by (intro conjI)
       (fact h1 [THEN conjunct1] h1 [THEN conjunct2, THEN conjunct1]
          h1 [THEN conjunct2, THEN conjunct2] e c3
          h2 [THEN conjunct1] h2 [THEN conjunct2, THEN conjunct1]
          h2 [THEN conjunct2, THEN conjunct2] t2 [THEN conjunct1] c6
          t2 [THEN conjunct2, THEN conjunct2])+
qed

subsection \<open>C9: integrity of a single-frame NOTIFY\<close>

lemma process_notify_body_integrity:
  assumes "length (body message) \<noteq> clen \<or> sha512 w (body message) \<noteq> csha"
  shows "\<exists>e. process_notify_body w message mid tp cid clen dlen csha state = (Some e, state)"
  using assms by (auto simp: process_notify_body_def Let_def)

lemma process_notify_reaches_body:
  assumes "headers message ''x-compressed-length'' = Some cl"
    and "headers message ''x-compressed-sha512'' = Some h"
  shows "(\<exists>e. process_notify w message state = (Some e, state))
       \<or> (\<exists>mid tp cid dlen. process_notify w message state
             = process_notify_body w message mid tp cid (from_bytes cl) dlen h state)"
  using assms
  by (simp add: process_notify_def Let_def split: option.splits sum.splits) blast

lemma process_notify_integrity:
  assumes "headers message ''x-compressed-length'' = Some cl"
    and "headers message ''x-compressed-sha512'' = Some h"
    and "length (body message) \<noteq> from_bytes cl \<or> sha512 w (body message) \<noteq> h"
  shows "\<exists>e. process_notify w message state = (Some e, state)"
  using process_notify_reaches_body [OF assms(1,2), of w state]
    process_notify_body_integrity [OF assms(3)]
  by metis

text \<open>
  C9: a NOTIFY frame whose body length differs from the advertised
  \<open>x-compressed-length\<close>, or whose SHA-512 differs from the advertised
  \<open>x-compressed-sha512\<close>, makes the processor raise with the state exactly as it was:
  no CONFIRM\_NOTIFY is handed to the send path and \<open>handle_trusted_notify\<close> is not
  called; the session moves to Closing with the exception.
\<close>

theorem C9_notify_integrity:
  "mtype message = NOTIFY
   \<and> headers message ''x-compressed-length'' = Some cl
   \<and> headers message ''x-compressed-sha512'' = Some h
   \<and> (length (body message) \<noteq> from_bytes cl \<or> sha512 w (body message) \<noteq> h) \<longrightarrow>
     fst (process_notify w message state) \<noteq> None
     \<and> snd (process_notify w message state) = state
     \<and> untouched state (snd (process_notify w message state))
     \<and> reap_process_task (process_notify w message state)
         = StateClosing (fst (process_notify w message state))"
proof (intro impI)
  assume a: "mtype message = NOTIFY
   \<and> headers message ''x-compressed-length'' = Some cl
   \<and> headers message ''x-compressed-sha512'' = Some h
   \<and> (length (body message) \<noteq> from_bytes cl \<or> sha512 w (body message) \<noteq> h)"
  then obtain e where e: "process_notify w message state = (Some e, state)"
    using process_notify_integrity [of message cl h w state] by blast
  show "fst (process_notify w message state) \<noteq> None
     \<and> snd (process_notify w message state) = state
     \<and> untouched state (snd (process_notify w message state))
     \<and> reap_process_task (process_notify w message state)
         = StateClosing (fst (process_notify w message state))"
    unfolding e by (simp add: untouched_def reap_process_task_def)
qed

theorem C9_notify_integrity_witness:
  "mtype notify_bad_hash_message = NOTIFY
   \<and> headers notify_bad_hash_message ''x-compressed-length'' = Some [2]
   \<and> headers notify_bad_hash_message ''x-compressed-sha512'' = Some (replicate 64 1)
   \<and> length (body notify_bad_hash_message) = from_bytes [2]
   \<and> sha512 example_world (body notify_bad_hash_message) \<noteq> replicate 64 1
   \<and> process_notify example_world notify_bad_hash_message configured_state
       = (Some (PyException ''integrity check failed''), configured_state)
   \<and> reap_process_task (process_notify example_world notify_bad_hash_message configured_state)
       = StateClosing (Some (PyException ''integrity check failed''))"
proof -
  let ?p = "process_notify example_world notify_bad_hash_message configured_state"
  have h: "mtype notify_bad_hash_message = NOTIFY
    \<and> headers notify_bad_hash_message ''x-compressed-length'' = Some [2]
    \<and> headers notify_bad_hash_message ''x-compressed-sha512'' = Some (replicate 64 1)
    \<and> (length (body notify_bad_hash_message) \<noteq> from_bytes [2]
        \<or> sha512 example_world (body notify_bad_hash_message) \<noteq> replicate 64 1)"
    by (simp add: notify_bad_hash_message_def example_world_def)
  have l: "length (body notify_bad_hash_message) = from_bytes [2]"
    by (simp add: notify_bad_hash_message_def from_bytes_def)
  have d: "sha512 example_world (body notify_bad_hash_message) \<noteq> replicate 64 1"
    by (simp add: example_world_def)
  note t = C9_notify_integrity [of notify_bad_hash_message "[2]" "replicate 64 1"
      example_world configured_state, rule_format, OF h]
  have f: "fst ?p = Some (PyException ''integrity check failed'')"
    by (simp add: process_notify_def process_notify_body_def notify_bad_hash_message_def
        decode_authorization_def headers_get_def from_bytes_def example_world_def
        example_state_defs Let_def)
  have p: "?p = (Some (PyException ''integrity check failed''), configured_state)"
    using f t [THEN conjunct2, THEN conjunct1] by (simp add: prod_eq_iff)
  have r: "reap_process_task ?p = StateClosing (Some (PyException ''integrity check failed''))"
    using t [THEN conjunct2, THEN conjunct2, THEN conjunct2] f by simp
  show ?thesis
    by (intro conjI)
       (fact h [THEN conjunct1] h [THEN conjunct2, THEN conjunct1]
          h [THEN conjunct2, THEN conjunct2, THEN conjunct1] l d p r)+
qed

subsection \<open>C1: parts of a streamed notification\<close>

lemma to_bytes_u16_small:
  "to_bytes 0 2 = Inr [0, 0]" "to_bytes 1 2 = Inr [0, 1]" "to_bytes 2 2 = Inr [0, 2]"
  "to_bytes 7 2 = Inr [0, 7]" "to_bytes 9 2 = Inr [0, 9]" "to_bytes 12 2 = Inr [0, 12]"
  by (simp_all add: to_bytes_def be_bytes_def upt_rec)

text \<open>
  \<open>last_part_id\<close> is set to \<open>-1\<close> when part 0 opens the stream and no statement of
  \<open>_process_notify_stream\<close> assigns it afterwards. While a stream is open, every further
  NOTIFY\_STREAM frame is therefore rejected, whatever its part id, and the state stays
  as it was.
\<close>

lemma open_stream_rejects_every_part:
  assumes "incoming_notification state = Some n" and "last_part_id n = - 1"
  shows "fst (process_notify_stream w message state) \<noteq> None
         \<and> snd (process_notify_stream w message state) = state"
proof -
  have "from_bytes b \<noteq> 0 \<Longrightarrow> - 1 + 1 \<noteq> int (from_bytes b)" for b by simp
  then show ?thesis using assms
    by (auto simp: process_notify_stream_def start_notify_stream_def Let_def
        split: option.splits)
qed

lemma next_part_out_of_order:
  assumes "incoming_notification state = Some n" and "last_part_id n = - 1"
    and "mtype message = NOTIFY_STREAM"
    and "headers message ''x-identifier'' = Some (notif_identifier n)"
    and "headers message ''x-part-id'' = Some b"
    and "length b \<le> 8" and "from_bytes b \<noteq> 0"
  shows "process_notify_stream w message state
         = (Some (ValueError ''received part out of order''), state)"
  using assms by (simp add: process_notify_stream_def Let_def)

lemma stream_part0_accepted:
  "fst (process_notify_stream w stream_part0_message configured_state) = None
   \<and> history (snd (process_notify_stream w stream_part0_message configured_state))
       = [Outgoing ([0, 0, 0, 7, 0, 2]
                    @ [0, 12] @ map (\<lambda>c. of_nat (of_char c)) ''x-identifier'' @ [0, 1, 7]
                    @ [0, 9] @ map (\<lambda>c. of_nat (of_char c)) ''x-part-id'' @ [0, 1, 0])]
   \<and> incoming_notification (snd (process_notify_stream w stream_part0_message configured_state))
       = Some \<lparr>notif_identifier = [7], last_part_id = - 1, topic = [1], compressor_id = 0,
               compressed_length = 2, decompressed_length = 2,
               compressed_sha512 = replicate 64 0, body_hasher = [5], notif_body = [5]\<rparr>"
  by (simp add: process_notify_stream_def start_notify_stream_def stream_part0_message_def
      from_bytes_def compressor_known_def Let_def make_websocket_message_def
      MINIMAL_HEADERS_def to_bytes_u16_small ascii_encode_def send_or_enqueue_def
      example_state_defs)

text \<open>
  C1 holds of the protocol the code documents ("x-part-id starts at 0 and increments by 1
  for each part") but not of the code: a two-byte notification streamed in two parts,
  part ids 0 and 1 in order under one identifier. Part 0 is accepted and acknowledged with
  CONTINUE\_NOTIFY (type 7, headers \<open>x-identifier = 07\<close>, \<open>x-part-id = 00\<close>); part 1 is rejected
  with "received part out of order", because \<open>last_part_id\<close> is still \<open>-1\<close>.
\<close>

theorem C1_second_part_rejected:
  "fst (process_notify_stream w stream_part0_message configured_state) = None
   \<and> history (snd (process_notify_stream w stream_part0_message configured_state))
       = [Outgoing ([0, 0, 0, 7, 0, 2]
                    @ [0, 12] @ map (\<lambda>c. of_nat (of_char c)) ''x-identifier'' @ [0, 1, 7]
                    @ [0, 9] @ map (\<lambda>c. of_nat (of_char c)) ''x-part-id'' @ [0, 1, 0])]
   \<and> process_notify_stream w stream_part1_message
        (snd (process_notify_stream w stream_part0_message configured_state))
       = (Some (ValueError ''received part out of order''),
          snd (process_notify_stream w stream_part0_message configured_state))"
proof -
  let ?s = "snd (process_notify_stream w stream_part0_message configured_state)"
  let ?n = "\<lparr>notif_identifier = [7], last_part_id = - 1, topic = [1], compressor_id = 0,
               compressed_length = 2, decompressed_length = 2,
               compressed_sha512 = replicate 64 0, body_hasher = [5], notif_body = [5]\<rparr>"
  note a = stream_part0_accepted [of w]
  have i: "incoming_notification ?s = Some ?n"
    by (rule a [THEN conjunct2, THEN conjunct2])
  have r: "process_notify_stream w stream_part1_message ?s
           = (Some (ValueError ''received part out of order''), ?s)"
    by (rule next_part_out_of_order [OF i, of _ "[1]"])
       (simp_all add: stream_part1_message_def from_bytes_def)
  show ?thesis
    by (intro conjI) (fact a [THEN conjunct1] a [THEN conjunct2, THEN conjunct1] r)+
qed

subsection \<open>C4: the order of confirmation and registration\<close>

lemma subscribe_exact_branch_history:
  assumes "subscribe_exact_branch message t state = Inr (response, state')"
  shows "history state' = history state @ [LocalAddExact t, HubIncrementExact t]
         \<and> t \<notin> exact_subscriptions state
         \<and> exact_subscriptions state' = insert t (exact_subscriptions state)"
  using assms
  by (auto simp: subscribe_exact_branch_def Let_def split: if_splits sum.splits)

lemma subscribe_glob_branch_history:
  assumes "subscribe_glob_branch w message tb state = Inr (response, state')"
  shows "\<exists>g. utf8_decode tb = Some g
         \<and> history state' = history state @ [LocalAddGlob g, HubIncrementGlob g]
         \<and> glob_subscriptions state' = glob_subscriptions state @ [(StrPattern (translate w g), g)]"
  using assms
  by (auto simp: subscribe_glob_branch_def Let_def split: if_splits sum.splits option.splits)

lemma send_or_enqueue_history:
  "history (send_or_enqueue data state) = history state @ [Outgoing data]"
  by (simp add: send_or_enqueue_def)

lemma receive_url_history:
  assumes "make_for_receive_websocket_url_and_change_counter state = Inr (url, state1)"
  shows "history state1 = history state"
  using assms
  by (auto simp: make_for_receive_websocket_url_and_change_counter_def Let_def split: option.splits)

lemma monolithic_subscribe_exact_order:
  assumes "mtype message = SUBSCRIBE_EXACT"
    and "headers message ''x-topic'' = Some t"
    and "fst (process_subscribe_or_unsubscribe w message state) = None"
  shows "\<exists>response. history (snd (process_subscribe_or_unsubscribe w message state))
           = history state @ [LocalAddExact t, HubIncrementExact t, Outgoing response]"
proof (cases "decode_authorization message")
  case (Inl e)
  then show ?thesis using assms by (simp add: process_subscribe_or_unsubscribe_def)
next
  case a: (Inr a)
  show ?thesis
  proof (cases "make_for_receive_websocket_url_and_change_counter state")
    case (Inl e)
    then show ?thesis using assms a by (simp add: process_subscribe_or_unsubscribe_def)
  next
    case (Inr p)
    obtain url state1 where p: "p = (url, state1)" by (cases p)
    have h1: "history state1 = history state"
      using receive_url_history Inr p by blast
    show ?thesis
    proof (cases "subscribe_exact_branch message t state1")
      case (Inl es)
      then show ?thesis using assms a Inr p
        by (simp add: process_subscribe_or_unsubscribe_def Let_def split: if_splits prod.splits)
    next
      case b: (Inr rs)
      obtain response state2 where rs: "rs = (response, state2)" by (cases rs)
      from subscribe_exact_branch_history [OF b [unfolded rs]]
      have h2: "history state2 = history state1 @ [LocalAddExact t, HubIncrementExact t]"
        by simp
      have "snd (process_subscribe_or_unsubscribe w message state)
            = send_or_enqueue response state2"
        using assms a Inr p b rs
        by (simp add: process_subscribe_or_unsubscribe_def Let_def split: if_splits)
      then show ?thesis
        by (simp add: send_or_enqueue_history h2 h1)
    qed
  qed
qed

lemma refactored_subscribe_exact_order:
  assumes "fst (process_subscribe_exact w t a state) = None"
  shows "\<exists>data. r_history (snd (process_subscribe_exact w t a state))
           = r_history state @ [Outgoing data, LocalAddExact t, HubIncrementExact t]"
  using assms
  by (auto simp: process_subscribe_exact_def r_make_for_receive_websocket_url_and_change_counter_def
      send_simple_asap_def Let_def split: if_splits sum.splits)

lemma monolithic_subscribe_glob_order:
  assumes "mtype message = SUBSCRIBE_GLOB"
    and "headers message ''x-glob'' = Some tb"
    and "fst (process_subscribe_or_unsubscribe w message state) = None"
  shows "\<exists>g response. utf8_decode tb = Some g
           \<and> history (snd (process_subscribe_or_unsubscribe w message state))
               = history state @ [LocalAddGlob g, HubIncrementGlob g, Outgoing response]"
proof (cases "decode_authorization message")
  case (Inl e)
  then show ?thesis using assms by (simp add: process_subscribe_or_unsubscribe_def)
next
  case a: (Inr a)
  show ?thesis
  proof (cases "make_for_receive_websocket_url_and_change_counter state")
    case (Inl e)
    then show ?thesis using assms a by (simp add: process_subscribe_or_unsubscribe_def)
  next
    case (Inr p)
    obtain url state1 where p: "p = (url, state1)" by (cases p)
    have h1: "history state1 = history state"
      using receive_url_history Inr p by blast
    show ?thesis
    proof (cases "subscribe_glob_branch w message tb state1")
      case (Inl es)
      then show ?thesis using assms a Inr p
        by (simp add: process_subscribe_or_unsubscribe_def Let_def
            split: if_splits prod.splits option.splits)
    next
      case b: (Inr rs)
      obtain response state2 where rs: "rs = (response, state2)" by (cases rs)
      from subscribe_glob_branch_history [OF b [unfolded rs]]
      obtain g where g: "utf8_decode tb = Some g"
        and h2: "history state2 = history state1 @ [LocalAddGlob g, HubIncrementGlob g]"
        by blast
      have "snd (process_subscribe_or_unsubscribe w message state)
            = send_or_enqueue response state2"
        using assms a Inr p b rs g
        by (simp add: process_subscribe_or_unsubscribe_def Let_def split: if_splits)
      then have "history (snd (process_subscribe_or_unsubscribe w message state))
               = history state @ [LocalAddGlob g, HubIncrementGlob g, Outgoing response]"
        by (simp add: send_or_enqueue_history h2 h1)
      with g show ?thesis by blast
    qed
  qed
qed

lemma to_bytes_u16_more:
  "to_bytes 6 2 = Inr [0, 6]" "to_bytes 3 2 = Inr [0, 3]"
  by (simp_all add: to_bytes_def be_bytes_def upt_rec)

text \<open>
  The refactored processor, at the example: CONFIRM\_SUBSCRIBE\_EXACT is handed to the send
  path first, then the topic is added locally, then the hub counter is incremented.
\<close>

lemma refactored_subscribe_exact_example:
  "fst (process_subscribe_exact example_world [1] None refactored_state) = None
   \<and> r_history (snd (process_subscribe_exact example_world [1] None refactored_state))
       = [Outgoing ([0, 0, 0, 2, 0, 1, 0, 7] @ map (\<lambda>c. of_nat (of_char c)) ''x-topic''
                    @ [0, 1, 1]),
          LocalAddExact [1], HubIncrementExact [1]]"
  by (simp add: process_subscribe_exact_def r_make_for_receive_websocket_url_and_change_counter_def
        serialize_b2s_confirm_subscribe_exact_def send_simple_asap_def refactored_state_def
        example_world_def example_config_def Let_def
        make_websocket_message_def MINIMAL_HEADERS_def to_bytes_u16_small to_bytes_u16_more
        ascii_encode_def)

text \<open>
  C4 holds of the refactored processor \<open>process_subscribe_exact\<close>, whose comment states
  the rule ("we confirm before registering"), but not of the monolithic
  \<open>_process_subscribe_or_unsubscribe\<close>: at the example, with the verifier answering ok and
  nothing subscribed, SUBSCRIBE\_EXACT for topic \<open>01\<close> and SUBSCRIBE\_GLOB for \<open>a*\<close> are
  accepted, and in both the local insertion and the hub increment come before the
  confirmation frame is handed to the send path.
\<close>

theorem C4_monolithic_confirms_last:
  "fst (process_subscribe_or_unsubscribe example_world subscribe_exact_message
          configured_state) = None
   \<and> history (snd (process_subscribe_or_unsubscribe example_world subscribe_exact_message
                      configured_state))
       = [LocalAddExact [1], HubIncrementExact [1],
          Outgoing ([0, 0, 0, 2, 0, 1, 0, 7] @ map (\<lambda>c. of_nat (of_char c)) ''x-topic''
                    @ [0, 1, 1])]
   \<and> fst (process_subscribe_or_unsubscribe example_world subscribe_glob_message
             configured_state) = None
   \<and> history (snd (process_subscribe_or_unsubscribe example_world subscribe_glob_message
                      configured_state))
       = [LocalAddGlob [97, 42], HubIncrementGlob [97, 42],
          Outgoing ([0, 0, 0, 3, 0, 1, 0, 6] @ map (\<lambda>c. of_nat (of_char c)) ''x-glob''
                    @ [0, 2, 97, 42])]"
proof -
  have e: "process_subscribe_or_unsubscribe example_world subscribe_exact_message
             configured_state
           = (None, send_or_enqueue
                      ([0, 0, 0, 2, 0, 1, 0, 7] @ map (\<lambda>c. of_nat (of_char c)) ''x-topic''
                       @ [0, 1, 1])
                      (configured_state\<lparr>subscriber_counter := - 2,
                         exact_subscriptions := {[1]},
                         history := [LocalAddExact [1], HubIncrementExact [1]]\<rparr>))"
    by (simp add: process_subscribe_or_unsubscribe_def subscribe_exact_message_def
        decode_authorization_def make_for_receive_websocket_url_and_change_counter_def
        subscribe_exact_branch_def example_world_def example_state_defs Let_def
        make_websocket_message_def MINIMAL_HEADERS_def to_bytes_u16_small to_bytes_u16_more
        ascii_encode_def send_or_enqueue_def)
  have g: "process_subscribe_or_unsubscribe example_world subscribe_glob_message
             configured_state
           = (None, send_or_enqueue
                      ([0, 0, 0, 3, 0, 1, 0, 6] @ map (\<lambda>c. of_nat (of_char c)) ''x-glob''
                       @ [0, 2, 97, 42])
                      (configured_state\<lparr>subscriber_counter := - 2,
                         glob_subscriptions := [(StrPattern [97, 42], [97, 42])],
                         history := [LocalAddGlob [97, 42], HubIncrementGlob [97, 42]]\<rparr>))"
    by (simp add: process_subscribe_or_unsubscribe_def subscribe_glob_message_def
        decode_authorization_def make_for_receive_websocket_url_and_change_counter_def
        subscribe_glob_branch_def example_world_def example_state_defs Let_def
        make_websocket_message_def MINIMAL_HEADERS_def to_bytes_u16_small to_bytes_u16_more
        ascii_encode_def send_or_enqueue_def utf8_encode_def)
  show ?thesis
    unfolding e g by (simp add: send_or_enqueue_history)
qed

subsection \<open>C2: glob matching of a topic\<close>

lemma str_pattern_on_bytes:
  assumes "topic' \<notin> exact_subscriptions state"
    and "glob_subscriptions state = (StrPattern r, g) # rest"
  shows "is_relevant w state topic'
         = Inl (TypeError ''cannot use a string pattern on a bytes-like object'')"
  using assms by (simp add: is_relevant_def pattern_match_def)

text \<open>
  Every pattern the session stores is compiled from a string
  (\<open>re.compile(translate(target_str))\<close>), and \<open>is_relevant\<close> hands it the topic as bytes:
  whenever the topic is not an exact subscription and a glob subscription exists, the
  test raises TypeError.
\<close>

lemma glob_subscribed_state_globs:
  "glob_subscriptions glob_subscribed_state = [(StrPattern [97, 42], [97, 42])]
   \<and> exact_subscriptions glob_subscribed_state = {}"
  by (simp add: glob_subscribed_state_def process_subscribe_or_unsubscribe_def
        subscribe_glob_message_def
        decode_authorization_def make_for_receive_websocket_url_and_change_counter_def
        subscribe_glob_branch_def example_world_def example_state_defs Let_def
        make_websocket_message_def MINIMAL_HEADERS_def to_bytes_u16_small to_bytes_u16_more
        ascii_encode_def send_or_enqueue_def utf8_encode_def)

text \<open>
  C2 describes what the matching is meant to do, and the code misses it: the session has
  subscribed to the glob \<open>a*\<close> (through SUBSCRIBE\_GLOB); for the topic \<open>ab\<close>, valid UTF-8
  that the glob matches, and for the topic \<open>ff\<close>, which is not valid UTF-8,
  \<open>is_relevant\<close> neither returns true nor false but raises TypeError, since the topic is
  never decoded.
\<close>

theorem C2_is_relevant_raises:
  "glob_subscriptions glob_subscribed_state = [(StrPattern [97, 42], [97, 42])]
   \<and> utf8_decode [97, 98] = Some [97, 98]
   \<and> is_relevant w glob_subscribed_state [97, 98]
       = Inl (TypeError ''cannot use a string pattern on a bytes-like object'')
   \<and> utf8_decode [255] = None
   \<and> is_relevant w glob_subscribed_state [255]
       = Inl (TypeError ''cannot use a string pattern on a bytes-like object'')"
proof -
  note s = glob_subscribed_state_globs
  have n: "t \<notin> exact_subscriptions glob_subscribed_state" for t
    by (simp add: s [THEN conjunct2])
  have r: "is_relevant w glob_subscribed_state t
       = Inl (TypeError ''cannot use a string pattern on a bytes-like object'')" for t
    by (rule str_pattern_on_bytes [OF n s [THEN conjunct1]])
  have d1: "utf8_decode [97, 98] = Some [97, 98]" by simp
  have d2: "utf8_decode [255] = None" by simp
  show ?thesis
    by (intro conjI) (fact s [THEN conjunct1] d1 d2 r)+
qed

subsection \<open>C8: the frame codec\<close>

lemma to_bytes_u16:
  assumes "n < 65536"
  shows "to_bytes (int n) 2 = Inr [of_nat (n div 256), of_nat (n mod 256)]"
proof -
  have "[0..<2] = [0, 1::nat]" by (simp add: upt_rec)
  moreover have "n div 256 mod 256 = n div 256" using assms by simp
  ultimately show ?thesis using assms
    by (simp add: to_bytes_def be_bytes_def)
qed

lemma to_bytes_u16_fails:
  assumes "65536 \<le> n"
  shows "to_bytes (int n) 2 = Inl OverflowError"
  using assms by (simp add: to_bytes_def)

lemma from_bytes_u16:
  assumes "n < 65536"
  shows "from_bytes [of_nat (n div 256), of_nat (n mod 256)] = n"
proof -
  have "n div 256 < 256" using assms by simp
  then have "unat (of_nat (n div 256) :: byte) = n div 256"
    by (simp add: unat_of_nat)
  moreover have "unat (of_nat (n mod 256) :: byte) = n mod 256"
    by (simp add: unat_of_nat)
  ultimately show ?thesis by (simp add: from_bytes_def)
qed

lemma read_u16_encoded:
  assumes "to_bytes (int n) 2 = Inr b"
  shows "read_u16 (b @ rest) = Inr (n, rest)"
proof -
  have n: "n < 65536" using assms by (auto simp: to_bytes_def split: if_splits)
  with assms have b: "b = [of_nat (n div 256), of_nat (n mod 256)]"
    by (simp add: to_bytes_u16)
  show ?thesis
    by (simp add: read_u16_def read_exact_def b from_bytes_u16 [OF n])
qed

lemma read_value_encoded:
  assumes "to_bytes (int (length v)) 2 = Inr lv"
  shows "read_value (lv @ v @ rest) = Inr (v, rest)"
  by (simp add: read_value_def read_u16_encoded [OF assms] read_exact_def)

lemma ascii_roundtrip:
  assumes "ascii_encode name = Inr enc"
  shows "ascii_decode enc = Inr name" and "length enc = length name"
proof -
  from assms have a: "list_all (\<lambda>c. (of_char c :: nat) < 128) name"
    and e: "enc = map (\<lambda>c. of_nat (of_char c)) name"
    by (auto simp: ascii_encode_def split: if_splits)
  have u: "unat (of_nat (of_char c) :: byte) = of_char c" for c :: char
    by (simp add: unat_of_nat)
  have "list_all (\<lambda>x. unat x < 128) enc"
    using a by (simp add: e list_all_iff u)
  moreover have "map (\<lambda>x. char_of (unat x)) enc = name"
    by (simp add: e u comp_def)
  ultimately show "ascii_decode enc = Inr name" by (simp add: ascii_decode_def)
  show "length enc = length name" by (simp add: e)
qed

lemma lower_id: "is_lower_name name \<Longrightarrow> lower name = name"
  by (induction name) (auto simp: is_lower_name_def lower_def lower_char_def)


lemma map_of_rev_distinct: "distinct (map fst xs) \<Longrightarrow> map_of (rev xs) = map_of xs"
  by (simp add: map_of_inject_set distinct_rev rev_map [symmetric])

lemma read_minimal_written:
  assumes "write_minimal_headers hs = Inr out"
  shows "read_minimal_headers (map fst hs) m (out @ rest) = Inr (m ++ map_of (rev hs), rest)"
  using assms
proof (induction hs arbitrary: m out)
  case Nil
  then show ?case by simp
next
  case (Cons h hs)
  obtain name v where h: "h = (name, v)" by (cases h)
  from Cons.prems obtain lv out' where
    lv: "to_bytes (int (length v)) 2 = Inr lv"
    and o': "write_minimal_headers hs = Inr out'"
    and out: "out = lv @ v @ out'"
    by (auto simp: h split: sum.splits)
  have "read_minimal_headers (map fst (h # hs)) m (out @ rest)
        = read_minimal_headers (map fst hs) (m(name \<mapsto> v)) (out' @ rest)"
    by (simp add: h out read_value_encoded [OF lv])
  also have "\<dots> = Inr (m(name \<mapsto> v) ++ map_of (rev hs), rest)"
    by (rule Cons.IH [OF o'])
  also have "m(name \<mapsto> v) ++ map_of (rev hs) = m ++ map_of (rev (h # hs))"
    by (simp add: h map_add_upd_left map_add_assoc [symmetric] map_add_def fun_eq_iff
        split: option.splits)
  finally show ?case .
qed

lemma read_expanded_written:
  assumes "write_expanded_headers hs = Inr out"
    and "list_all is_lower_name (map fst hs)"
  shows "read_expanded_headers (length hs) m (out @ rest) = Inr (m ++ map_of (rev hs), rest)"
  using assms
proof (induction hs arbitrary: m out)
  case Nil
  then show ?case by simp
next
  case (Cons h hs)
  obtain name v where h: "h = (name, v)" by (cases h)
  from Cons.prems(1) obtain enc lnm lv out' where
    enc: "ascii_encode name = Inr enc"
    and lnm: "to_bytes (int (length enc)) 2 = Inr lnm"
    and lv: "to_bytes (int (length v)) 2 = Inr lv"
    and o': "write_expanded_headers hs = Inr out'"
    and out: "out = lnm @ enc @ lv @ v @ out'"
    by (auto simp: h split: sum.splits)
  from Cons.prems(2) have low: "lower name = name" and rest_low: "list_all is_lower_name (map fst hs)"
    by (simp_all add: h lower_id)
  have "read_expanded_headers (length (h # hs)) m (out @ rest)
        = read_expanded_headers (length hs) (m(name \<mapsto> v)) (out' @ rest)"
    using read_value_encoded [OF lnm, of "lv @ v @ out' @ rest"]
      read_value_encoded [OF lv, of "out' @ rest"]
    by (simp add: out ascii_roundtrip(1) [OF enc] low)
  also have "\<dots> = Inr (m(name \<mapsto> v) ++ map_of (rev hs), rest)"
    by (rule Cons.IH [OF o' rest_low])
  also have "m(name \<mapsto> v) ++ map_of (rev hs) = m ++ map_of (rev (h # hs))"
    by (simp add: h map_add_upd_left map_add_assoc [symmetric] map_add_def fun_eq_iff
        split: option.splits)
  finally show ?case .
qed


lemma write_minimal_succeeds:
  assumes "list_all (\<lambda>v. length v \<le> 65535) (map snd hs)"
  shows "\<exists>out. write_minimal_headers hs = Inr out"
  using assms
proof (induction hs)
  case Nil
  then show ?case by simp
next
  case (Cons h hs)
  obtain name v where h: "h = (name, v)" by (cases h)
  from Cons.prems have "length v < 65536" by (simp add: h)
  then have "to_bytes (int (length v)) 2
             = Inr [of_nat (length v div 256), of_nat (length v mod 256)]"
    by (rule to_bytes_u16)
  moreover from Cons obtain out where "write_minimal_headers hs = Inr out" by auto
  ultimately show ?case by (simp add: h)
qed

lemma write_expanded_succeeds:
  assumes "list_all (\<lambda>v. length v \<le> 65535) (map snd hs)"
    and "list_all (\<lambda>name. length name \<le> 65535) (map fst hs)"
    and "list_all is_ascii_name (map fst hs)"
  shows "\<exists>out. write_expanded_headers hs = Inr out"
  using assms
proof (induction hs)
  case Nil
  then show ?case by simp
next
  case (Cons h hs)
  obtain name v where h: "h = (name, v)" by (cases h)
  from Cons.prems have v: "length v < 65536" and n: "length name < 65536"
    and a: "is_ascii_name name"
    by (simp_all add: h)
  from a have enc: "ascii_encode name = Inr (map (\<lambda>c. of_nat (of_char c)) name)"
    by (simp add: ascii_encode_def is_ascii_name_def)
  from Cons obtain out where "write_expanded_headers hs = Inr out" by auto
  then show ?case
    using to_bytes_u16 [OF v] to_bytes_u16 [OF n] by (simp add: h enc)
qed

lemma parsed_type_of_parsed_value: "parsed_type_of_value (parsed_value t) = Inr t"
  by (cases t) (simp_all add: parsed_type_of_value_def)

lemma outgoing_value_u16: "to_bytes (int (outgoing_value t)) 2
    = Inr [of_nat (outgoing_value t div 256), of_nat (outgoing_value t mod 256)]"
  by (rule to_bytes_u16) (cases t; simp)

lemma roundtrip_expanded:
  assumes wf: "wellformed_headers hs"
    and tv: "outgoing_value t = parsed_value t'"
  shows "\<exists>raw. make_websocket_message 0 t hs bdy = Inr raw
           \<and> parse_websocket_message raw
               = Inr \<lparr>flags = 0, mtype = t', headers = map_of hs, body = bdy\<rparr>"
proof -
  from wf have len: "length hs < 65536" and d: "distinct (map fst hs)"
    and low: "list_all is_lower_name (map fst hs)"
    by (simp_all add: wellformed_headers_def)
  from wf obtain out where out: "write_expanded_headers hs = Inr out"
    using write_expanded_succeeds [of hs] by (auto simp: wellformed_headers_def)
  obtain fb where fb: "to_bytes (int 0) 2 = Inr fb"
    using to_bytes_u16 [of 0] by simp
  obtain tb where tb: "to_bytes (int (outgoing_value t)) 2 = Inr tb"
    using outgoing_value_u16 [of t] by simp
  obtain nb where nb: "to_bytes (int (length hs)) 2 = Inr nb"
    using to_bytes_u16 [OF len] by simp
  have m: "make_websocket_message 0 t hs bdy = Inr (fb @ tb @ nb @ out @ bdy)"
    using fb tb nb out by (simp add: make_websocket_message_def)
  have p: "parse_websocket_message (fb @ tb @ nb @ out @ bdy)
           = Inr \<lparr>flags = 0, mtype = t', headers = map_of hs, body = bdy\<rparr>"
    using read_u16_encoded [OF fb, of "tb @ nb @ out @ bdy"]
      read_u16_encoded [OF tb, of "nb @ out @ bdy"]
      read_u16_encoded [OF nb, of "out @ bdy"]
      read_expanded_written [OF out low, of Map.empty bdy]
    by (simp add: parse_websocket_message_def tv parsed_type_of_parsed_value
        map_of_rev_distinct [OF d])
  from m p show ?thesis by simp
qed

lemma roundtrip_minimal:
  assumes wf: "wellformed_headers hs"
    and tv: "outgoing_value t = parsed_value t'"
    and names: "STANDARD_MINIMAL_HEADERS_BY_TYPE t' = Some (map fst hs)"
  shows "\<exists>raw. make_websocket_message 1 t hs bdy = Inr raw
           \<and> parse_websocket_message raw
               = Inr \<lparr>flags = 1, mtype = t', headers = map_of hs, body = bdy\<rparr>"
proof -
  from wf have d: "distinct (map fst hs)"
    by (simp_all add: wellformed_headers_def)
  from wf obtain out where out: "write_minimal_headers hs = Inr out"
    using write_minimal_succeeds [of hs] by (auto simp: wellformed_headers_def)
  from names have ns: "t' \<noteq> NOTIFY_STREAM" by (cases t') auto
  obtain fb where fb: "to_bytes (int 1) 2 = Inr fb"
    using to_bytes_u16 [of 1] by simp
  obtain tb where tb: "to_bytes (int (outgoing_value t)) 2 = Inr tb"
    using outgoing_value_u16 [of t] by simp
  have m: "make_websocket_message 1 t hs bdy = Inr (fb @ tb @ out @ bdy)"
    using fb tb out by (simp add: make_websocket_message_def MINIMAL_HEADERS_def)
  have p: "parse_websocket_message (fb @ tb @ out @ bdy)
           = Inr \<lparr>flags = 1, mtype = t', headers = map_of hs, body = bdy\<rparr>"
    using read_u16_encoded [OF fb, of "tb @ out @ bdy"]
      read_u16_encoded [OF tb, of "out @ bdy"]
      read_minimal_written [OF out, of Map.empty bdy]
    by (simp add: parse_websocket_message_def tv parsed_type_of_parsed_value ns names
        MINIMAL_HEADERS_def map_of_rev_distinct [OF d])
  from m p show ?thesis by simp
qed


lemma write_minimal_Cons:
  assumes "write_minimal_headers ((name, v) # hs) = Inr out"
  obtains lv out' where "to_bytes (int (length v)) 2 = Inr lv"
    and "write_minimal_headers hs = Inr out'" and "out = lv @ v @ out'"
  using assms by (auto split: sum.splits)

lemma read_exact_prefix: "read_exact (v @ rest) (length v) = Inr (v, rest)"
  by (simp add: read_exact_def)

lemma roundtrip_notify_stream_part0:
  assumes hs: "hs = notify_stream_part0_headers auth ident part tp cmpr clen dlen sha"
    and wf: "wellformed_headers hs"
    and tv: "outgoing_value t = parsed_value NOTIFY_STREAM"
    and id: "length ident \<le> 64" and pl: "length part \<le> 8" and p0: "from_bytes part = 0"
  shows "\<exists>raw. make_websocket_message 1 t hs bdy = Inr raw
           \<and> parse_websocket_message raw
               = Inr \<lparr>flags = 1, mtype = NOTIFY_STREAM, headers = map_of hs, body = bdy\<rparr>"
proof -
  let ?tl = "[(''x-topic'', tp), (''x-compressor'', cmpr), (''x-compressed-length'', clen),
      (''x-decompressed-length'', dlen), (''x-compressed-sha512'', sha)]"
  from wf obtain out where out: "write_minimal_headers hs = Inr out"
    using write_minimal_succeeds [of hs] by (auto simp: wellformed_headers_def)
  from out obtain l0 o0 where l0: "to_bytes (int (length auth)) 2 = Inr l0"
    and w0: "write_minimal_headers ((''x-identifier'', ident) # (''x-part-id'', part) # ?tl) = Inr o0"
    and e0: "out = l0 @ auth @ o0"
    unfolding hs notify_stream_part0_headers_def by (rule write_minimal_Cons)
  from w0 obtain l1 o1 where l1: "to_bytes (int (length ident)) 2 = Inr l1"
    and w1: "write_minimal_headers ((''x-part-id'', part) # ?tl) = Inr o1"
    and e1: "o0 = l1 @ ident @ o1"
    by (rule write_minimal_Cons)
  from w1 obtain l2 o2 where l2: "to_bytes (int (length part)) 2 = Inr l2"
    and w2: "write_minimal_headers ?tl = Inr o2"
    and e2: "o1 = l2 @ part @ o2"
    by (rule write_minimal_Cons)
  obtain fb where fb: "to_bytes (int 1) 2 = Inr fb"
    using to_bytes_u16 [of 1] by simp
  obtain tb where tb: "to_bytes (int (outgoing_value t)) 2 = Inr tb"
    using outgoing_value_u16 [of t] by simp
  have m: "make_websocket_message 1 t hs bdy = Inr (fb @ tb @ out @ bdy)"
    using fb tb out by (simp add: make_websocket_message_def MINIMAL_HEADERS_def)
  have nid: "\<not> 64 < length ident" and npl: "\<not> 8 < length part"
    using id pl by simp_all
  have r: "read_notify_stream_minimal (out @ bdy)
           = Inr ([''authorization'' \<mapsto> auth, ''x-identifier'' \<mapsto> ident, ''x-part-id'' \<mapsto> part]
                  ++ map_of (rev ?tl), bdy)"
    using read_value_encoded [OF l0, of "l1 @ ident @ l2 @ part @ o2 @ bdy"]
      read_u16_encoded [OF l1, of "ident @ l2 @ part @ o2 @ bdy"]
      read_u16_encoded [OF l2, of "part @ o2 @ bdy"]
      read_exact_prefix [of ident "l2 @ part @ o2 @ bdy"]
      read_exact_prefix [of part "o2 @ bdy"]
      read_minimal_written [OF w2, of
        "[''authorization'' \<mapsto> auth, ''x-identifier'' \<mapsto> ident, ''x-part-id'' \<mapsto> part]" bdy]
    by (simp add: read_notify_stream_minimal_def e0 e1 e2 nid npl p0 Let_def)
  have mp: "[''authorization'' \<mapsto> auth, ''x-identifier'' \<mapsto> ident, ''x-part-id'' \<mapsto> part,
             ''x-topic'' \<mapsto> tp, ''x-compressor'' \<mapsto> cmpr, ''x-compressed-length'' \<mapsto> clen,
             ''x-decompressed-length'' \<mapsto> dlen, ''x-compressed-sha512'' \<mapsto> sha] = map_of hs"
    unfolding hs notify_stream_part0_headers_def
    by (rule ext) simp
  have p: "parse_websocket_message (fb @ tb @ out @ bdy)
           = Inr \<lparr>flags = 1, mtype = NOTIFY_STREAM, headers = map_of hs, body = bdy\<rparr>"
    using read_u16_encoded [OF fb, of "tb @ out @ bdy"]
      read_u16_encoded [OF tb, of "out @ bdy"] r
    by (simp add: parse_websocket_message_def tv parsed_type_of_parsed_value [of NOTIFY_STREAM, simplified]
        MINIMAL_HEADERS_def mp)
  from m p show ?thesis by simp
qed

lemma write_minimal_fails:
  assumes "list_ex (\<lambda>v. length v > 65535) (map snd hs)"
  shows "\<exists>e. write_minimal_headers hs = Inl e"
  using assms
proof (induction hs)
  case Nil
  then show ?case by simp
next
  case (Cons h hs)
  obtain name v where h: "h = (name, v)" by (cases h)
  show ?case
  proof (cases "length v > 65535")
    case True
    then have "to_bytes (int (length v)) 2 = Inl OverflowError"
      by (simp add: to_bytes_u16_fails)
    then show ?thesis by (simp add: h)
  next
    case False
    with Cons obtain e where "write_minimal_headers hs = Inl e" by (auto simp: h)
    then show ?thesis by (simp add: h split: sum.splits)
  qed
qed

lemma write_expanded_fails:
  assumes "list_ex (\<lambda>v. length v > 65535) (map snd hs)"
  shows "\<exists>e. write_expanded_headers hs = Inl e"
  using assms
proof (induction hs)
  case Nil
  then show ?case by simp
next
  case (Cons h hs)
  obtain name v where h: "h = (name, v)" by (cases h)
  show ?case
  proof (cases "length v > 65535")
    case True
    then have "to_bytes (int (length v)) 2 = Inl OverflowError"
      by (simp add: to_bytes_u16_fails)
    then show ?thesis by (simp add: h split: sum.splits)
  next
    case False
    with Cons obtain e where "write_expanded_headers hs = Inl e" by (auto simp: h)
    then show ?thesis by (simp add: h split: sum.splits)
  qed
qed

lemma encoder_fails:
  assumes "list_ex (\<lambda>v. length v > 65535) (map snd hs)"
  shows "\<exists>e. make_websocket_message fl t hs bdy = Inl e"
  using write_minimal_fails [OF assms] write_expanded_fails [OF assms]
  by (auto simp: make_websocket_message_def split: sum.splits)

lemmas codec_eval =
  make_websocket_message_def parse_websocket_message_def MINIMAL_HEADERS_def
  to_bytes_def be_bytes_def upt_rec ascii_encode_def ascii_decode_def read_u16_def
  read_value_def read_exact_def from_bytes_def parsed_type_of_value_def
  read_notify_stream_minimal_def lower_def lower_char_def Let_def

text \<open>
  The minimal form of a later part of NOTIFY\_STREAM. After the three values the decoder
  reads one more value under the name \<open>x-identifier\<close>, which the encoder never wrote: the
  frame with identifier \<open>07\<close>, part id \<open>01\<close> and body \<open>00 01 05 06\<close> decodes
  to identifier \<open>05\<close> and body \<open>06\<close>, and with an empty body it does not decode at all.
\<close>

lemma notify_stream_minimal_later_part_misread:
  "make_websocket_message 1 CONTINUE_NOTIFY
     [(''authorization'', []), (''x-identifier'', [7]), (''x-part-id'', [1])] [0, 1, 5, 6]
     = Inr [0, 1, 0, 7, 0, 0, 0, 1, 7, 0, 1, 1, 0, 1, 5, 6]
   \<and> parse_websocket_message [0, 1, 0, 7, 0, 0, 0, 1, 7, 0, 1, 1, 0, 1, 5, 6]
     = Inr \<lparr>flags = 1, mtype = NOTIFY_STREAM,
             headers = [''authorization'' \<mapsto> [], ''x-part-id'' \<mapsto> [1], ''x-identifier'' \<mapsto> [5]],
             body = [6]\<rparr>
   \<and> make_websocket_message 1 CONTINUE_NOTIFY
     [(''authorization'', []), (''x-identifier'', [7]), (''x-part-id'', [1])] []
     = Inr [0, 1, 0, 7, 0, 0, 0, 1, 7, 0, 1, 1]
   \<and> parse_websocket_message [0, 1, 0, 7, 0, 0, 0, 1, 7, 0, 1, 1]
     = Inl (ValueError ''not enough data'')"
  by (simp add: codec_eval)

text \<open>
  C8, as the specification states it, fails on the code, whose decoder is the one for
  frames sent to the broadcaster and whose encoder is the one for frames it sends. The
  encoder's type ENABLE\_ZSTD\_CUSTOM has the code 10, which the decoder's enumeration does
  not have: the frame with no headers and no body is encoded and then rejected. A header
  name, like a value, is written behind a 16-bit length: with one header whose lowercase
  ASCII name has 65536 characters and whose value is empty the encoder fails.
\<close>

theorem C8_counterexample:
  "make_websocket_message 0 ENABLE_ZSTD_CUSTOM [] [] = Inr [0, 0, 0, 10, 0, 0]
   \<and> parse_websocket_message [0, 0, 0, 10, 0, 0]
       = Inl (ValueError ''not a valid _ParsedWSMessageType'')
   \<and> make_websocket_message 0 CONFIRM_NOTIFY [(replicate 65536 CHR ''a'', [])] []
       = Inl OverflowError"
  by (simp add: codec_eval list_all_iff)

text \<open>
  C8, amended. For flags 0 or 1, a type whose code both enumerations have (1 to 9), a
  header list of at most 65535 headers with distinct lowercase ASCII names of at most
  65535 bytes and values of at most 65535 bytes, and any body: the encoder succeeds and
  decoding its output yields the frame again (flags, type code, the headers as a
  dictionary, body) in the expanded form; in the minimal form when the type is not
  NOTIFY\_STREAM and the header names are, in order, the fixed list of the type; and in the
  minimal form of the first part of a NOTIFY\_STREAM (the eight headers in order, an
  identifier of at most 64 bytes, a part id of at most 8 bytes with value 0). The encoder
  fails, in either form, if a header value is longer than 65535 bytes. Later parts of a
  NOTIFY\_STREAM in the minimal form are left out.
\<close>

theorem C8_roundtrip:
  "(wellformed_headers hs \<and> outgoing_value t = parsed_value t' \<longrightarrow>
      (\<exists>raw. make_websocket_message 0 t hs bdy = Inr raw
         \<and> parse_websocket_message raw
             = Inr \<lparr>flags = 0, mtype = t', headers = map_of hs, body = bdy\<rparr>))
   \<and> (wellformed_headers hs1 \<and> outgoing_value t1 = parsed_value t1'
       \<and> STANDARD_MINIMAL_HEADERS_BY_TYPE t1' = Some (map fst hs1) \<longrightarrow>
      (\<exists>raw. make_websocket_message 1 t1 hs1 bdy1 = Inr raw
         \<and> parse_websocket_message raw
             = Inr \<lparr>flags = 1, mtype = t1', headers = map_of hs1, body = bdy1\<rparr>))
   \<and> (wellformed_headers (notify_stream_part0_headers auth ident part tp cmpr clen dlen sha)
       \<and> outgoing_value t2 = parsed_value NOTIFY_STREAM
       \<and> length ident \<le> 64 \<and> length part \<le> 8 \<and> from_bytes part = 0 \<longrightarrow>
      (\<exists>raw. make_websocket_message 1 t2
                (notify_stream_part0_headers auth ident part tp cmpr clen dlen sha) bdy2
              = Inr raw
         \<and> parse_websocket_message raw
             = Inr \<lparr>flags = 1, mtype = NOTIFY_STREAM,
                     headers = map_of (notify_stream_part0_headers auth ident part tp cmpr
                                         clen dlen sha),
                     body = bdy2\<rparr>))
   \<and> (list_ex (\<lambda>v. length v > 65535) (map snd hs3) \<longrightarrow>
      (\<exists>e. make_websocket_message fl t3 hs3 bdy3 = Inl e))"
proof (intro conjI impI)
  assume "wellformed_headers hs \<and> outgoing_value t = parsed_value t'"
  then show "\<exists>raw. make_websocket_message 0 t hs bdy = Inr raw
         \<and> parse_websocket_message raw
             = Inr \<lparr>flags = 0, mtype = t', headers = map_of hs, body = bdy\<rparr>"
    using roundtrip_expanded [of hs t t' bdy] by blast
next
  assume "wellformed_headers hs1 \<and> outgoing_value t1 = parsed_value t1'
       \<and> STANDARD_MINIMAL_HEADERS_BY_TYPE t1' = Some (map fst hs1)"
  then show "\<exists>raw. make_websocket_message 1 t1 hs1 bdy1 = Inr raw
         \<and> parse_websocket_message raw
             = Inr \<lparr>flags = 1, mtype = t1', headers = map_of hs1, body = bdy1\<rparr>"
    using roundtrip_minimal [of hs1 t1 t1' bdy1] by blast
next
  assume a: "wellformed_headers (notify_stream_part0_headers auth ident part tp cmpr clen dlen sha)
       \<and> outgoing_value t2 = parsed_value NOTIFY_STREAM
       \<and> length ident \<le> 64 \<and> length part \<le> 8 \<and> from_bytes part = 0"
  show "\<exists>raw. make_websocket_message 1 t2
                (notify_stream_part0_headers auth ident part tp cmpr clen dlen sha) bdy2
              = Inr raw
         \<and> parse_websocket_message raw
             = Inr \<lparr>flags = 1, mtype = NOTIFY_STREAM,
                     headers = map_of (notify_stream_part0_headers auth ident part tp cmpr
                                         clen dlen sha),
                     body = bdy2\<rparr>"
    by (rule roundtrip_notify_stream_part0 [OF refl]) (simp_all add: a)
next
  assume "list_ex (\<lambda>v. length v > 65535) (map snd hs3)"
  then show "\<exists>e. make_websocket_message fl t3 hs3 bdy3 = Inl e"
    by (rule encoder_fails)
qed

theorem C8_roundtrip_witness:
  "wellformed_headers [(''x-topic'', [1])]
   \<and> outgoing_value CONFIRM_SUBSCRIBE_EXACT = parsed_value SUBSCRIBE_EXACT
   \<and> make_websocket_message 0 CONFIRM_SUBSCRIBE_EXACT [(''x-topic'', [1])] [9]
       = Inr [0, 0, 0, 2, 0, 1, 0, 7, 120, 45, 116, 111, 112, 105, 99, 0, 1, 1, 9]
   \<and> parse_websocket_message
         [0, 0, 0, 2, 0, 1, 0, 7, 120, 45, 116, 111, 112, 105, 99, 0, 1, 1, 9]
       = Inr \<lparr>flags = 0, mtype = SUBSCRIBE_EXACT, headers = map_of [(''x-topic'', [1])],
               body = [9]\<rparr>
   \<and> wellformed_headers [(''authorization'', [2]), (''x-topic'', [1])]
   \<and> STANDARD_MINIMAL_HEADERS_BY_TYPE SUBSCRIBE_EXACT
       = Some (map fst [(''authorization'', [2 :: byte]), (''x-topic'', [1])])
   \<and> parse_websocket_message [0, 1, 0, 2, 0, 1, 2, 0, 1, 1, 9]
       = Inr \<lparr>flags = 1, mtype = SUBSCRIBE_EXACT,
               headers = map_of [(''authorization'', [2]), (''x-topic'', [1])], body = [9]\<rparr>
   \<and> wellformed_headers (notify_stream_part0_headers [] [7] [0] [1] [0] [2] [2] [3])
   \<and> outgoing_value CONTINUE_NOTIFY = parsed_value NOTIFY_STREAM
   \<and> from_bytes [0] = 0
   \<and> parse_websocket_message
         [0, 1, 0, 7, 0, 0, 0, 1, 7, 0, 1, 0, 0, 1, 1, 0, 1, 0, 0, 1, 2, 0, 1, 2, 0, 1, 3, 9]
       = Inr \<lparr>flags = 1, mtype = NOTIFY_STREAM,
               headers = map_of (notify_stream_part0_headers [] [7] [0] [1] [0] [2] [2] [3]),
               body = [9]\<rparr>
   \<and> list_ex (\<lambda>v. length v > 65535) (map snd [(''x-topic'', replicate 65536 (0 :: byte))])
   \<and> make_websocket_message 0 CONFIRM_NOTIFY [(''x-topic'', replicate 65536 0)] []
       = Inl OverflowError"
proof -
  let ?h0 = "[(''x-topic'', [1 :: byte])]"
  let ?h1 = "[(''authorization'', [2 :: byte]), (''x-topic'', [1])]"
  let ?h3 = "[(''x-topic'', replicate 65536 (0 :: byte))]"
  note wf_eval = wellformed_headers_def is_ascii_name_def is_lower_name_def
    notify_stream_part0_headers_def
  have w0: "wellformed_headers ?h0" by (simp add: wf_eval)
  have v0: "outgoing_value CONFIRM_SUBSCRIBE_EXACT = parsed_value SUBSCRIBE_EXACT" by simp
  have w1: "wellformed_headers ?h1" by (simp add: wf_eval)
  have n1: "STANDARD_MINIMAL_HEADERS_BY_TYPE SUBSCRIBE_EXACT = Some (map fst ?h1)" by simp
  have w2: "wellformed_headers (notify_stream_part0_headers [] [7] [0] [1] [0] [2] [2] [3])"
    by (simp add: wf_eval)
  have v2: "outgoing_value CONTINUE_NOTIFY = parsed_value NOTIFY_STREAM" by simp
  have z: "from_bytes [0] = 0" by (simp add: from_bytes_def)
  have l2: "length [7 :: byte] \<le> 64" "length [0 :: byte] \<le> 8" by simp_all
  have x3: "list_ex (\<lambda>v. length v > 65535) (map snd ?h3)" by simp
  have m0: "make_websocket_message 0 CONFIRM_SUBSCRIBE_EXACT ?h0 [9]
       = Inr [0, 0, 0, 2, 0, 1, 0, 7, 120, 45, 116, 111, 112, 105, 99, 0, 1, 1, 9]"
    by (simp add: codec_eval)
  have m1: "make_websocket_message 1 CONFIRM_SUBSCRIBE_EXACT ?h1 [9]
       = Inr [0, 1, 0, 2, 0, 1, 2, 0, 1, 1, 9]"
    by (simp add: codec_eval)
  have m2: "make_websocket_message 1 CONTINUE_NOTIFY
              (notify_stream_part0_headers [] [7] [0] [1] [0] [2] [2] [3]) [9]
       = Inr [0, 1, 0, 7, 0, 0, 0, 1, 7, 0, 1, 0, 0, 1, 1, 0, 1, 0, 0, 1, 2, 0, 1, 2, 0, 1, 3, 9]"
    by (simp add: codec_eval notify_stream_part0_headers_def)
  have m3: "make_websocket_message 0 CONFIRM_NOTIFY ?h3 [] = Inl OverflowError"
    by (simp add: codec_eval)
  note t = C8_roundtrip [of ?h0 CONFIRM_SUBSCRIBE_EXACT SUBSCRIBE_EXACT "[9]"
      ?h1 CONFIRM_SUBSCRIBE_EXACT SUBSCRIBE_EXACT "[9]"
      "[]" "[7]" "[0]" "[1]" "[0]" "[2]" "[2]" "[3]" CONTINUE_NOTIFY "[9]"
      ?h3 0 CONFIRM_NOTIFY "[]"]
  note t0 = t [THEN conjunct1, rule_format, OF conjI [OF w0 v0]]
  note t1 = t [THEN conjunct2, THEN conjunct1, rule_format, OF conjI [OF w1 conjI [OF v0 n1]]]
  note t2 = t [THEN conjunct2, THEN conjunct2, THEN conjunct1, rule_format,
      OF conjI [OF w2 conjI [OF v2 conjI [OF l2(1) conjI [OF l2(2) z]]]]]
  note t3 = t [THEN conjunct2, THEN conjunct2, THEN conjunct2, rule_format, OF x3]
  have p0: "parse_websocket_message
         [0, 0, 0, 2, 0, 1, 0, 7, 120, 45, 116, 111, 112, 105, 99, 0, 1, 1, 9]
       = Inr \<lparr>flags = 0, mtype = SUBSCRIBE_EXACT, headers = map_of ?h0, body = [9]\<rparr>"
    using t0 unfolding m0 by blast
  have p1: "parse_websocket_message [0, 1, 0, 2, 0, 1, 2, 0, 1, 1, 9]
       = Inr \<lparr>flags = 1, mtype = SUBSCRIBE_EXACT, headers = map_of ?h1, body = [9]\<rparr>"
    using t1 unfolding m1 by blast
  have p2: "parse_websocket_message
         [0, 1, 0, 7, 0, 0, 0, 1, 7, 0, 1, 0, 0, 1, 1, 0, 1, 0, 0, 1, 2, 0, 1, 2, 0, 1, 3, 9]
       = Inr \<lparr>flags = 1, mtype = NOTIFY_STREAM,
               headers = map_of (notify_stream_part0_headers [] [7] [0] [1] [0] [2] [2] [3]),
               body = [9]\<rparr>"
    using t2 unfolding m2 by blast
  from t3 have f3: "\<exists>e. make_websocket_message 0 CONFIRM_NOTIFY ?h3 [] = Inl e" .
  show ?thesis
    by (intro conjI) (fact w0 v0 m0 p0 w1 n1 p1 w2 v2 z p2 x3 m3)+
qed

end
